theory Spec2Isabelle
  imports Complex_Main "HOL-Library.Char_ord" "HOL-Library.List_Lexorder" "HOL-Library.Multiset"
    "HOL-Library.Product_Lexorder"
begin

section \<open>Base-36 fractional index algebra\<close>

text \<open>
  Index strings are JavaScript strings over the alphabet \<open>0..9a..z\<close>; they are modelled as
  \<open>string\<close> (a \<open>char list\<close>). The relational operators of the source on two strings
  (\<open>a >= b\<close>, \<open>candidate > a\<close>) compare code units lexicographically, which is the order
  of \<^theory_text>\<open>List_Lexorder\<close> over \<^theory_text>\<open>Char_ord\<close>. A parameter of type
  \<open>string | null | undefined\<close> is a \<open>string option\<close>; the source tests it with \<open>!a\<close>,
  which also holds for the empty string.
\<close>

datatype error =
    InvalidCharacter char          \<comment> \<open>\<open>Invalid character: c\<close>\<close>
  | ValueOutOfRange int            \<comment> \<open>\<open>Value out of range: v\<close>\<close>
  | InvalidRange string string     \<comment> \<open>\<open>Invalid range: a >= b\<close>\<close>
  | InvalidIndex nat string        \<comment> \<open>\<open>Invalid index i for string s\<close>\<close>
  | NoStringExists string string   \<comment> \<open>\<open>No string exists between "a" and "b" in base36 encoding\<close>\<close>
  | PrefixCase string string       \<comment> \<open>\<open>Invalid case: b is a prefix of a\<close>\<close>

definition BASE36_DIGITS :: string where
  "BASE36_DIGITS = ''0123456789abcdefghijklmnopqrstuvwxyz''"

definition BASE :: int where
  "BASE = int (length BASE36_DIGITS)"

text \<open>\<open>String.prototype.indexOf\<close> with a one-character needle: the first position, or \<open>-1\<close>.\<close>

fun indexOf :: "string \<Rightarrow> char \<Rightarrow> int" where
  "indexOf [] c = -1"
| "indexOf (x # xs) c =
     (if x = c then 0 else (let r = indexOf xs c in if r = -1 then -1 else r + 1))"

text \<open>\<open>s[i]\<close>: the character at \<open>i\<close>, or \<open>undefined\<close> (here \<open>None\<close>) out of range.\<close>

definition charAt :: "string \<Rightarrow> nat \<Rightarrow> char option" where
  "charAt s i = (if i < length s then Some (s ! i) else None)"

text \<open>\<open>!a\<close> on a \<open>string | null | undefined\<close>.\<close>

fun falsy :: "string option \<Rightarrow> bool" where
  "falsy None = True"
| "falsy (Some s) = (s = [])"

definition charToValue :: "char \<Rightarrow> error + int" where
  "charToValue c =
     (let index = indexOf BASE36_DIGITS c
      in if index = -1 then Inl (InvalidCharacter c) else Inr index)"

definition valueToChar :: "int \<Rightarrow> error + char" where
  "valueToChar v =
     (if v < 0 \<or> v \<ge> BASE then Inl (ValueOutOfRange v)
      else Inr (BASE36_DIGITS ! nat v))"

text \<open>The loop \<open>while (i < b.length && b[i] === "0") i++\<close>, started at \<open>i\<close>.\<close>

function skipZeros :: "string \<Rightarrow> nat \<Rightarrow> nat" where
  "skipZeros b i = (if i < length b \<and> b ! i = CHR ''0'' then skipZeros b (i + 1) else i)"
  by pat_completeness auto
termination
  by (relation "measure (\<lambda>(b, i). length b - i)") auto

declare skipZeros.simps [simp del]

text \<open>The loop \<open>while (i >= 0 && a[i] === "z") i--\<close>, started at \<open>i\<close>; it may end at \<open>-1\<close>.\<close>

function lastNonZ :: "string \<Rightarrow> int \<Rightarrow> int" where
  "lastNonZ a i = (if i \<ge> 0 \<and> a ! nat i = CHR ''z'' then lastNonZ a (i - 1) else i)"
  by pat_completeness auto
termination
  by (relation "measure (\<lambda>(a, i). nat (i + 1))") auto

declare lastNonZ.simps [simp del]

text \<open>The loop \<open>while (i < a.length && i < b.length && a[i] === b[i]) i++\<close>, started at \<open>i\<close>.\<close>

function firstDifference :: "string \<Rightarrow> string \<Rightarrow> nat \<Rightarrow> nat" where
  "firstDifference a b i =
     (if i < length a \<and> i < length b \<and> a ! i = b ! i then firstDifference a b (i + 1) else i)"
  by pat_completeness auto
termination
  by (relation "measure (\<lambda>(a, b, i). length a - i)") auto

declare firstDifference.simps [simp del]

definition generateKeyBefore :: "string \<Rightarrow> error + string" where
  "generateKeyBefore b =
     (if b = [] then Inr ''m''
      else
        let i = skipZeros b 0 in
        if i = length b then Inr (''0'' @ b)
        else
          (case charAt b i of
             None \<Rightarrow> Inl (InvalidIndex i b)
           | Some char \<Rightarrow>
               (case charToValue char of
                  Inl e \<Rightarrow> Inl e
                | Inr val \<Rightarrow>
                    if i = 0 \<and> val > 1 then
                      (case valueToChar (val div 2) of
                         Inl e \<Rightarrow> Inl e
                       | Inr c \<Rightarrow> Inr [c])
                    else
                      let prefix = take i b in
                      if val > 1 then
                        (case valueToChar (val div 2) of
                           Inl e \<Rightarrow> Inl e
                         | Inr c \<Rightarrow> Inr (prefix @ [c]))
                      else Inr (prefix @ ''0h''))))"

definition generateKeyAfter :: "string \<Rightarrow> error + string" where
  "generateKeyAfter a =
     (if a = [] then Inr ''m''
      else
        let i = lastNonZ a (int (length a) - 1) in
        if i = -1 then Inr (a @ ''h'')
        else
          let prefix = take (nat i) a in
          (case charAt a (nat i) of
             None \<Rightarrow> Inl (InvalidIndex (nat i) a)
           | Some char \<Rightarrow>
               (case charToValue char of
                  Inl e \<Rightarrow> Inl e
                | Inr val \<Rightarrow>
                    if val < BASE - 2 then
                      (case valueToChar (val + 1) of
                         Inl e \<Rightarrow> Inl e
                       | Inr c \<Rightarrow> Inr (prefix @ [c]))
                    else Inr (a @ ''h''))))"

text \<open>
  The branch of \<open>generateKeyBetween\<close> taken when \<open>a\<close> is a prefix of \<open>b\<close> (\<open>i === a.length\<close>).
  The inner loop counts \<open>zeroCount\<close> and advances \<open>j\<close> together from \<open>j = i\<close>, so
  \<open>zeroCount = j - i\<close> when it ends.
\<close>

definition betweenPrefixCase :: "string \<Rightarrow> string \<Rightarrow> nat \<Rightarrow> error + string" where
  "betweenPrefixCase a b i =
     (case charAt b i of
        None \<Rightarrow> Inl (InvalidIndex i b)
      | Some nextChar \<Rightarrow>
          (case charToValue nextChar of
             Inl e \<Rightarrow> Inl e
           | Inr nextVal \<Rightarrow>
               if nextVal > 0 then
                 (let midVal = nextVal div 2 in
                  if midVal > 0 then
                    (case valueToChar midVal of
                       Inl e \<Rightarrow> Inl e
                     | Inr c \<Rightarrow> Inr (a @ [c]))
                  else Inr (a @ ''0''))
               else
                 (if length b > i + 1 then
                    (let j = skipZeros b i; zeroCount = j - i in
                     if j = length b \<and> zeroCount > 1 then
                       Inr (a @ replicate (zeroCount div 2) (CHR ''0''))
                     else if j < length b then
                       (let prefix = a @ replicate (j - i) (CHR ''0'') in
                        case charAt b j of
                          None \<Rightarrow> Inl (InvalidIndex j b)
                        | Some nextChar2 \<Rightarrow>
                            (case charToValue nextChar2 of
                               Inl e \<Rightarrow> Inl e
                             | Inr nextVal2 \<Rightarrow>
                                 if nextVal2 > 0 then
                                   (case valueToChar (nextVal2 div 2) of
                                      Inl e \<Rightarrow> Inl e
                                    | Inr c \<Rightarrow> Inr (prefix @ [c]))
                                 else Inl (NoStringExists a b)))
                     else Inl (NoStringExists a b))
                  else Inl (NoStringExists a b))))"

text \<open>The rest of \<open>generateKeyBetween\<close>, once \<open>a\<close> is not a prefix of \<open>b\<close>.\<close>

definition betweenDivergentCase :: "string \<Rightarrow> string \<Rightarrow> nat \<Rightarrow> error + string" where
  "betweenDivergentCase a b i =
     (if i = length b then Inl (PrefixCase b a)
      else
        (case (charAt a i, charAt b i) of
           (Some aChar, Some bChar) \<Rightarrow>
             (case charToValue aChar of
                Inl e \<Rightarrow> Inl e
              | Inr aVal \<Rightarrow>
                  (case charToValue bChar of
                     Inl e \<Rightarrow> Inl e
                   | Inr bVal \<Rightarrow>
                       if bVal - aVal > 1 then
                         (let midVal = (aVal + bVal) div 2 in
                          case valueToChar midVal of
                            Inl e \<Rightarrow> Inl e
                          | Inr c \<Rightarrow> Inr (take i a @ [c] @ drop (i + 1) a))
                       else if i + 1 < length a then
                         (let prefix = take (i + 1) a; remaining = drop (i + 1) a in
                          case generateKeyAfter remaining of
                            Inl e \<Rightarrow> Inl e
                          | Inr suffix \<Rightarrow> Inr (prefix @ suffix))
                       else Inr (take (i + 1) a @ ''h'')))
         | _ \<Rightarrow> Inl (InvalidIndex i a)))"

definition generateKeyBetween :: "string option \<Rightarrow> string option \<Rightarrow> error + string" where
  "generateKeyBetween a b =
     (if falsy a \<and> falsy b then Inr ''m''
      else if falsy a then generateKeyBefore (case b of Some s \<Rightarrow> s | None \<Rightarrow> [])
      else if falsy b then generateKeyAfter (case a of Some s \<Rightarrow> s | None \<Rightarrow> [])
      else
        (case (a, b) of
           (Some a, Some b) \<Rightarrow>
             if a \<ge> b then Inl (InvalidRange a b)
             else
               let i = firstDifference a b 0 in
               if i = length a then betweenPrefixCase a b i
               else betweenDivergentCase a b i
         | _ \<Rightarrow> Inr ''m''))"

definition isValidFractionalIndex :: "string \<Rightarrow> bool" where
  "isValidFractionalIndex index = (index \<noteq> [] \<and> (\<forall>c \<in> set index. c \<in> set BASE36_DIGITS))"


subsection \<open>Jitter\<close>

text \<open>
  A \<open>JitterProvider\<close> is an object with two methods and hidden mutable state. It is modelled
  as a pair of step functions over an explicit state \<open>'s\<close>: each call returns its answer and
  the next state. \<open>random()\<close> returns a number, \<open>randomInt(max)\<close> an integer.
  The constant \<open>0.3\<close> of the source is a double; \<open>JITTER_THRESHOLD\<close> is its exact value,
  so that \<open>r < JITTER_THRESHOLD\<close> is the source's \<open>random() < 0.3\<close> for every double \<open>r\<close>.
\<close>

record 's JitterProvider =
  random :: "'s \<Rightarrow> real \<times> 's"
  randomInt :: "int \<Rightarrow> 's \<Rightarrow> int \<times> 's"

definition JITTER_THRESHOLD :: real where
  "JITTER_THRESHOLD = 5404319552844595 / 18014398509481984"

text \<open>The provider \<open>{ random: () => 0, randomInt: () => 0 }\<close> used by \<open>needsRebalancing\<close>.\<close>

definition zeroJitter :: "unit JitterProvider" where
  "zeroJitter = \<lparr> random = (\<lambda>s. (0, s)), randomInt = (\<lambda>max s. (0, s)) \<rparr>"

text \<open>
  \<open>fractionalIndexBetween\<close>: \<open>generateKeyBetween\<close> runs first (an error leaves the provider
  untouched); \<open>random()\<close> is always called, \<open>randomInt(BASE)\<close> only when the key is extended.
\<close>

definition fractionalIndexBetween ::
  "string option \<Rightarrow> string option \<Rightarrow> 's JitterProvider \<Rightarrow> 's \<Rightarrow> error + (string \<times> 's)" where
  "fractionalIndexBetween a b jitterProvider s =
     (case generateKeyBetween a b of
        Inl e \<Rightarrow> Inl e
      | Inr key \<Rightarrow>
          (case random jitterProvider s of
             (r, s1) \<Rightarrow>
               if r < JITTER_THRESHOLD \<and> length key < 10 then
                 (case randomInt jitterProvider BASE s1 of
                    (n, s2) \<Rightarrow>
                      (case valueToChar n of
                         Inl e \<Rightarrow> Inl e
                       | Inr suffix \<Rightarrow>
                           let candidate = key @ [suffix];
                               isValid =
                                 ((falsy a \<or> (case a of Some x \<Rightarrow> candidate > x | None \<Rightarrow> False)) \<and>
                                  (falsy b \<or> (case b of Some y \<Rightarrow> candidate < y | None \<Rightarrow> False)))
                           in if isValid then Inr (candidate, s2) else Inr (key, s2)))
               else Inr (key, s1)))"

section \<open>Rebalancing and cell operations\<close>

text \<open>
  Records of this part prefix their fields by an abbreviation of the record, because
  the result types of the source share field names (\<open>events\<close>, \<open>needsRebalancing\<close>) with
  each other and with functions.

  Functions that draw jitter take the provider and its state and return the new state with
  their result. The catch blocks of the source only resume after \<open>No string exists between\<close>
  and \<open>Invalid range\<close>, which \<open>generateKeyBetween\<close> raises before any jitter is drawn:
  the model resumes from the state it had before the call.
\<close>

datatype CellType = CellCode | CellMarkdown | CellSql | CellRaw | CellAi

record CellReference =
  cr_id :: string
  cr_fractionalIndex :: "string option"
  cr_cellType :: CellType

datatype CellEvent =
    CellMoved2 string string "string option"
      \<comment> \<open>\<open>events.cellMoved2({ id, fractionalIndex, actorId })\<close>\<close>
  | CellCreated2 string string CellType string
      \<comment> \<open>\<open>events.cellCreated2({ id, fractionalIndex, cellType, createdBy })\<close>\<close>

record RebalanceResult =
  rb_newIndices :: "(string \<times> string) list"   \<comment> \<open>\<open>{ cellId, fractionalIndex }[]\<close>\<close>
  rb_events :: "CellEvent list"

record FallbackResult =
  fb_index :: string
  fb_needsRebalancing :: bool
  fb_rebalanceResult :: "RebalanceResult option"

record MoveWithRebalancingResult =
  mr_moveEvent :: "CellEvent option"
  mr_rebalanceResult :: "RebalanceResult option"
  mr_needsRebalancing :: bool

record CellOperationResult =
  co_events :: "CellEvent list"
  co_newCellId :: string
  co_needsRebalancing :: bool
  co_rebalanceCount :: "nat option"

record MoveOperationResult =
  mo_events :: "CellEvent list"
  mo_moved :: bool
  mo_needsRebalancing :: bool
  mo_rebalanceCount :: "nat option"

text \<open>The loop of \<open>generateFractionalIndices\<close>: \<open>n\<close> keys, each after the previous one.\<close>

fun generateLoop ::
  "nat \<Rightarrow> string option \<Rightarrow> string option \<Rightarrow> 's JitterProvider \<Rightarrow> 's \<Rightarrow> error + (string list \<times> 's)" where
  "generateLoop 0 prev b jitterProvider s = Inr ([], s)"
| "generateLoop (Suc n) prev b jitterProvider s =
     (case fractionalIndexBetween prev b jitterProvider s of
        Inl e \<Rightarrow> Inl e
      | Inr (key, s1) \<Rightarrow>
          (case generateLoop n (Some key) b jitterProvider s1 of
             Inl e \<Rightarrow> Inl e
           | Inr (keys, s2) \<Rightarrow> Inr (key # keys, s2)))"

definition generateFractionalIndices ::
  "string option \<Rightarrow> string option \<Rightarrow> int \<Rightarrow> 's JitterProvider \<Rightarrow> 's \<Rightarrow> error + (string list \<times> 's)" where
  "generateFractionalIndices a b n jitterProvider s =
     (if n \<le> 0 then Inr ([], s)
      else if n = 1 then
        (case fractionalIndexBetween a b jitterProvider s of
           Inl e \<Rightarrow> Inl e
         | Inr (key, s1) \<Rightarrow> Inr ([key], s1))
      else generateLoop (nat n) a b jitterProvider s)"

text \<open>
  \<open>[...cells].sort((a, b) => (a.fractionalIndex || "").localeCompare(b.fractionalIndex || ""))\<close>.
  \<open>String.prototype.localeCompare\<close> compares by the collation of the default locale of the
  process. It belongs to the runtime, not to the repository: the comparison is the parameter
  \<open>localeCompare\<close> of every function that sorts cells, with \<open>localeCompare x y\<close> negative,
  zero or positive as \<open>x.localeCompare(y)\<close> is. The comparison of a collation is consistent
  (a total preorder), and for a consistent comparison \<open>Array.prototype.sort\<close>, which is
  stable, has one possible result: the cells in ascending order, cells that compare equal in
  the order of the input. Insertion from the right computes that list. The comparison looks
  at the index only; the id of a cell plays no part in it.
\<close>

definition indexOrEmpty :: "CellReference \<Rightarrow> string" where
  "indexOrEmpty c = (case cr_fractionalIndex c of None \<Rightarrow> [] | Some x \<Rightarrow> x)"

fun insertByFractionalIndex ::
  "(string \<Rightarrow> string \<Rightarrow> int) \<Rightarrow> CellReference \<Rightarrow> CellReference list \<Rightarrow> CellReference list" where
  "insertByFractionalIndex localeCompare c [] = [c]"
| "insertByFractionalIndex localeCompare c (d # ds) =
     (if localeCompare (indexOrEmpty c) (indexOrEmpty d) \<le> 0 then c # d # ds
      else d # insertByFractionalIndex localeCompare c ds)"

definition sortByFractionalIndex ::
  "(string \<Rightarrow> string \<Rightarrow> int) \<Rightarrow> CellReference list \<Rightarrow> CellReference list" where
  "sortByFractionalIndex localeCompare cells =
     foldr (insertByFractionalIndex localeCompare) cells []"

text \<open>
  A value for the parameter: the comparison that \<open>localeCompare\<close> makes between strings
  over \<open>0..9a..z\<close> in a locale whose collation has no rule of its own for these characters
  (the root collation, \<open>en-US\<close>): digits before letters, letters in the order of the alphabet,
  a string before its extensions. On these strings it is the order of the code units. Closed
  examples are computed with it; it says nothing about other strings or other locales.
\<close>

definition codeUnitCompare :: "string \<Rightarrow> string \<Rightarrow> int" where
  "codeUnitCompare x y = (if x < y then -1 else if x = y then 0 else 1)"

text \<open>
  The test of the catch blocks: the message includes \<open>No string exists between\<close> or
  \<open>Invalid range\<close>.
\<close>

fun isNoStringExists :: "error \<Rightarrow> bool" where
  "isNoStringExists (NoStringExists a b) = True"
| "isNoStringExists _ = False"

fun isInvalidRange :: "error \<Rightarrow> bool" where
  "isInvalidRange (InvalidRange a b) = True"
| "isInvalidRange _ = False"

text \<open>
  One \<open>try { fractionalIndexBetween(x, y, zero jitter) } catch\<close> of \<open>needsRebalancing\<close>:
  true when the call raises one of the two errors; any other error is swallowed.
\<close>

definition cannotInsertBetween :: "string option \<Rightarrow> string option \<Rightarrow> bool" where
  "cannotInsertBetween x y =
     (case fractionalIndexBetween x y zeroJitter () of
        Inl e \<Rightarrow> isNoStringExists e \<or> isInvalidRange e
      | Inr r \<Rightarrow> False)"

text \<open>The loop of \<open>needsRebalancing\<close> over the adjacent pairs of the sorted cells.\<close>

fun adjacentPairBlocked :: "CellReference list \<Rightarrow> bool" where
  "adjacentPairBlocked (c1 # c2 # rest) =
     (if falsy (cr_fractionalIndex c1) \<or> falsy (cr_fractionalIndex c2)
      then adjacentPairBlocked (c2 # rest)
      else if cannotInsertBetween (cr_fractionalIndex c1) (cr_fractionalIndex c2) then True
      else adjacentPairBlocked (c2 # rest))"
| "adjacentPairBlocked cells = False"

text \<open>\<open>xs[i]\<close> for a number \<open>i\<close>: \<open>undefined\<close> (here \<open>None\<close>) out of range.\<close>

definition nthOpt :: "'a list \<Rightarrow> int \<Rightarrow> 'a option" where
  "nthOpt xs i = (if 0 \<le> i \<and> i < int (length xs) then Some (xs ! nat i) else None)"

definition needsRebalancing ::
  "(string \<Rightarrow> string \<Rightarrow> int) \<Rightarrow> CellReference list \<Rightarrow> int option \<Rightarrow> bool" where
  "needsRebalancing localeCompare cells insertPosition =
     (if length cells < 2 then False
      else
        let sortedCells = sortByFractionalIndex localeCompare cells in
        if adjacentPairBlocked sortedCells then True
        else
          (case insertPosition of
             None \<Rightarrow> False
           | Some pos \<Rightarrow>
               let beforeCell = (if pos > 0 then nthOpt sortedCells (pos - 1) else None);
                   afterCell = (if pos < int (length sortedCells) then nthOpt sortedCells pos else None)
               in (case (beforeCell, afterCell) of
                     (Some bc, Some ac) \<Rightarrow>
                       cannotInsertBetween (cr_fractionalIndex bc) (cr_fractionalIndex ac)
                   | _ \<Rightarrow> False)))"

text \<open>
  The assignment loop of \<open>rebalanceCellIndices\<close>, from position \<open>i\<close> of the sorted cells:
  it returns the entries pushed to \<open>newIndices\<close> and to \<open>moveEvents\<close>.
\<close>

fun assignLoop ::
  "CellReference list \<Rightarrow> int \<Rightarrow> string list \<Rightarrow> int \<Rightarrow> string \<Rightarrow> (string \<times> string) list \<times> CellEvent list" where
  "assignLoop [] i indices bufferCells actorId = ([], [])"
| "assignLoop (cell # rest) i indices bufferCells actorId =
     (let (newIndices, moveEvents) = assignLoop rest (i + 1) indices bufferCells actorId in
      case nthOpt indices (i + bufferCells) of
        None \<Rightarrow> (newIndices, moveEvents)
      | Some newIndex \<Rightarrow>
          if newIndex = [] then (newIndices, moveEvents)
          else if cr_fractionalIndex cell \<noteq> Some newIndex then
            ((cr_id cell, newIndex) # newIndices,
             CellMoved2 (cr_id cell) newIndex (Some actorId) # moveEvents)
          else (newIndices, moveEvents))"

text \<open>
  \<open>rebalanceCellIndices(cells, { jitterProvider, actorId = "system", bufferCells = 2 })\<close>:
  an option left out is \<open>None\<close>.
\<close>

definition rebalanceCellIndices ::
  "(string \<Rightarrow> string \<Rightarrow> int) \<Rightarrow> CellReference list \<Rightarrow> 's JitterProvider \<Rightarrow> 's \<Rightarrow> string option \<Rightarrow> int option \<Rightarrow>
   error + (RebalanceResult \<times> 's)" where
  "rebalanceCellIndices localeCompare cells jitterProvider s actorIdOpt bufferCellsOpt =
     (let actorId = (case actorIdOpt of None \<Rightarrow> ''system'' | Some a \<Rightarrow> a);
          bufferCells = (case bufferCellsOpt of None \<Rightarrow> 2 | Some n \<Rightarrow> n)
      in if length cells = 0 then Inr (\<lparr> rb_newIndices = [], rb_events = [] \<rparr>, s)
         else
           let sortedCells = sortByFractionalIndex localeCompare cells;
               totalPositions = int (length cells) + bufferCells * 2
           in (case generateFractionalIndices None None totalPositions jitterProvider s of
                 Inl e \<Rightarrow> Inl e
               | Inr (indices, s1) \<Rightarrow>
                   (case assignLoop sortedCells 0 indices bufferCells actorId of
                      (newIndices, moveEvents) \<Rightarrow>
                        Inr (\<lparr> rb_newIndices = newIndices, rb_events = moveEvents \<rparr>, s1))))"

text \<open>\<open>newIndices.sort()\<close> orders strings by code units.\<close>

definition calculateInsertionIndexAfterRebalancing ::
  "int \<Rightarrow> RebalanceResult \<Rightarrow> 's JitterProvider \<Rightarrow> 's \<Rightarrow> error + (string \<times> 's)" where
  "calculateInsertionIndexAfterRebalancing insertPosition rebalanceResult jitterProvider s =
     (let newIndices = sort (map snd (rb_newIndices rebalanceResult)) in
      if insertPosition = 0 then
        fractionalIndexBetween None (nthOpt newIndices 0) jitterProvider s
      else if insertPosition \<ge> int (length newIndices) then
        fractionalIndexBetween (nthOpt newIndices (int (length newIndices) - 1)) None jitterProvider s
      else
        fractionalIndexBetween (nthOpt newIndices (insertPosition - 1))
          (nthOpt newIndices insertPosition) jitterProvider s)"

definition fractionalIndexBetweenWithFallback ::
  "(string \<Rightarrow> string \<Rightarrow> int) \<Rightarrow> string option \<Rightarrow> string option \<Rightarrow> CellReference list \<Rightarrow> int option \<Rightarrow> 's JitterProvider \<Rightarrow> 's \<Rightarrow>
   error + (FallbackResult \<times> 's)" where
  "fractionalIndexBetweenWithFallback localeCompare a b allCells insertPosition jitterProvider s =
     (case fractionalIndexBetween a b jitterProvider s of
        Inr (index, s1) \<Rightarrow>
          Inr (\<lparr> fb_index = index, fb_needsRebalancing = False, fb_rebalanceResult = None \<rparr>, s1)
      | Inl e \<Rightarrow>
          if (isNoStringExists e \<or> isInvalidRange e) \<and>
             length allCells > 0 \<and> needsRebalancing localeCompare allCells insertPosition
          then
            (case rebalanceCellIndices localeCompare allCells jitterProvider s None None of
               Inl e' \<Rightarrow> Inl e'
             | Inr (rebalanceResult, s1) \<Rightarrow>
                 let position = (case insertPosition of None \<Rightarrow> int (length allCells) | Some p \<Rightarrow> p)
                 in (case calculateInsertionIndexAfterRebalancing position rebalanceResult jitterProvider s1 of
                       Inl e' \<Rightarrow> Inl e'
                     | Inr (insertionIndex, s2) \<Rightarrow>
                         Inr (\<lparr> fb_index = insertionIndex, fb_needsRebalancing = True,
                                fb_rebalanceResult = Some rebalanceResult \<rparr>, s2)))
          else Inl e)"

text \<open>
  \<open>moveCellBetween\<close> compares the index of the cell with \<open>previousKey!\<close> and \<open>nextKey!\<close>,
  which are \<open>null\<close> when a bound cell is given without an index. JavaScript then compares
  numbers: \<open>x > null\<close> is \<open>Number(x) > 0\<close> and \<open>x < null\<close> is \<open>Number(x) < 0\<close>. The two
  tests on \<open>Number(x)\<close> are parameters of the model.
\<close>

record NullComparison =
  greaterThanNull :: "string \<Rightarrow> bool"
  lessThanNull :: "string \<Rightarrow> bool"

fun jsGreater :: "NullComparison \<Rightarrow> string \<Rightarrow> string option \<Rightarrow> bool" where
  "jsGreater N x (Some y) = (x > y)"
| "jsGreater N x None = greaterThanNull N x"

fun jsLess :: "NullComparison \<Rightarrow> string \<Rightarrow> string option \<Rightarrow> bool" where
  "jsLess N x (Some y) = (x < y)"
| "jsLess N x None = lessThanNull N x"

text \<open>\<open>cell?.fractionalIndex || null\<close>\<close>

fun keyOf :: "CellReference option \<Rightarrow> string option" where
  "keyOf None = None"
| "keyOf (Some c) = (if falsy (cr_fractionalIndex c) then None else cr_fractionalIndex c)"

definition moveCellBetween ::
  "NullComparison \<Rightarrow> CellReference \<Rightarrow> CellReference option \<Rightarrow> CellReference option \<Rightarrow> string option \<Rightarrow>
   's JitterProvider \<Rightarrow> 's \<Rightarrow> error + (CellEvent option \<times> 's)" where
  "moveCellBetween N cell cellBefore cellAfter actorId jitterProvider s =
     (case cr_fractionalIndex cell of
        None \<Rightarrow> Inr (None, s)
      | Some cellIndex \<Rightarrow>
          if cellIndex = [] then Inr (None, s)
          else
            let previousKey = keyOf cellBefore;
                nextKey = keyOf cellAfter;
                alreadyThere =
                  (if cellBefore \<noteq> None \<and> cellAfter \<noteq> None then
                     jsGreater N cellIndex previousKey \<and> jsLess N cellIndex nextKey
                   else if cellBefore = None \<and> cellAfter \<noteq> None then jsLess N cellIndex nextKey
                   else if cellBefore \<noteq> None \<and> cellAfter = None then jsGreater N cellIndex previousKey
                   else False)
            in if alreadyThere then Inr (None, s)
               else
                 (case fractionalIndexBetween previousKey nextKey jitterProvider s of
                    Inl e \<Rightarrow> Inl e
                  | Inr (fractionalIndex, s1) \<Rightarrow>
                      Inr (Some (CellMoved2 (cr_id cell) fractionalIndex actorId), s1)))"

text \<open>
  \<open>moveCellWithRebalancing(cell, cellBefore, cellAfter, allCells, { actorId = "user", jitterProvider })\<close>.
  Its catch block resumes only after \<open>No string exists between\<close>.
\<close>

definition moveCellWithRebalancing ::
  "(string \<Rightarrow> string \<Rightarrow> int) \<Rightarrow> NullComparison \<Rightarrow> CellReference \<Rightarrow> CellReference option \<Rightarrow> CellReference option \<Rightarrow>
   CellReference list \<Rightarrow> string option \<Rightarrow> 's JitterProvider \<Rightarrow> 's \<Rightarrow>
   error + (MoveWithRebalancingResult \<times> 's)" where
  "moveCellWithRebalancing localeCompare N cell cellBefore cellAfter allCells actorIdOpt jitterProvider s =
     (let actorId = (case actorIdOpt of None \<Rightarrow> ''user'' | Some a \<Rightarrow> a);
          rebalanceCheck =
            (if needsRebalancing localeCompare allCells None then
               (case rebalanceCellIndices localeCompare allCells jitterProvider s
                       (Some (actorId @ ''-rebalance'')) None of
                  Inl e \<Rightarrow> Inl e
                | Inr (rebalanceResult, s1) \<Rightarrow>
                    Inr (\<lparr> mr_moveEvent = None, mr_rebalanceResult = Some rebalanceResult,
                           mr_needsRebalancing = True \<rparr>, s1))
             else Inr (\<lparr> mr_moveEvent = None, mr_rebalanceResult = None,
                         mr_needsRebalancing = False \<rparr>, s))
      in case moveCellBetween N cell cellBefore cellAfter (Some actorId) jitterProvider s of
           Inr (Some moveEvent, s1) \<Rightarrow>
             Inr (\<lparr> mr_moveEvent = Some moveEvent, mr_rebalanceResult = None,
                    mr_needsRebalancing = False \<rparr>, s1)
         | Inr (None, s1) \<Rightarrow> rebalanceCheck
         | Inl e \<Rightarrow> if isNoStringExists e then rebalanceCheck else Inl e)"

text \<open>\<open>allCells.findIndex((c) => c.id === id)\<close>: the first position, or \<open>-1\<close>.\<close>

fun findIndexById :: "CellReference list \<Rightarrow> string \<Rightarrow> int" where
  "findIndexById [] ident = -1"
| "findIndexById (c # cs) ident =
     (if cr_id c = ident then 0
      else (let r = findIndexById cs ident in if r = -1 then -1 else r + 1))"

text \<open>The position computed by both cell operations from the two bounds.\<close>

definition positionBetween ::
  "CellReference option \<Rightarrow> CellReference option \<Rightarrow> CellReference list \<Rightarrow> int \<Rightarrow> int" where
  "positionBetween cellBefore cellAfter allCells atEnd =
     (case (cellBefore, cellAfter) of
        (Some cb, _) \<Rightarrow> findIndexById allCells (cr_id cb) + 1
      | (None, Some ca) \<Rightarrow> findIndexById allCells (cr_id ca)
      | (None, None) \<Rightarrow> atEnd)"

definition createCellBetween ::
  "(string \<Rightarrow> string \<Rightarrow> int) \<Rightarrow> string \<Rightarrow> CellType \<Rightarrow> string \<Rightarrow> CellReference option \<Rightarrow> CellReference option \<Rightarrow>
   CellReference list \<Rightarrow> 's JitterProvider \<Rightarrow> 's \<Rightarrow> error + (CellOperationResult \<times> 's)" where
  "createCellBetween localeCompare ident cellType createdBy cellBefore cellAfter allCells jitterProvider s =
     (let lastIndex =
            (if cellBefore = None \<and> cellAfter = None \<and> length allCells > 0
             then cr_fractionalIndex (last (sortByFractionalIndex localeCompare allCells))
             else None);
          previousKey = (if \<not> falsy lastIndex then lastIndex else keyOf cellBefore);
          nextKey = (if \<not> falsy lastIndex then None else keyOf cellAfter);
          insertPosition = positionBetween cellBefore cellAfter allCells (int (length allCells))
      in case fractionalIndexBetweenWithFallback localeCompare previousKey nextKey allCells
                (Some insertPosition)
                jitterProvider s of
           Inl e \<Rightarrow> Inl e
         | Inr (result, s1) \<Rightarrow>
             let rebalanceEvents =
                   (case fb_rebalanceResult result of
                      Some rebalanceResult \<Rightarrow>
                        if fb_needsRebalancing result then rb_events rebalanceResult else []
                    | None \<Rightarrow> []);
                 createEvent = CellCreated2 ident (fb_index result) cellType createdBy
             in Inr (\<lparr> co_events = rebalanceEvents @ [createEvent],
                       co_newCellId = ident,
                       co_needsRebalancing = fb_needsRebalancing result,
                       co_rebalanceCount =
                         map_option (\<lambda>r. length (rb_newIndices r)) (fb_rebalanceResult result) \<rparr>, s1))"

definition moveCellBetweenWithRebalancing ::
  "(string \<Rightarrow> string \<Rightarrow> int) \<Rightarrow> NullComparison \<Rightarrow> CellReference \<Rightarrow> CellReference option \<Rightarrow> CellReference option \<Rightarrow>
   CellReference list \<Rightarrow> string option \<Rightarrow> 's JitterProvider \<Rightarrow> 's \<Rightarrow>
   error + (MoveOperationResult \<times> 's)" where
  "moveCellBetweenWithRebalancing localeCompare N cell cellBefore cellAfter allCells actorId jitterProvider s =
     (let unmoved = \<lparr> mo_events = [], mo_moved = False, mo_needsRebalancing = False,
                     mo_rebalanceCount = None \<rparr>
      in if falsy (cr_fractionalIndex cell) then Inr (unmoved, s)
         else
           let targetPosition =
                 positionBetween cellBefore cellAfter allCells (int (length allCells) - 1);
               currentPosition = findIndexById allCells (cr_id cell)
           in if currentPosition = targetPosition then Inr (unmoved, s)
              else
                (case moveCellWithRebalancing localeCompare N cell cellBefore cellAfter allCells
                        (if falsy actorId then None else actorId) jitterProvider s of
                   Inl e \<Rightarrow> Inl e
                 | Inr (result, s1) \<Rightarrow>
                     (case (mr_needsRebalancing result, mr_rebalanceResult result) of
                        (True, Some rebalanceResult) \<Rightarrow>
                          Inr (\<lparr> mo_events = rb_events rebalanceResult, mo_moved = True,
                                 mo_needsRebalancing = True,
                                 mo_rebalanceCount = Some (length (rb_newIndices rebalanceResult)) \<rparr>, s1)
                      | _ \<Rightarrow>
                          (case mr_moveEvent result of
                             Some moveEvent \<Rightarrow>
                               Inr (\<lparr> mo_events = [moveEvent], mo_moved = True,
                                      mo_needsRebalancing = False, mo_rebalanceCount = None \<rparr>, s1)
                           | None \<Rightarrow> Inr (unmoved, s1)))))"

text \<open>
  The materializer of \<open>v2.CellMoved\<close> on the columns \<open>id\<close> and \<open>fractionalIndex\<close> of the
  \<open>cells\<close> table: \<open>tables.cells.update({ fractionalIndex }).where({ id })\<close>. Other events
  leave these columns of existing rows as they are.
\<close>

fun applyCellMoved :: "CellEvent \<Rightarrow> CellReference list \<Rightarrow> CellReference list" where
  "applyCellMoved (CellMoved2 ident fractionalIndex actorId) cells =
     map (\<lambda>c. if cr_id c = ident then c\<lparr>cr_fractionalIndex := Some fractionalIndex\<rparr> else c) cells"
| "applyCellMoved (CellCreated2 ident fractionalIndex cellType createdBy) cells = cells"

fun applyCellMoves :: "CellEvent list \<Rightarrow> CellReference list \<Rightarrow> CellReference list" where
  "applyCellMoves [] cells = cells"
| "applyCellMoves (event # events) cells = applyCellMoves events (applyCellMoved event cells)"

text \<open>
  The order of the cells as the documentation gives it, not as any function of the code
  computes it: cells are ordered by \<open>fractionalIndex\<close> ascending, indices compared as
  sequences of code units (the comment above \<open>moveCellBetween\<close>: \<^emph>\<open>lexicographic comparison
  of fractional indices (a < b, not localeCompare)\<close>), and cells of equal index by \<open>id\<close>
  ascending (\<^emph>\<open>secondary sort: cell id comparison when fractional indices are equal\<close>). The
  specification says the same of a cell: ordered by \<open>fractionalIndex\<close> ascending, ties broken
  by \<open>id\<close> ascending, the order of indices being that of their bytes. It is the order
  against which the cell operations are measured. No cell of the properties below lacks an
  index; one that does is placed first here.
\<close>

definition documentedCellOrder :: "CellReference list \<Rightarrow> CellReference list" where
  "documentedCellOrder cells = sort_key (\<lambda>c. (indexOrEmpty c, cr_id c)) cells"

section \<open>State tables and the materializer\<close>

text \<open>
  Only the tables and events that the output protocol touches are modelled: \<open>outputs\<close>,
  \<open>pendingClears\<close>, \<open>output_deltas\<close> and \<open>presence\<close>. A table is the list of its rows;
  the fields of a row are the columns, prefixed by the table (\<open>o_\<close>, \<open>pc_\<close>, \<open>d_\<close>, \<open>p_\<close>)
  because several tables have columns \<open>id\<close> and \<open>cellId\<close>.

  An inline payload (\<open>data: Schema.Any\<close>) is any JavaScript value; its type is the parameter
  \<open>'d\<close>, and the three coercions the materializers apply to it, \<open>String(x)\<close>, the truth
  test of \<open>x || ""\<close> and \<open>JSON.stringify(x)\<close>, are passed as a record of functions.
  \<open>metadata\<close> is never inspected, only stored: it is an opaque text.
\<close>

type_synonym json = string

datatype 'd MediaContainer =
    Inline 'd "json option"          \<comment> \<open>\<open>{ type: "inline", data, metadata? }\<close>\<close>
  | Artifact string "json option"    \<comment> \<open>\<open>{ type: "artifact", artifactId, metadata? }\<close>\<close>

record 'd JsCoercions =
  jsString :: "'d \<Rightarrow> string"
  jsTruthy :: "'d \<Rightarrow> bool"
  jsonStringify :: "'d \<Rightarrow> string"

datatype OutputType = multimedia_display | multimedia_result | terminal | markdown | error_output

record 'd OutputRow =
  o_id :: string
  o_cellId :: string
  o_outputType :: OutputType
  o_position :: real
  o_streamName :: "string option"
  o_executionCount :: "real option"
  o_displayId :: "string option"
  o_data :: "string option"
  o_artifactId :: "string option"
  o_mimeType :: "string option"
  o_metadata :: "json option"
  o_representations :: "(string \<times> 'd MediaContainer) list option"

record PendingClearRow =
  pc_cellId :: string
  pc_clearedBy :: string

record DeltaRow =
  d_id :: string
  d_outputId :: string
  d_delta :: string
  d_sequenceNumber :: real

record PresenceRow =
  p_userId :: string
  p_cellId :: "string option"

record 'd State =
  outputs :: "'d OutputRow list"
  pendingClears :: "PendingClearRow list"
  outputDeltas :: "DeltaRow list"
  presence :: "PresenceRow list"

text \<open>The events, with their arguments in the order of the schema.\<close>

datatype 'd Event =
    CellOutputsCleared string bool string
      \<comment> \<open>\<open>v1.CellOutputsCleared { cellId, wait, clearedBy }\<close>\<close>
  | MultimediaDisplayOutputAdded string string real "(string \<times> 'd MediaContainer) list" "string option"
      \<comment> \<open>\<open>v1.MultimediaDisplayOutputAdded { id, cellId, position, representations, displayId? }\<close>\<close>
  | MultimediaDisplayOutputUpdated string "(string \<times> 'd MediaContainer) list"
      \<comment> \<open>\<open>v1.MultimediaDisplayOutputUpdated { displayId, representations }\<close>\<close>
  | MultimediaResultOutputAdded string string real "(string \<times> 'd MediaContainer) list" real
      \<comment> \<open>\<open>v1.MultimediaResultOutputAdded { id, cellId, position, representations, executionCount }\<close>\<close>
  | TerminalOutputAdded string string real "'d MediaContainer" string
      \<comment> \<open>\<open>v1.TerminalOutputAdded { id, cellId, position, content, streamName }\<close>\<close>
  | TerminalOutputAppended string "'d MediaContainer"
      \<comment> \<open>\<open>v1.TerminalOutputAppended { outputId, content }\<close>\<close>
  | TerminalOutputAppended2 string string string real
      \<comment> \<open>\<open>v2.TerminalOutputAppended { id, outputId, delta, sequenceNumber }\<close>\<close>
  | MarkdownOutputAdded string string real "'d MediaContainer"
      \<comment> \<open>\<open>v1.MarkdownOutputAdded { id, cellId, position, content }\<close>\<close>
  | MarkdownOutputAppended string "'d MediaContainer"
      \<comment> \<open>\<open>v1.MarkdownOutputAppended { outputId, content }\<close>\<close>
  | MarkdownOutputAppended2 string string string real
      \<comment> \<open>\<open>v2.MarkdownOutputAppended { id, outputId, delta, sequenceNumber }\<close>\<close>
  | ErrorOutputAdded string string real "'d MediaContainer"
      \<comment> \<open>\<open>v1.ErrorOutputAdded { id, cellId, position, content }\<close>\<close>

text \<open>The table operations a materializer returns.\<close>

datatype 'd TableOp =
    OutputsDelete string
      \<comment> \<open>\<open>tables.outputs.delete().where({ cellId })\<close>\<close>
  | OutputsInsert "'d OutputRow"
      \<comment> \<open>\<open>tables.outputs.insert(row).onConflict("id", "replace")\<close>\<close>
  | OutputsUpdateDisplay string string string "(string \<times> 'd MediaContainer) list"
      \<comment> \<open>\<open>tables.outputs.update({ data, mimeType, representations })
            .where({ displayId, outputType: "multimedia_display" })\<close>, as displayId, data, mimeType, representations\<close>
  | OutputsUpdateData string string
      \<comment> \<open>\<open>tables.outputs.update({ data }).where({ id })\<close>, as id, data\<close>
  | PendingClearsInsert string string
      \<comment> \<open>\<open>tables.pendingClears.insert({ cellId, clearedBy }).onConflict("cellId", "replace")\<close>\<close>
  | PendingClearsDelete string
      \<comment> \<open>\<open>tables.pendingClears.delete().where({ cellId })\<close>\<close>
  | OutputDeltasInsert DeltaRow
      \<comment> \<open>\<open>tables.outputDeltas.insert(row)\<close>, with no conflict clause\<close>
  | PresenceInsert string "string option"
      \<comment> \<open>\<open>tables.presence.insert({ userId, cellId }).onConflict("userId", "replace")\<close>\<close>

definition DEFAULT_PREFERRED_MIME_TYPES :: "string list" where
  "DEFAULT_PREFERRED_MIME_TYPES =
     [''application/vnd.plotly.v1+json'',
      ''application/vnd.vegalite.v6+json'',
      ''application/vnd.vegalite.v5+json'',
      ''application/vnd.vegalite.v4+json'',
      ''application/vnd.vegalite.v3+json'',
      ''application/vnd.vegalite.v2+json'',
      ''application/vnd.vega.v5+json'',
      ''application/vnd.vega.v4+json'',
      ''application/vnd.vega.v3+json'',
      ''application/vnd.jupyter.widget-view+json'',
      ''application/vnd.jupyter.widget-state+json'',
      ''application/vnd.dataresource+json'',
      ''application/vdom.v1+json'',
      ''application/geo+json'',
      ''application/json'',
      ''application/javascript'',
      ''text/html'',
      ''image/svg+xml'',
      ''image/png'',
      ''image/jpeg'',
      ''image/gif'',
      ''text/latex'',
      ''text/markdown'',
      ''text/plain'']"

text \<open>
  \<open>selectPrimaryRepresentation\<close>: the first preferred MIME type that is a key of
  \<open>representations\<close> (a container is an object, hence truthy), with its container.
\<close>

fun selectPrimaryRepresentation ::
  "(string \<times> 'd MediaContainer) list \<Rightarrow> string list \<Rightarrow> (string \<times> 'd MediaContainer) option" where
  "selectPrimaryRepresentation representations [] = None"
| "selectPrimaryRepresentation representations (mimeType # rest) =
     (case map_of representations mimeType of
        Some container \<Rightarrow> Some (mimeType, container)
      | None \<Rightarrow> selectPrimaryRepresentation representations rest)"

text \<open>\<open>container.type === "inline" ? String(container.data || "") : ""\<close>\<close>

fun inlineTextOrEmpty :: "'d JsCoercions \<Rightarrow> 'd MediaContainer \<Rightarrow> string" where
  "inlineTextOrEmpty C (Inline d m) = (if jsTruthy C d then jsString C d else [])"
| "inlineTextOrEmpty C (Artifact a m) = []"

fun containerMetadata :: "'d MediaContainer \<Rightarrow> json option" where
  "containerMetadata (Inline d m) = m"
| "containerMetadata (Artifact a m) = m"

fun containerArtifactId :: "'d MediaContainer \<Rightarrow> string option" where
  "containerArtifactId (Inline d m) = None"
| "containerArtifactId (Artifact a m) = Some a"

text \<open>\<open>ctx.query(tables.pendingClears.select().where({ cellId }).limit(1))[0]\<close>\<close>

definition pendingClearFor :: "'d State \<Rightarrow> string \<Rightarrow> PendingClearRow option" where
  "pendingClearFor ctx cellId = find (\<lambda>r. pc_cellId r = cellId) (pendingClears ctx)"

text \<open>The prelude shared by the five output-add materializers.\<close>

definition pendingClearOps :: "'d State \<Rightarrow> string \<Rightarrow> 'd TableOp list" where
  "pendingClearOps ctx cellId =
     (case pendingClearFor ctx cellId of
        Some pendingClear \<Rightarrow> [OutputsDelete cellId, PendingClearsDelete cellId]
      | None \<Rightarrow> [])"

definition updateExistingDisplays ::
  "'d JsCoercions \<Rightarrow> string \<Rightarrow> (string \<times> 'd MediaContainer) list \<Rightarrow> 'd State \<Rightarrow> 'd TableOp list" where
  "updateExistingDisplays C displayId representations ctx =
     (let existingOutputs =
            filter (\<lambda>r. o_displayId r = Some displayId \<and> o_outputType r = multimedia_display)
              (outputs ctx)
      in if length existingOutputs = 0 then []
         else
           (case selectPrimaryRepresentation representations DEFAULT_PREFERRED_MIME_TYPES of
              None \<Rightarrow> []
            | Some (mimeType, container) \<Rightarrow>
                [OutputsUpdateDisplay displayId (inlineTextOrEmpty C container) mimeType representations]))"

text \<open>\<open>updatePresence(userId, cellId)\<close>, with \<open>cellId || null\<close>.\<close>

definition updatePresence :: "string \<Rightarrow> string \<Rightarrow> 'd TableOp" where
  "updatePresence userId cellId = PresenceInsert userId (if cellId = [] then None else Some cellId)"

definition RESULT_PREFERENCE_ORDER :: "string list" where
  "RESULT_PREFERENCE_ORDER =
     [''text/html'', ''image/png'', ''image/jpeg'', ''image/svg+xml'', ''application/json'', ''text/plain'']"

text \<open>
  The materializers. \<open>ctx\<close> is the state the queries read; the operations returned are
  applied afterwards, in order.
\<close>

fun materialize :: "'d JsCoercions \<Rightarrow> 'd Event \<Rightarrow> 'd State \<Rightarrow> 'd TableOp list" where
  "materialize C (CellOutputsCleared cellId wait clearedBy) ctx =
     (if wait then [PendingClearsInsert cellId clearedBy] else [OutputsDelete cellId]) @
     (if clearedBy \<noteq> [] then [updatePresence clearedBy cellId] else [])"
| "materialize C (MultimediaDisplayOutputAdded ident cellId position representations displayId) ctx =
     pendingClearOps ctx cellId @
     (case displayId of
        Some d \<Rightarrow> if d \<noteq> [] then updateExistingDisplays C d representations ctx else []
      | None \<Rightarrow> []) @
     (let primaryRep = selectPrimaryRepresentation representations DEFAULT_PREFERRED_MIME_TYPES;
          primaryData = (case primaryRep of Some (m, container) \<Rightarrow> inlineTextOrEmpty C container | None \<Rightarrow> []);
          primaryMimeType = (case primaryRep of Some (m, container) \<Rightarrow> m | None \<Rightarrow> ''text/plain'')
      in [OutputsInsert
            \<lparr> o_id = ident, o_cellId = cellId, o_outputType = multimedia_display,
              o_position = position, o_streamName = None, o_executionCount = None,
              o_displayId = (if falsy displayId then None else displayId),
              o_data = Some primaryData, o_artifactId = None, o_mimeType = Some primaryMimeType,
              o_metadata = None, o_representations = Some representations \<rparr>])"
| "materialize C (MultimediaDisplayOutputUpdated displayId representations) ctx =
     updateExistingDisplays C displayId representations ctx"
| "materialize C (MultimediaResultOutputAdded ident cellId position representations executionCount) ctx =
     pendingClearOps ctx cellId @
     (let primaryRep = selectPrimaryRepresentation representations RESULT_PREFERENCE_ORDER;
          primaryData = (case primaryRep of Some (m, rep) \<Rightarrow> inlineTextOrEmpty C rep | None \<Rightarrow> []);
          primaryMimeType = (case primaryRep of Some (m, rep) \<Rightarrow> m | None \<Rightarrow> ''text/plain'')
      in [OutputsInsert
            \<lparr> o_id = ident, o_cellId = cellId, o_outputType = multimedia_result,
              o_position = position, o_streamName = None, o_executionCount = Some executionCount,
              o_displayId = None,
              o_data = Some primaryData, o_artifactId = None, o_mimeType = Some primaryMimeType,
              o_metadata = None, o_representations = Some representations \<rparr>])"
| "materialize C (TerminalOutputAdded ident cellId position content streamName) ctx =
     pendingClearOps ctx cellId @
     [OutputsInsert
        \<lparr> o_id = ident, o_cellId = cellId, o_outputType = terminal,
          o_position = position, o_streamName = Some streamName, o_executionCount = None,
          o_displayId = None,
          o_data = (case content of Inline d m \<Rightarrow> Some (jsString C d) | Artifact a m \<Rightarrow> None),
          o_artifactId = containerArtifactId content, o_mimeType = Some ''text/plain'',
          o_metadata = containerMetadata content, o_representations = None \<rparr>]"
| "materialize C (TerminalOutputAppended outputId content) ctx =
     (case find (\<lambda>r. o_id r = outputId) (outputs ctx) of
        None \<Rightarrow> []
      | Some existingOutput \<Rightarrow>
          let newContent = (case content of Inline d m \<Rightarrow> jsString C d | Artifact a m \<Rightarrow> []);
              concatenatedData =
                (case o_data existingOutput of Some old \<Rightarrow> old | None \<Rightarrow> []) @ newContent
          in [OutputsUpdateData outputId concatenatedData])"
| "materialize C (TerminalOutputAppended2 ident outputId delta sequenceNumber) ctx =
     [OutputDeltasInsert
        \<lparr> d_id = ident, d_outputId = outputId, d_delta = delta, d_sequenceNumber = sequenceNumber \<rparr>]"
| "materialize C (MarkdownOutputAdded ident cellId position content) ctx =
     pendingClearOps ctx cellId @
     [OutputsInsert
        \<lparr> o_id = ident, o_cellId = cellId, o_outputType = markdown,
          o_position = position, o_streamName = None, o_executionCount = None,
          o_displayId = None,
          o_data = (case content of Inline d m \<Rightarrow> Some (jsString C d) | Artifact a m \<Rightarrow> None),
          o_artifactId = containerArtifactId content, o_mimeType = Some ''text/markdown'',
          o_metadata = containerMetadata content, o_representations = None \<rparr>]"
| "materialize C (MarkdownOutputAppended outputId content) ctx =
     (case find (\<lambda>r. o_id r = outputId) (outputs ctx) of
        None \<Rightarrow> []
      | Some existingOutput \<Rightarrow>
          let newContent = (case content of Inline d m \<Rightarrow> jsString C d | Artifact a m \<Rightarrow> []);
              concatenatedData =
                (case o_data existingOutput of Some old \<Rightarrow> old | None \<Rightarrow> []) @ newContent
          in [OutputsUpdateData outputId concatenatedData])"
| "materialize C (MarkdownOutputAppended2 ident outputId delta sequenceNumber) ctx =
     [OutputDeltasInsert
        \<lparr> d_id = ident, d_outputId = outputId, d_delta = delta, d_sequenceNumber = sequenceNumber \<rparr>]"
| "materialize C (ErrorOutputAdded ident cellId position content) ctx =
     pendingClearOps ctx cellId @
     [OutputsInsert
        \<lparr> o_id = ident, o_cellId = cellId, o_outputType = error_output,
          o_position = position, o_streamName = None, o_executionCount = None,
          o_displayId = None,
          o_data = (case content of Inline d m \<Rightarrow> Some (jsonStringify C d) | Artifact a m \<Rightarrow> None),
          o_artifactId = containerArtifactId content, o_mimeType = Some ''application/json'',
          o_metadata = containerMetadata content, o_representations = None \<rparr>]"

subsection \<open>Applying table operations\<close>

text \<open>
  Modelled from the spec: the SQL store behind the table API is not part of the sources
  (the spec treats it as an opaque table API), so the effect of an operation is written
  as SQL defines it. A \<open>delete().where\<close> removes the matching rows and an \<open>update().where\<close>
  rewrites the named columns of the matching rows. An insert with \<open>onConflict(key, "replace")\<close>
  removes the row that has the same primary key, if any, and adds the new row; columns that
  the insert does not name take their default, \<open>NULL\<close>. An insert without a conflict clause
  fails on a primary key that is already present: the result is \<open>None\<close>.
\<close>

fun applyOp :: "'d TableOp \<Rightarrow> 'd State \<Rightarrow> 'd State option" where
  "applyOp (OutputsDelete cellId) s =
     Some (s\<lparr>outputs := filter (\<lambda>r. o_cellId r \<noteq> cellId) (outputs s)\<rparr>)"
| "applyOp (OutputsInsert row) s =
     Some (s\<lparr>outputs := filter (\<lambda>r. o_id r \<noteq> o_id row) (outputs s) @ [row]\<rparr>)"
| "applyOp (OutputsUpdateDisplay displayId dat mimeType representations) s =
     Some (s\<lparr>outputs :=
             map (\<lambda>r. if o_displayId r = Some displayId \<and> o_outputType r = multimedia_display
                       then r\<lparr>o_data := Some dat, o_mimeType := Some mimeType,
                              o_representations := Some representations\<rparr>
                       else r)
               (outputs s)\<rparr>)"
| "applyOp (OutputsUpdateData ident dat) s =
     Some (s\<lparr>outputs := map (\<lambda>r. if o_id r = ident then r\<lparr>o_data := Some dat\<rparr> else r) (outputs s)\<rparr>)"
| "applyOp (PendingClearsInsert cellId clearedBy) s =
     Some (s\<lparr>pendingClears :=
             filter (\<lambda>r. pc_cellId r \<noteq> cellId) (pendingClears s) @
               [\<lparr> pc_cellId = cellId, pc_clearedBy = clearedBy \<rparr>]\<rparr>)"
| "applyOp (PendingClearsDelete cellId) s =
     Some (s\<lparr>pendingClears := filter (\<lambda>r. pc_cellId r \<noteq> cellId) (pendingClears s)\<rparr>)"
| "applyOp (OutputDeltasInsert row) s =
     (if d_id row \<in> set (map d_id (outputDeltas s)) then None
      else Some (s\<lparr>outputDeltas := outputDeltas s @ [row]\<rparr>))"
| "applyOp (PresenceInsert userId cellId) s =
     Some (s\<lparr>presence :=
             filter (\<lambda>r. p_userId r \<noteq> userId) (presence s) @
               [\<lparr> p_userId = userId, p_cellId = cellId \<rparr>]\<rparr>)"

fun applyOps :: "'d TableOp list \<Rightarrow> 'd State \<Rightarrow> 'd State option" where
  "applyOps [] s = Some s"
| "applyOps (op # ops) s = (case applyOp op s of None \<Rightarrow> None | Some s' \<Rightarrow> applyOps ops s')"

text \<open>One event: its materializer reads the current state, then its operations are applied.\<close>

definition applyEvent :: "'d JsCoercions \<Rightarrow> 'd Event \<Rightarrow> 'd State \<Rightarrow> 'd State option" where
  "applyEvent C event s = applyOps (materialize C event s) s"

fun applyEvents :: "'d JsCoercions \<Rightarrow> 'd Event list \<Rightarrow> 'd State \<Rightarrow> 'd State option" where
  "applyEvents C [] s = Some s"
| "applyEvents C (event # events) s =
     (case applyEvent C event s of None \<Rightarrow> None | Some s' \<Rightarrow> applyEvents C events s')"

text \<open>
  The coercions on payloads that are strings: \<open>String(x)\<close> is \<open>x\<close>, \<open>x\<close> is truthy unless
  empty, and \<open>JSON.stringify(x)\<close> quotes \<open>x\<close>, escaping the quote, the backslash and the
  control characters.
\<close>

definition hexDigit :: "nat \<Rightarrow> char" where
  "hexDigit n = ''0123456789abcdef'' ! (n mod 16)"

definition quoteJSONChar :: "char \<Rightarrow> string" where
  "quoteJSONChar c =
     (if c = CHR 0x22 then [CHR 0x5C, CHR 0x22]
      else if c = CHR 0x5C then [CHR 0x5C, CHR 0x5C]
      else if c = CHR 0x08 then [CHR 0x5C, CHR ''b'']
      else if c = CHR 0x0C then [CHR 0x5C, CHR ''f'']
      else if c = CHR 0x0A then [CHR 0x5C, CHR ''n'']
      else if c = CHR 0x0D then [CHR 0x5C, CHR ''r'']
      else if c = CHR 0x09 then [CHR 0x5C, CHR ''t'']
      else if (of_char c :: nat) < 32 then
        [CHR 0x5C, CHR ''u'', CHR ''0'', CHR ''0'', hexDigit (of_char c div 16), hexDigit (of_char c)]
      else [c])"

definition stringPayload :: "string JsCoercions" where
  "stringPayload =
     \<lparr> jsString = (\<lambda>x. x),
       jsTruthy = (\<lambda>x. x \<noteq> []),
       jsonStringify = (\<lambda>x. [CHR 0x22] @ concat (map quoteJSONChar x) @ [CHR 0x22]) \<rparr>"

text \<open>
  An output-add event, with the id of the output it adds and the cell it adds it to.
\<close>

fun outputAdd :: "'d Event \<Rightarrow> (string \<times> string) option" where
  "outputAdd (MultimediaDisplayOutputAdded ident cellId position representations displayId) = Some (ident, cellId)"
| "outputAdd (MultimediaResultOutputAdded ident cellId position representations executionCount) = Some (ident, cellId)"
| "outputAdd (TerminalOutputAdded ident cellId position content streamName) = Some (ident, cellId)"
| "outputAdd (MarkdownOutputAdded ident cellId position content) = Some (ident, cellId)"
| "outputAdd (ErrorOutputAdded ident cellId position content) = Some (ident, cellId)"
| "outputAdd _ = None"

section \<open>Properties of the index algebra\<close>

subsection \<open>Digits and their values\<close>

lemma length_digits: "length BASE36_DIGITS = 36"
  by (simp add: BASE36_DIGITS_def)

lemma BASE_eq: "BASE = 36"
  by (simp add: BASE_def length_digits)

lemma digits_sorted: "sorted_wrt (<) BASE36_DIGITS"
  by (simp add: BASE36_DIGITS_def)

lemma digits_nth_less: "i < j \<Longrightarrow> j < 36 \<Longrightarrow> BASE36_DIGITS ! i < BASE36_DIGITS ! j"
  using sorted_wrt_nth_less [OF digits_sorted, of i j] by (simp add: length_digits)

lemma digits_nth_mem: "n < 36 \<Longrightarrow> BASE36_DIGITS ! n \<in> set BASE36_DIGITS"
  by (simp add: length_digits)

lemma indexOf_lower: "- 1 \<le> indexOf xs c"
  by (induction xs) (auto simp: Let_def)

lemma indexOf_mem:
  "c \<in> set xs \<Longrightarrow> 0 \<le> indexOf xs c \<and> indexOf xs c < int (length xs) \<and> xs ! nat (indexOf xs c) = c"
proof (induction xs)
  case Nil
  then show ?case by simp
next
  case (Cons x xs)
  show ?case
  proof (cases "x = c")
    case True
    then show ?thesis by simp
  next
    case False
    with Cons.prems have "c \<in> set xs" by simp
    from Cons.IH [OF this] False show ?thesis
      by (auto simp: Let_def nat_add_distrib)
  qed
qed

lemma indexOf_notmem: "c \<notin> set xs \<Longrightarrow> indexOf xs c = - 1"
  by (induction xs) (auto simp: Let_def)

lemma charToValue_valid:
  assumes "c \<in> set BASE36_DIGITS"
  shows "\<exists>v. charToValue c = Inr v \<and> 0 \<le> v \<and> v < 36 \<and> BASE36_DIGITS ! nat v = c"
  using indexOf_mem [OF assms] by (auto simp: charToValue_def Let_def length_digits)

lemma charToValue_InrD:
  assumes "charToValue c = Inr v"
  shows "0 \<le> v \<and> v < 36 \<and> BASE36_DIGITS ! nat v = c \<and> c \<in> set BASE36_DIGITS"
proof (cases "c \<in> set BASE36_DIGITS")
  case True
  from charToValue_valid [OF this] assms show ?thesis using True by auto
next
  case False
  from indexOf_notmem [OF this] assms show ?thesis by (simp add: charToValue_def)
qed

lemma valueToChar_ok:
  "0 \<le> v \<Longrightarrow> v < 36 \<Longrightarrow> valueToChar v = Inr (BASE36_DIGITS ! nat v)"
  by (simp add: valueToChar_def BASE_eq)

lemma digit_zero: "BASE36_DIGITS ! 0 = CHR ''0''"
  by (simp add: BASE36_DIGITS_def)

lemma h_valid: "CHR ''h'' \<in> set BASE36_DIGITS" and zero_valid: "CHR ''0'' \<in> set BASE36_DIGITS"
  and m_valid: "CHR ''m'' \<in> set BASE36_DIGITS"
  by (simp_all add: BASE36_DIGITS_def)

lemma value_less_char_less:
  assumes "charToValue c = Inr v" "charToValue d = Inr w" "v < w"
  shows "c < d"
proof -
  from charToValue_InrD [OF assms(1)] charToValue_InrD [OF assms(2)] assms(3)
  have "nat v < nat w" "nat w < 36" "BASE36_DIGITS ! nat v = c" "BASE36_DIGITS ! nat w = d"
    by auto
  then show ?thesis using digits_nth_less by blast
qed

lemma digit_less:
  assumes "charToValue d = Inr w" "0 \<le> v" "v < w"
  shows "BASE36_DIGITS ! nat v < d"
proof -
  from charToValue_InrD [OF assms(1)] assms(2,3)
  have "nat v < nat w" "nat w < 36" "BASE36_DIGITS ! nat w = d" by auto
  then show ?thesis using digits_nth_less by blast
qed

lemma digit_greater:
  assumes "charToValue c = Inr v" "v < w" "w < 36"
  shows "c < BASE36_DIGITS ! nat w"
proof -
  from charToValue_InrD [OF assms(1)] assms(2,3)
  have "nat v < nat w" "nat w < 36" "BASE36_DIGITS ! nat v = c" by auto
  then show ?thesis using digits_nth_less by blast
qed

lemma charToValue_zero_iff:
  assumes "charToValue c = Inr v"
  shows "v = 0 \<longleftrightarrow> c = CHR ''0''"
proof
  assume "v = 0"
  with charToValue_InrD [OF assms] show "c = CHR ''0''" by (simp add: digit_zero)
next
  assume c: "c = CHR ''0''"
  have "charToValue CHR ''0'' = Inr 0" by (simp add: charToValue_def BASE36_DIGITS_def)
  with assms c show "v = 0" by simp
qed

subsection \<open>The lexicographic order on strings\<close>

lemma less_append_same: "(p @ x < p @ y) = (x < (y :: string))"
  by (induction p) auto

lemma less_append_proper: "ys \<noteq> [] \<Longrightarrow> xs < xs @ (ys :: string)"
  using less_append_same [of xs "[]" ys] by (cases ys) auto

lemma replicate_less: "n < m \<Longrightarrow> replicate n c < replicate m (c :: char)"
proof -
  assume "n < m"
  then have "replicate m c = replicate n c @ replicate (m - n) c" "replicate (m - n) c \<noteq> []"
    by (simp_all add: replicate_add [symmetric])
  then show ?thesis using less_append_proper by metis
qed

subsection \<open>What the scanning loops compute\<close>

lemma skipZeros_spec:
  "i \<le> length b \<Longrightarrow>
     i \<le> skipZeros b i \<and> skipZeros b i \<le> length b \<and>
     (\<forall>k. i \<le> k \<and> k < skipZeros b i \<longrightarrow> b ! k = CHR ''0'') \<and>
     (skipZeros b i < length b \<longrightarrow> b ! skipZeros b i \<noteq> CHR ''0'')"
proof (induction b i rule: skipZeros.induct)
  case (1 b i)
  show ?case
  proof (cases "i < length b \<and> b ! i = CHR ''0''")
    case True
    then have eq: "skipZeros b i = skipZeros b (i + 1)" by (subst skipZeros.simps) simp
    from True have "i + 1 \<le> length b" by simp
    from "1.IH" [OF True this]
    have a: "i + 1 \<le> skipZeros b (i + 1)" and b: "skipZeros b (i + 1) \<le> length b"
      and c: "\<And>k. i + 1 \<le> k \<Longrightarrow> k < skipZeros b (i + 1) \<Longrightarrow> b ! k = CHR ''0''"
      and d: "skipZeros b (i + 1) < length b \<longrightarrow> b ! skipZeros b (i + 1) \<noteq> CHR ''0''"
      by auto
    have "b ! k = CHR ''0''" if "i \<le> k" "k < skipZeros b (i + 1)" for k
    proof (cases "k = i")
      case True
      with \<open>i < length b \<and> b ! i = CHR ''0''\<close> show ?thesis by simp
    next
      case False
      with that have "i + 1 \<le> k" by simp
      then show ?thesis using c that by blast
    qed
    with a b d show ?thesis unfolding eq by auto
  next
    case False
    have eq: "skipZeros b i = i" by (subst skipZeros.simps) (simp add: False)
    from False "1.prems" show ?thesis unfolding eq by auto
  qed
qed

lemma skipZeros_drop:
  assumes "i \<le> length b"
  shows "drop i b = replicate (skipZeros b i - i) (CHR ''0'') @ drop (skipZeros b i) b"
proof -
  let ?j = "skipZeros b i"
  from skipZeros_spec [OF assms] have ij: "i \<le> ?j" "?j \<le> length b"
    and z: "\<forall>k. i \<le> k \<and> k < ?j \<longrightarrow> b ! k = CHR ''0''" by auto
  have "take (?j - i) (drop i b) = replicate (?j - i) (CHR ''0'')"
    using ij z by (intro nth_equalityI) auto
  moreover have "drop (?j - i) (drop i b) = drop ?j b" using ij by simp
  ultimately show ?thesis by (metis append_take_drop_id)
qed

lemma firstDifference_spec:
  "i \<le> length a \<Longrightarrow> i \<le> length b \<Longrightarrow>
     i \<le> firstDifference a b i \<and> firstDifference a b i \<le> length a \<and> firstDifference a b i \<le> length b \<and>
     (\<forall>k. i \<le> k \<and> k < firstDifference a b i \<longrightarrow> a ! k = b ! k) \<and>
     (firstDifference a b i < length a \<and> firstDifference a b i < length b
        \<longrightarrow> a ! firstDifference a b i \<noteq> b ! firstDifference a b i)"
proof (induction a b i rule: firstDifference.induct)
  case (1 a b i)
  show ?case
  proof (cases "i < length a \<and> i < length b \<and> a ! i = b ! i")
    case True
    then have eq: "firstDifference a b i = firstDifference a b (i + 1)"
      by (subst firstDifference.simps) simp
    let ?j = "firstDifference a b (i + 1)"
    from True have "i + 1 \<le> length a" "i + 1 \<le> length b" by simp_all
    from "1.IH" [OF True this]
    have a: "i + 1 \<le> ?j" and b: "?j \<le> length a" "?j \<le> length b"
      and c: "\<And>k. i + 1 \<le> k \<Longrightarrow> k < ?j \<Longrightarrow> a ! k = b ! k"
      and d: "?j < length a \<and> ?j < length b \<longrightarrow> a ! ?j \<noteq> b ! ?j"
      by auto
    have "a ! k = b ! k" if "i \<le> k" "k < ?j" for k
    proof (cases "k = i")
      case True
      with \<open>i < length a \<and> i < length b \<and> a ! i = b ! i\<close> show ?thesis by simp
    next
      case False
      with that have "i + 1 \<le> k" by simp
      then show ?thesis using c that by blast
    qed
    with a b d show ?thesis unfolding eq by auto
  next
    case False
    have eq: "firstDifference a b i = i" by (subst firstDifference.simps) (simp add: False)
    from False "1.prems" show ?thesis unfolding eq by auto
  qed
qed

lemma lastNonZ_spec:
  "- 1 \<le> i \<Longrightarrow> i < int (length a) \<Longrightarrow>
     - 1 \<le> lastNonZ a i \<and> lastNonZ a i \<le> i \<and>
     (\<forall>k. lastNonZ a i < k \<and> k \<le> i \<longrightarrow> a ! nat k = CHR ''z'') \<and>
     (0 \<le> lastNonZ a i \<longrightarrow> a ! nat (lastNonZ a i) \<noteq> CHR ''z'')"
proof (induction a i rule: lastNonZ.induct)
  case (1 a i)
  show ?case
  proof (cases "i \<ge> 0 \<and> a ! nat i = CHR ''z''")
    case True
    then have eq: "lastNonZ a i = lastNonZ a (i - 1)" by (subst lastNonZ.simps) simp
    let ?r = "lastNonZ a (i - 1)"
    from True "1.prems" have "- 1 \<le> i - 1" "i - 1 < int (length a)" by simp_all
    from "1.IH" [OF True this]
    have a: "- 1 \<le> ?r" and b: "?r \<le> i - 1"
      and c: "\<And>k. ?r < k \<Longrightarrow> k \<le> i - 1 \<Longrightarrow> a ! nat k = CHR ''z''"
      and d: "0 \<le> ?r \<longrightarrow> a ! nat ?r \<noteq> CHR ''z''"
      by auto
    have "a ! nat k = CHR ''z''" if "?r < k" "k \<le> i" for k
    proof (cases "k = i")
      case True
      with \<open>i \<ge> 0 \<and> a ! nat i = CHR ''z''\<close> show ?thesis by simp
    next
      case False
      with that have "k \<le> i - 1" by simp
      then show ?thesis using c that by blast
    qed
    with a b d show ?thesis unfolding eq by auto
  next
    case False
    have eq: "lastNonZ a i = i" by (subst lastNonZ.simps) (simp add: False)
    from False "1.prems" show ?thesis unfolding eq by auto
  qed
qed

lemma isValid_iff: "isValidFractionalIndex k \<longleftrightarrow> k \<noteq> [] \<and> set k \<subseteq> set BASE36_DIGITS"
  by (auto simp: isValidFractionalIndex_def)

lemma generateKeyAfter_correct:
  assumes va: "set a \<subseteq> set BASE36_DIGITS"
  shows "\<exists>k. generateKeyAfter a = Inr k \<and> a < k \<and> isValidFractionalIndex k"
proof (cases "a = []")
  case True
  then show ?thesis by (simp add: generateKeyAfter_def isValid_iff m_valid)
next
  case ne: False
  let ?r = "lastNonZ a (int (length a) - 1)"
  have ext: "a < a @ ''h'' \<and> isValidFractionalIndex (a @ ''h'')"
    using va h_valid by (simp add: less_append_proper isValid_iff)
  from ne lastNonZ_spec [of "int (length a) - 1" a]
  have r: "- 1 \<le> ?r" "?r \<le> int (length a) - 1" by auto
  show ?thesis
  proof (cases "?r = - 1")
    case True
    with ne ext show ?thesis by (simp add: generateKeyAfter_def)
  next
    case rf: False
    with r have r0: "0 \<le> ?r" "nat ?r < length a" by auto
    let ?c = "a ! nat ?r"
    from r0 va have "?c \<in> set BASE36_DIGITS" by (meson nth_mem subsetD)
    from charToValue_valid [OF this] obtain v where
      v: "charToValue ?c = Inr v" "0 \<le> v" "v < 36" by blast
    have ca: "charAt a (nat ?r) = Some ?c" using r0 by (simp add: charAt_def)
    show ?thesis
    proof (cases "v < 34")
      case True
      let ?d = "BASE36_DIGITS ! nat (v + 1)"
      have vc: "valueToChar (v + 1) = Inr ?d" using v True by (intro valueToChar_ok) auto
      have res: "generateKeyAfter a = Inr (take (nat ?r) a @ [?d])"
        using ne rf ca v True vc by (simp add: generateKeyAfter_def BASE_eq Let_def)
      have "?c < ?d" using digit_greater [OF v(1), of "v + 1"] True by simp
      moreover have "a = take (nat ?r) a @ ?c # drop (Suc (nat ?r)) a"
        using r0 by (simp add: id_take_nth_drop [symmetric])
      ultimately have "a < take (nat ?r) a @ [?d]"
        by (metis Cons_less_Cons less_append_same)
      moreover have "?d \<in> set BASE36_DIGITS" using v True by (intro digits_nth_mem) auto
      moreover have "set (take (nat ?r) a) \<subseteq> set BASE36_DIGITS"
        using va by (meson set_take_subset subset_trans)
      ultimately show ?thesis using res by (simp add: isValid_iff)
    next
      case False
      then have "generateKeyAfter a = Inr (a @ ''h'')"
        using ne rf ca v by (simp add: generateKeyAfter_def BASE_eq Let_def)
      with ext show ?thesis by simp
    qed
  qed
qed

lemma generateKeyBefore_correct:
  assumes vb: "set b \<subseteq> set BASE36_DIGITS" and nz: "\<exists>c \<in> set b. c \<noteq> CHR ''0''"
  shows "\<exists>k. generateKeyBefore b = Inr k \<and> k < b \<and> isValidFractionalIndex k"
proof -
  let ?i = "skipZeros b 0"
  from nz have ne: "b \<noteq> []" by auto
  from skipZeros_spec [of 0 b]
  have le: "?i \<le> length b" and z: "\<And>k. k < ?i \<Longrightarrow> b ! k = CHR ''0''"
    and nzi: "?i < length b \<longrightarrow> b ! ?i \<noteq> CHR ''0''" by auto
  have lt: "?i < length b"
  proof (rule ccontr)
    assume "\<not> ?i < length b"
    with le have "?i = length b" by simp
    with z have "\<forall>c \<in> set b. c = CHR ''0''" by (metis in_set_conv_nth)
    with nz show False by blast
  qed
  let ?c = "b ! ?i"
  let ?p = "take ?i b"
  have split: "b = ?p @ ?c # drop (Suc ?i) b" using lt by (simp add: id_take_nth_drop [symmetric])
  have pv: "set ?p \<subseteq> set BASE36_DIGITS" using vb by (meson set_take_subset subset_trans)
  from lt vb have "?c \<in> set BASE36_DIGITS" by (meson nth_mem subsetD)
  from charToValue_valid [OF this] obtain v where
    v: "charToValue ?c = Inr v" "0 \<le> v" "v < 36" by blast
  from nzi lt charToValue_zero_iff [OF v(1)] have v0: "v \<noteq> 0" by simp
  have ca: "charAt b ?i = Some ?c" using lt by (simp add: charAt_def)
  show ?thesis
  proof (cases "v > 1")
    case True
    let ?d = "BASE36_DIGITS ! nat (v div 2)"
    have vc: "valueToChar (v div 2) = Inr ?d" using v True by (intro valueToChar_ok) auto
    have res: "generateKeyBefore b = Inr (?p @ [?d])"
      using ne lt ca v True vc by (auto simp: generateKeyBefore_def Let_def)
    have "?d < ?c" using digit_less [OF v(1), of "v div 2"] True by simp
    then have "?p @ [?d] < ?p @ ?c # drop (Suc ?i) b" by (simp add: less_append_same)
    with split have "?p @ [?d] < b" by simp
    moreover have "?d \<in> set BASE36_DIGITS" using v True by (intro digits_nth_mem) auto
    ultimately show ?thesis using res pv by (simp add: isValid_iff)
  next
    case False
    with v v0 have v1: "v = 1" by simp
    have res: "generateKeyBefore b = Inr (?p @ ''0h'')"
      using ne lt ca v v1 by (auto simp: generateKeyBefore_def Let_def)
    have "CHR ''0'' < ?c" using digit_less [OF v(1), of 0] v1 by (simp add: digit_zero)
    then have "?p @ ''0h'' < ?p @ ?c # drop (Suc ?i) b" by (simp add: less_append_same)
    with split have "?p @ ''0h'' < b" by simp
    then show ?thesis using res pv h_valid zero_valid by (simp add: isValid_iff)
  qed
qed

lemma char_less_value_less:
  assumes "charToValue c = Inr v" "charToValue d = Inr w" "c < d"
  shows "v < w"
proof (rule ccontr)
  assume "\<not> v < w"
  then consider "w < v" | "w = v" by fastforce
  then show False
  proof cases
    case 1
    from value_less_char_less [OF assms(2) assms(1) 1] assms(3) show False by simp
  next
    case 2
    with charToValue_InrD [OF assms(1)] charToValue_InrD [OF assms(2)] have "c = d" by auto
    with assms(3) show False by simp
  qed
qed

lemma betweenPrefixCase_correct:
  assumes va: "set a \<subseteq> set BASE36_DIGITS" and vb: "set b \<subseteq> set BASE36_DIGITS"
    and pre: "take (length a) b = a" and len: "length a < length b"
  shows "(b = a @ ''0'' \<longrightarrow> betweenPrefixCase a b (length a) = Inl (NoStringExists a b)) \<and>
         (b \<noteq> a @ ''0'' \<longrightarrow>
            (\<exists>k. betweenPrefixCase a b (length a) = Inr k \<and> a < k \<and> k < b \<and> set k \<subseteq> set BASE36_DIGITS))"
proof -
  let ?i = "length a"
  let ?y = "b ! ?i"
  let ?ys = "drop (Suc ?i) b"
  have split: "b = a @ ?y # ?ys" using len pre by (metis id_take_nth_drop)
  from len vb have "?y \<in> set BASE36_DIGITS" by (meson nth_mem subsetD)
  from charToValue_valid [OF this] obtain nv where
    nv: "charToValue ?y = Inr nv" "0 \<le> nv" "nv < 36" by blast
  have ca: "charAt b ?i = Some ?y" using len by (simp add: charAt_def)
  show ?thesis
  proof (cases "nv > 0")
    case True
    with charToValue_zero_iff [OF nv(1)] have y0: "?y \<noteq> CHR ''0''" by simp
    then have nb: "b \<noteq> a @ ''0''" by (metis nth_append_length)
    let ?d = "BASE36_DIGITS ! nat (nv div 2)"
    have vc: "valueToChar (nv div 2) = Inr ?d" using nv True by (intro valueToChar_ok) auto
    have dm: "?d \<in> set BASE36_DIGITS" using nv True by (intro digits_nth_mem) auto
    have dl: "?d < ?y" using digit_less [OF nv(1), of "nv div 2"] True by simp
    have k: "a < a @ [?d] \<and> a @ [?d] < b \<and> set (a @ [?d]) \<subseteq> set BASE36_DIGITS"
    proof -
      have "a @ [?d] < a @ ?y # ?ys" using dl by (simp add: less_append_same)
      with split have "a @ [?d] < b" by simp
      then show ?thesis using va dm by (simp add: less_append_proper)
    qed
    show ?thesis
    proof (cases "nv div 2 > 0")
      case True
      then have "betweenPrefixCase a b ?i = Inr (a @ [?d])"
        using ca nv \<open>nv > 0\<close> vc by (simp add: betweenPrefixCase_def Let_def)
      with k nb show ?thesis by simp
    next
      case False
      with nv have "nv div 2 = 0" by simp
      then have d0: "?d = CHR ''0''" by (simp add: digit_zero)
      from False have "betweenPrefixCase a b ?i = Inr (a @ ''0'')"
        using ca nv \<open>nv > 0\<close> by (simp add: betweenPrefixCase_def Let_def)
      with k nb d0 show ?thesis by simp
    qed
  next
    case False
    with nv have nv0: "nv = 0" by simp
    with charToValue_zero_iff [OF nv(1)] have y0: "?y = CHR ''0''" by simp
    show ?thesis
    proof (cases "length b > ?i + 1")
      case False
      with len have "length b = Suc ?i" by simp
      then have "?ys = []" by simp
      with split y0 have b: "b = a @ ''0''" by simp
      have "betweenPrefixCase a b ?i = Inl (NoStringExists a b)"
        using ca nv nv0 False by (simp add: betweenPrefixCase_def)
      with b show ?thesis by simp
    next
      case True
      then have nb: "b \<noteq> a @ ''0''" by auto
      let ?j = "skipZeros b ?i"
      from len skipZeros_spec [of ?i b]
      have ij: "?i \<le> ?j" and jl: "?j \<le> length b"
        and nzj: "?j < length b \<longrightarrow> b ! ?j \<noteq> CHR ''0''" by auto
      from nzj y0 len have "?j \<noteq> ?i" by auto
      with ij have ij': "?i < ?j" by simp
      from len skipZeros_drop [of ?i b]
      have "drop ?i b = replicate (?j - ?i) (CHR ''0'') @ drop ?j b" by simp
      then have bsplit: "b = a @ replicate (?j - ?i) (CHR ''0'') @ drop ?j b"
        using pre by (metis append_take_drop_id)
      show ?thesis
      proof (cases "?j = length b")
        case jb: True
        then have zc: "?j - ?i > 1" using True by simp
        let ?k = "a @ replicate ((?j - ?i) div 2) (CHR ''0'')"
        have res: "betweenPrefixCase a b ?i = Inr ?k"
          using ca nv nv0 True jb zc by (simp add: betweenPrefixCase_def Let_def)
        from jb bsplit have b2: "b = a @ replicate (?j - ?i) (CHR ''0'')" by simp
        have "(?j - ?i) div 2 < ?j - ?i" "0 < (?j - ?i) div 2" using zc by auto
        then have "replicate ((?j - ?i) div 2) (CHR ''0'') < replicate (?j - ?i) (CHR ''0'')"
          "replicate ((?j - ?i) div 2) (CHR ''0'') \<noteq> []"
          by (simp_all add: replicate_less)
        then have "?k < a @ replicate (?j - ?i) (CHR ''0'')" "a < ?k"
          by (simp_all add: less_append_same less_append_proper)
        with b2 have "?k < b" "a < ?k" by simp_all
        moreover have "set ?k \<subseteq> set BASE36_DIGITS" using va zero_valid by auto
        ultimately show ?thesis using res nb by blast
      next
        case False
        with jl have jlt: "?j < length b" by simp
        with nzj have nz: "b ! ?j \<noteq> CHR ''0''" by simp
        from jlt vb have "b ! ?j \<in> set BASE36_DIGITS" by (meson nth_mem subsetD)
        from charToValue_valid [OF this] obtain w where
          w: "charToValue (b ! ?j) = Inr w" "0 \<le> w" "w < 36" by blast
        with charToValue_zero_iff [OF w(1)] nz have w0: "w > 0" by auto
        have cj: "charAt b ?j = Some (b ! ?j)" using jlt by (simp add: charAt_def)
        let ?d = "BASE36_DIGITS ! nat (w div 2)"
        have vc: "valueToChar (w div 2) = Inr ?d" using w by (intro valueToChar_ok) auto
        have dm: "?d \<in> set BASE36_DIGITS" using w by (intro digits_nth_mem) auto
        have dl: "?d < b ! ?j" using digit_less [OF w(1), of "w div 2"] w0 by simp
        let ?z = "replicate (?j - ?i) (CHR ''0'')"
        let ?k = "(a @ ?z) @ [?d]"
        have res: "betweenPrefixCase a b ?i = Inr ?k"
          using ca nv nv0 True False jlt cj w w0 vc by (simp add: betweenPrefixCase_def Let_def)
        have "drop ?j b = b ! ?j # drop (Suc ?j) b" using jlt by (simp add: Cons_nth_drop_Suc)
        with bsplit have b3: "b = (a @ ?z) @ b ! ?j # drop (Suc ?j) b" by simp
        have "?k < (a @ ?z) @ b ! ?j # drop (Suc ?j) b"
          using dl by (simp only: less_append_same Cons_less_Cons) simp
        with b3 have "?k < b" by simp
        moreover have "a < ?k" by (simp add: less_append_proper)
        moreover have "set ?k \<subseteq> set BASE36_DIGITS" using va zero_valid dm by auto
        ultimately show ?thesis using res nb by blast
      qed
    qed
  qed
qed

lemma betweenDivergentCase_correct:
  assumes va: "set a \<subseteq> set BASE36_DIGITS" and vb: "set b \<subseteq> set BASE36_DIGITS"
    and ia: "i < length a" and ib: "i < length b"
    and pre: "take i a = take i b" and lt: "a ! i < b ! i"
  shows "\<exists>k. betweenDivergentCase a b i = Inr k \<and> a < k \<and> k < b \<and> set k \<subseteq> set BASE36_DIGITS"
proof -
  let ?p = "take i a"
  let ?x = "a ! i" and ?y = "b ! i"
  let ?xs = "drop (Suc i) a" and ?ys = "drop (Suc i) b"
  have sa: "a = ?p @ ?x # ?xs" using ia by (simp add: id_take_nth_drop [symmetric])
  have sb: "b = ?p @ ?y # ?ys" using ib pre by (simp add: id_take_nth_drop [symmetric])
  have pv: "set ?p \<subseteq> set BASE36_DIGITS" using va by (meson set_take_subset subset_trans)
  have xsv: "set ?xs \<subseteq> set BASE36_DIGITS" using va by (meson set_drop_subset subset_trans)
  from ia va have xm: "?x \<in> set BASE36_DIGITS" by (meson nth_mem subsetD)
  from ib vb have "?y \<in> set BASE36_DIGITS" by (meson nth_mem subsetD)
  from charToValue_valid [OF this] obtain bv where
    bv: "charToValue ?y = Inr bv" "0 \<le> bv" "bv < 36" by blast
  from charToValue_valid [OF xm] obtain av where
    av: "charToValue ?x = Inr av" "0 \<le> av" "av < 36" by blast
  from char_less_value_less [OF av(1) bv(1) lt] have ab: "av < bv" .
  have ca: "charAt a i = Some ?x" "charAt b i = Some ?y" using ia ib by (simp_all add: charAt_def)
  have below: "?p @ ?x # zs < b" for zs
  proof -
    have "?p @ ?x # zs < ?p @ ?y # ?ys" using lt by (simp add: less_append_same)
    with sb show ?thesis by simp
  qed
  show ?thesis
  proof (cases "bv - av > 1")
    case True
    let ?d = "BASE36_DIGITS ! nat ((av + bv) div 2)"
    have vc: "valueToChar ((av + bv) div 2) = Inr ?d" using av bv by (intro valueToChar_ok) auto
    have dm: "?d \<in> set BASE36_DIGITS" using av bv by (intro digits_nth_mem) auto
    have "?x < ?d" using digit_greater [OF av(1), of "(av + bv) div 2"] True bv by simp
    moreover have "?d < ?y" using digit_less [OF bv(1), of "(av + bv) div 2"] True av by simp
    ultimately have "?p @ ?x # ?xs < ?p @ [?d] @ ?xs" "?p @ [?d] @ ?xs < ?p @ ?y # ?ys"
      by (simp_all add: less_append_same)
    with sa sb have "a < ?p @ [?d] @ ?xs" "?p @ [?d] @ ?xs < b" by simp_all
    moreover have "betweenDivergentCase a b i = Inr (?p @ [?d] @ ?xs)"
      using ib ca av bv True vc by (simp add: betweenDivergentCase_def Let_def)
    moreover have "set (?p @ [?d] @ ?xs) \<subseteq> set BASE36_DIGITS" using pv xsv dm by simp
    ultimately show ?thesis by blast
  next
    case adj: False
    have t1: "take (i + 1) a = ?p @ [?x]" using ia by (simp add: take_Suc_conv_app_nth)
    show ?thesis
    proof (cases "i + 1 < length a")
      case True
      from generateKeyAfter_correct [OF xsv] obtain s where
        s: "generateKeyAfter ?xs = Inr s" "?xs < s" "isValidFractionalIndex s" by blast
      have res: "betweenDivergentCase a b i = Inr (?p @ ?x # s)"
        using ib ca av bv adj True s(1) t1 by (simp add: betweenDivergentCase_def Let_def)
      have "?p @ ?x # ?xs < ?p @ ?x # s" using s(2) by (simp add: less_append_same)
      with sa have "a < ?p @ ?x # s" by simp
      moreover have "set (?p @ ?x # s) \<subseteq> set BASE36_DIGITS"
        using pv xm s(3) by (simp add: isValid_iff)
      ultimately show ?thesis using res below by blast
    next
      case False
      with ia have "?xs = []" by simp
      with sa have sa': "a = ?p @ [?x]" by simp
      have res: "betweenDivergentCase a b i = Inr (?p @ ?x # ''h'')"
        using ib ca av bv adj False t1 by (simp add: betweenDivergentCase_def Let_def)
      have "?p @ [?x] < ?p @ ?x # ''h''" by (simp add: less_append_same)
      with sa' have "a < ?p @ ?x # ''h''" by simp
      moreover have "set (?p @ ?x # ''h'') \<subseteq> set BASE36_DIGITS" using pv xm h_valid by simp
      ultimately show ?thesis using res below by blast
    qed
  qed
qed

lemma firstDifference_cases:
  assumes lt: "a < b"
  shows "(firstDifference a b 0 = length a \<and> take (length a) b = a \<and> length a < length b) \<or>
         (firstDifference a b 0 < length a \<and> firstDifference a b 0 < length b \<and>
          take (firstDifference a b 0) a = take (firstDifference a b 0) b \<and>
          a ! firstDifference a b 0 < b ! firstDifference a b 0)"
proof -
  let ?i = "firstDifference a b 0"
  from firstDifference_spec [of 0 a b]
  have la: "?i \<le> length a" and lb: "?i \<le> length b"
    and eq: "\<And>k. k < ?i \<Longrightarrow> a ! k = b ! k"
    and ne: "?i < length a \<and> ?i < length b \<longrightarrow> a ! ?i \<noteq> b ! ?i" by auto
  have pre: "take ?i a = take ?i b" using la lb eq by (intro nth_equalityI) auto
  show ?thesis
  proof (cases "?i = length a")
    case True
    with pre have p: "take (length a) b = a" by simp
    have "length a < length b"
    proof (rule ccontr)
      assume "\<not> length a < length b"
      with lb True have "length b = length a" by simp
      with p have "a = b" by simp
      with lt show False by simp
    qed
    with True p show ?thesis by simp
  next
    case False
    with la have ia: "?i < length a" by simp
    have ib: "?i < length b"
    proof (rule ccontr)
      assume "\<not> ?i < length b"
      with lb have "?i = length b" by simp
      with pre have "b = take (length b) a" by simp
      then have "a = b @ drop (length b) a" by (metis append_take_drop_id)
      then have "b \<le> a" by (metis less_append_proper append_Nil2 less_imp_le order_refl)
      with lt show False by simp
    qed
    have sa: "a = take ?i a @ a ! ?i # drop (Suc ?i) a" using ia by (simp add: id_take_nth_drop [symmetric])
    have sb: "b = take ?i a @ b ! ?i # drop (Suc ?i) b" using ib pre by (simp add: id_take_nth_drop [symmetric])
    from lt have "take ?i a @ a ! ?i # drop (Suc ?i) a < take ?i a @ b ! ?i # drop (Suc ?i) b"
      using sa sb by simp
    then have "a ! ?i < b ! ?i \<or> a ! ?i = b ! ?i" by (simp add: less_append_same) blast
    with ne ia ib have "a ! ?i < b ! ?i" by simp
    with ia ib pre show ?thesis by simp
  qed
qed

lemma generateKeyBetween_correct:
  assumes va: "isValidFractionalIndex a" and vb: "isValidFractionalIndex b" and lt: "a < b"
  shows "(b = a @ ''0'' \<longrightarrow> generateKeyBetween (Some a) (Some b) = Inl (NoStringExists a b)) \<and>
         (b \<noteq> a @ ''0'' \<longrightarrow>
            (\<exists>k. generateKeyBetween (Some a) (Some b) = Inr k \<and> a < k \<and> k < b \<and> isValidFractionalIndex k))"
proof -
  from va vb have ne: "a \<noteq> []" "b \<noteq> []" and sa: "set a \<subseteq> set BASE36_DIGITS"
    and sb: "set b \<subseteq> set BASE36_DIGITS" by (simp_all add: isValid_iff)
  from lt have nge: "\<not> b \<le> a" by simp
  let ?i = "firstDifference a b 0"
  have unfold: "generateKeyBetween (Some a) (Some b) =
      (if ?i = length a then betweenPrefixCase a b ?i else betweenDivergentCase a b ?i)"
    using ne nge by (simp add: generateKeyBetween_def Let_def)
  have valid: "isValidFractionalIndex k" if "a < k" "set k \<subseteq> set BASE36_DIGITS" for k
    using that by (auto simp: isValid_iff)
  from firstDifference_cases [OF lt] show ?thesis
  proof
    assume h: "?i = length a \<and> take (length a) b = a \<and> length a < length b"
    then have "?i = length a" by blast
    then have eq: "generateKeyBetween (Some a) (Some b) = betweenPrefixCase a b (length a)"
      by (simp add: unfold)
    from h have pre: "take (length a) b = a" and len: "length a < length b" by blast+
    note c = betweenPrefixCase_correct [OF sa sb pre len]
    show ?thesis
    proof (intro conjI impI)
      assume "b = a @ ''0''"
      with c have "betweenPrefixCase a b (length a) = Inl (NoStringExists a b)" by blast
      with eq show "generateKeyBetween (Some a) (Some b) = Inl (NoStringExists a b)" by (rule trans)
    next
      assume "b \<noteq> a @ ''0''"
      with c obtain k where k: "betweenPrefixCase a b (length a) = Inr k" "a < k" "k < b"
        "set k \<subseteq> set BASE36_DIGITS" by blast
      from eq k(1) have "generateKeyBetween (Some a) (Some b) = Inr k" by (rule trans)
      with k valid [OF k(2) k(4)]
      show "\<exists>k. generateKeyBetween (Some a) (Some b) = Inr k \<and> a < k \<and> k < b \<and> isValidFractionalIndex k"
        by blast
    qed
  next
    assume h: "?i < length a \<and> ?i < length b \<and> take ?i a = take ?i b \<and> a ! ?i < b ! ?i"
    then have "?i \<noteq> length a" by simp
    then have eq: "generateKeyBetween (Some a) (Some b) = betweenDivergentCase a b ?i"
      by (simp add: unfold)
    from h have ia: "?i < length a" and ib: "?i < length b" and pre: "take ?i a = take ?i b"
      and l: "a ! ?i < b ! ?i" by blast+
    from betweenDivergentCase_correct [OF sa sb ia ib pre l]
    obtain k where k: "betweenDivergentCase a b ?i = Inr k" "a < k" "k < b"
        "set k \<subseteq> set BASE36_DIGITS" by blast
    from eq k(1) have r: "generateKeyBetween (Some a) (Some b) = Inr k" by (rule trans)
    have nb: "b \<noteq> a @ ''0''"
    proof
      assume "b = a @ ''0''"
      then have "take ?i b = take ?i a" "b ! ?i = a ! ?i" using ia by (simp_all add: nth_append)
      with l show False by simp
    qed
    from r k valid [OF k(2) k(4)] nb show ?thesis by blast
  qed
qed


lemma fractionalIndexBetween_cases:
  assumes g: "generateKeyBetween a b = Inr key"
  shows "(\<exists>s'. fractionalIndexBetween a b jp s = Inr (key, s')) \<or>
         (\<exists>c s'. c \<in> set BASE36_DIGITS \<and> length key < 10 \<and>
             (falsy a \<or> (\<exists>x. a = Some x \<and> x < key @ [c])) \<and>
             (falsy b \<or> (\<exists>y. b = Some y \<and> key @ [c] < y)) \<and>
             fractionalIndexBetween a b jp s = Inr (key @ [c], s')) \<or>
         (\<exists>n. (n < 0 \<or> 36 \<le> n) \<and> n = fst (randomInt jp BASE (snd (random jp s))) \<and>
             fractionalIndexBetween a b jp s = Inl (ValueOutOfRange n))"
proof -
  obtain r s1 where r: "random jp s = (r, s1)" by (cases "random jp s")
  obtain n s2 where n: "randomInt jp BASE s1 = (n, s2)" by (cases "randomInt jp BASE s1")
  show ?thesis
  proof (cases "r < JITTER_THRESHOLD \<and> length key < 10")
    case False
    then have "fractionalIndexBetween a b jp s = Inr (key, s1)"
      using g r by (auto simp: fractionalIndexBetween_def)
    then show ?thesis by blast
  next
    case True
    show ?thesis
    proof (cases "n < 0 \<or> 36 \<le> n")
      case True
      then have "valueToChar n = Inl (ValueOutOfRange n)" by (auto simp: valueToChar_def BASE_eq)
      then have "fractionalIndexBetween a b jp s = Inl (ValueOutOfRange n)"
        using g r n \<open>r < JITTER_THRESHOLD \<and> length key < 10\<close> by (simp add: fractionalIndexBetween_def)
      with True r n show ?thesis by simp
    next
      case False
      let ?c = "BASE36_DIGITS ! nat n"
      from False have vc: "valueToChar n = Inr ?c" by (intro valueToChar_ok) auto
      from False have cm: "?c \<in> set BASE36_DIGITS" by (intro digits_nth_mem) auto
      let ?ok = "(falsy a \<or> (case a of Some x \<Rightarrow> key @ [?c] > x | None \<Rightarrow> False)) \<and>
                 (falsy b \<or> (case b of Some y \<Rightarrow> key @ [?c] < y | None \<Rightarrow> False))"
      have res: "fractionalIndexBetween a b jp s = (if ?ok then Inr (key @ [?c], s2) else Inr (key, s2))"
        using g r n True vc by (simp add: fractionalIndexBetween_def Let_def)
      show ?thesis
      proof (cases ?ok)
        case True
        then have "(falsy a \<or> (\<exists>x. a = Some x \<and> x < key @ [?c]))"
          "(falsy b \<or> (\<exists>y. b = Some y \<and> key @ [?c] < y))"
          by (auto split: option.splits)
        moreover from True res have "fractionalIndexBetween a b jp s = Inr (key @ [?c], s2)" by simp
        ultimately show ?thesis using cm \<open>r < JITTER_THRESHOLD \<and> length key < 10\<close> by blast
      next
        case False
        with res have "fractionalIndexBetween a b jp s = Inr (key, s2)" by simp
        then show ?thesis by blast
      qed
    qed
  qed
qed

lemma fractionalIndexBetween_error:
  assumes g: "generateKeyBetween a b = Inl e"
  shows "fractionalIndexBetween a b jp s = Inl e"
  using g by (simp add: fractionalIndexBetween_def)

lemma firstDifference_unique:
  assumes ia: "i < length a" and ib: "i < length b"
    and pre: "take i a = take i b" and ne: "a ! i \<noteq> b ! i"
  shows "firstDifference a b 0 = i"
proof -
  let ?j = "firstDifference a b 0"
  from firstDifference_spec [of 0 a b]
  have eq: "\<And>k. k < ?j \<Longrightarrow> a ! k = b ! k"
    and d: "?j < length a \<and> ?j < length b \<longrightarrow> a ! ?j \<noteq> b ! ?j" by auto
  from eq ne have "\<not> i < ?j" by blast
  moreover have "\<not> ?j < i"
  proof
    assume l: "?j < i"
    with ia ib d have "a ! ?j \<noteq> b ! ?j" by simp
    moreover from l have "a ! ?j = take i a ! ?j" "b ! ?j = take i b ! ?j" by simp_all
    ultimately show False using pre by simp
  qed
  ultimately show ?thesis by simp
qed

text \<open>
  Claim C1, as amended. For valid index strings \<open>a < b\<close>: when \<open>b\<close> is \<open>a\<close> followed by the
  single character \<open>0\<close>, \<open>generateKeyBetween\<close> raises \<open>No string exists between\<close>, and so
  does \<open>fractionalIndexBetween\<close>; in every other case \<open>generateKeyBetween\<close> returns a valid
  \<open>k\<close> with \<open>a < k < b\<close>, and \<open>fractionalIndexBetween\<close>, whatever the jitter provider and
  its state, returns a valid \<open>k\<close> with \<open>a < k < b\<close> unless the provider's \<open>randomInt(36)\<close>
  answered outside \<open>0..35\<close>, in which case \<open>valueToChar\<close> raises \<open>Value out of range\<close>.
\<close>
theorem generateKeyBetween_strictly_between:
  assumes "isValidFractionalIndex a" and "isValidFractionalIndex b" and "a < b"
  shows "(b = a @ ''0'' \<longrightarrow>
            generateKeyBetween (Some a) (Some b) = Inl (NoStringExists a b) \<and>
            fractionalIndexBetween (Some a) (Some b) jp s = Inl (NoStringExists a b)) \<and>
         (b \<noteq> a @ ''0'' \<longrightarrow>
            (\<exists>k. generateKeyBetween (Some a) (Some b) = Inr k \<and>
                 a < k \<and> k < b \<and> isValidFractionalIndex k) \<and>
            (case fractionalIndexBetween (Some a) (Some b) jp s of
               Inr (k, s') \<Rightarrow> a < k \<and> k < b \<and> isValidFractionalIndex k
             | Inl e \<Rightarrow>
                 (\<exists>n. e = ValueOutOfRange n \<and> (n < 0 \<or> 36 \<le> n) \<and>
                      n = fst (randomInt jp BASE (snd (random jp s))))))"
proof (intro conjI impI)
  assume "b = a @ ''0''"
  with generateKeyBetween_correct [OF assms]
  show g: "generateKeyBetween (Some a) (Some b) = Inl (NoStringExists a b)" by blast
  then show "fractionalIndexBetween (Some a) (Some b) jp s = Inl (NoStringExists a b)"
    by (rule fractionalIndexBetween_error)
next
  assume "b \<noteq> a @ ''0''"
  with generateKeyBetween_correct [OF assms]
  show "\<exists>k. generateKeyBetween (Some a) (Some b) = Inr k \<and>
                 a < k \<and> k < b \<and> isValidFractionalIndex k" by blast
next
  assume "b \<noteq> a @ ''0''"
  with generateKeyBetween_correct [OF assms]
  obtain key where key: "generateKeyBetween (Some a) (Some b) = Inr key" "a < key" "key < b"
    "isValidFractionalIndex key" by blast
  let ?f = "fractionalIndexBetween (Some a) (Some b) jp s"
  from fractionalIndexBetween_cases [OF key(1), of jp s]
  consider s' where "?f = Inr (key, s')"
    | c s' where "c \<in> set BASE36_DIGITS" "a < key @ [c]" "key @ [c] < b" "?f = Inr (key @ [c], s')"
    | n where "n < 0 \<or> 36 \<le> n" "n = fst (randomInt jp BASE (snd (random jp s)))"
        "?f = Inl (ValueOutOfRange n)"
    using assms(1,2) by (auto simp: isValid_iff)
  then show "case ?f of
               Inr (k, s') \<Rightarrow> a < k \<and> k < b \<and> isValidFractionalIndex k
             | Inl e \<Rightarrow>
                 (\<exists>n. e = ValueOutOfRange n \<and> (n < 0 \<or> 36 \<le> n) \<and>
                      n = fst (randomInt jp BASE (snd (random jp s))))"
  proof cases
    case 1
    with key show ?thesis by simp
  next
    case 2
    moreover from key(4) 2(1) have "isValidFractionalIndex (key @ [c])" by (simp add: isValid_iff)
    ultimately show ?thesis by simp
  next
    case 3
    then show ?thesis by simp
  qed
qed

text \<open>The theorem at \<open>a = "a"\<close> with \<open>b = "c"\<close> and with \<open>b = "a0"\<close>, under the zero jitter provider.\<close>

theorem generateKeyBetween_strictly_between_witness:
  "isValidFractionalIndex ''a'' \<and> isValidFractionalIndex ''c'' \<and> isValidFractionalIndex ''a0'' \<and>
   ''a'' < ''c'' \<and> ''a'' < ''a0'' \<and> ''c'' \<noteq> ''a'' @ ''0'' \<and>
   generateKeyBetween (Some ''a'') (Some ''a0'') = Inl (NoStringExists ''a'' ''a0'') \<and>
   (\<exists>k. generateKeyBetween (Some ''a'') (Some ''c'') = Inr k \<and>
         ''a'' < k \<and> k < ''c'' \<and> isValidFractionalIndex k) \<and>
   (case fractionalIndexBetween (Some ''a'') (Some ''c'') zeroJitter () of
      Inr (k, s') \<Rightarrow> ''a'' < k \<and> k < ''c'' \<and> isValidFractionalIndex k
    | Inl e \<Rightarrow> False)"
proof -
  have v: "isValidFractionalIndex ''a''" "isValidFractionalIndex ''c''" "isValidFractionalIndex ''a0''"
    by (simp_all add: isValidFractionalIndex_def BASE36_DIGITS_def)
  have l: "''a'' < ''c''" "''a'' < ''a0''" by simp_all
  have z: "fst (randomInt zeroJitter BASE (snd (random zeroJitter ()))) = 0"
    by (simp add: zeroJitter_def)
  from generateKeyBetween_strictly_between [OF v(1) v(2) l(1), of zeroJitter "()"]
    generateKeyBetween_strictly_between [OF v(1) v(3) l(2), of zeroJitter "()"]
  show ?thesis using v l z by (auto split: sum.splits)
qed

text \<open>
  The claim as first stated, that a key is returned for every valid pair \<open>a < b\<close>, fails at
  \<open>a = "a"\<close>, \<open>b = "a0"\<close>: there is no string between them and the source throws.
\<close>

theorem generateKeyBetween_total_counterexample:
  "isValidFractionalIndex ''a'' \<and> isValidFractionalIndex ''a0'' \<and> ''a'' < ''a0'' \<and>
   generateKeyBetween (Some ''a'') (Some ''a0'') = Inl (NoStringExists ''a'' ''a0'') \<and>
   fractionalIndexBetween (Some ''a'') (Some ''a0'') zeroJitter () = Inl (NoStringExists ''a'' ''a0'')"
  by (simp add: isValidFractionalIndex_def BASE36_DIGITS_def) code_simp

text \<open>
  Claim C4, as amended. For every valid index \<open>b\<close> that has a character other than \<open>0\<close>,
  \<open>generateKeyBefore b\<close> returns a valid index strictly less than \<open>b\<close>; for every valid
  index \<open>a\<close>, \<open>generateKeyAfter a\<close> returns a valid index strictly greater than \<open>a\<close>.
\<close>
theorem generateKeyBefore_After_strict:
  "(isValidFractionalIndex b \<and> (\<exists>c \<in> set b. c \<noteq> CHR ''0'') \<longrightarrow>
      (\<exists>k. generateKeyBefore b = Inr k \<and> k < b \<and> isValidFractionalIndex k)) \<and>
   (isValidFractionalIndex a \<longrightarrow>
      (\<exists>k. generateKeyAfter a = Inr k \<and> a < k \<and> isValidFractionalIndex k))"
  using generateKeyBefore_correct [of b] generateKeyAfter_correct [of a]
  by (simp add: isValid_iff)

text \<open>The theorem at \<open>a = b = "m"\<close>.\<close>

theorem generateKeyBefore_After_strict_witness:
  "isValidFractionalIndex ''m'' \<and> (\<exists>c \<in> set ''m''. c \<noteq> CHR ''0'') \<and>
   (\<exists>k. generateKeyBefore ''m'' = Inr k \<and> k < ''m'' \<and> isValidFractionalIndex k) \<and>
   (\<exists>k. generateKeyAfter ''m'' = Inr k \<and> ''m'' < k \<and> isValidFractionalIndex k)"
proof -
  have v: "isValidFractionalIndex ''m''" by (simp add: isValidFractionalIndex_def BASE36_DIGITS_def)
  have n: "\<exists>c \<in> set ''m''. c \<noteq> CHR ''0''" by simp
  from generateKeyBefore_After_strict [of "''m''" "''m''"] v n show ?thesis by blast
qed

text \<open>
  For a string of zeros the source prepends another zero, which is a longer string and so
  a greater one: \<open>generateKeyBefore "0"\<close> is \<open>"00"\<close>, and \<open>"00" > "0"\<close>.
\<close>

theorem generateKeyBefore_zero_counterexample:
  "isValidFractionalIndex ''0'' \<and> generateKeyBefore ''0'' = Inr ''00'' \<and> \<not> (''00'' < ''0'')"
  by (simp add: isValidFractionalIndex_def BASE36_DIGITS_def) code_simp

text \<open>
  Claim C5, as amended. For valid \<open>a < b\<close> that both have a character at the first differing
  position \<open>i\<close>, with values \<open>av\<close> and \<open>bv\<close> there and \<open>bv - av > 1\<close>,
  \<open>generateKeyBetween\<close> returns \<open>a[0..i]\<close>, then the midpoint character
  \<open>valueToChar(\<lfloor>(av + bv) / 2\<rfloor>)\<close>, then the rest of \<open>a\<close> after position \<open>i\<close>:
  the midpoint replaces \<open>a[i]\<close> and the tail of \<open>a\<close> is kept.
\<close>
theorem generateKeyBetween_midpoint_keeps_tail:
  assumes va: "isValidFractionalIndex a" and vb: "isValidFractionalIndex b" and lt: "a < b"
    and ia: "i < length a" and ib: "i < length b"
    and pre: "take i a = take i b" and ne: "a ! i \<noteq> b ! i"
    and av: "charToValue (a ! i) = Inr av" and bv: "charToValue (b ! i) = Inr bv"
    and gap: "bv - av > 1"
  shows "\<exists>c. valueToChar ((av + bv) div 2) = Inr c \<and>
             generateKeyBetween (Some a) (Some b) = Inr (take i a @ [c] @ drop (i + 1) a)"
proof -
  from va vb have nemp: "a \<noteq> []" "b \<noteq> []" by (simp_all add: isValid_iff)
  from lt have nge: "\<not> b \<le> a" by simp
  from firstDifference_unique [OF ia ib pre ne] have fd: "firstDifference a b 0 = i" .
  from charToValue_InrD [OF av] charToValue_InrD [OF bv]
  have r: "0 \<le> av" "av < 36" "0 \<le> bv" "bv < 36" by auto
  let ?c = "BASE36_DIGITS ! nat ((av + bv) div 2)"
  have vc: "valueToChar ((av + bv) div 2) = Inr ?c" using r by (intro valueToChar_ok) auto
  have ca: "charAt a i = Some (a ! i)" "charAt b i = Some (b ! i)"
    using ia ib by (simp_all add: charAt_def)
  have "generateKeyBetween (Some a) (Some b) = betweenDivergentCase a b i"
    using nemp nge fd ia by (simp add: generateKeyBetween_def Let_def)
  also have "\<dots> = Inr (take i a @ [?c] @ drop (i + 1) a)"
    using ib ca av bv gap vc by (simp add: betweenDivergentCase_def Let_def)
  finally show ?thesis using vc by blast
qed

text \<open>The theorem at \<open>a = "az"\<close>, \<open>b = "c"\<close>, \<open>i = 0\<close>.\<close>

theorem generateKeyBetween_midpoint_keeps_tail_witness:
  "isValidFractionalIndex ''az'' \<and> isValidFractionalIndex ''c'' \<and> ''az'' < ''c'' \<and>
   (0::nat) < length ''az'' \<and> (0::nat) < length ''c'' \<and> take 0 ''az'' = take 0 ''c'' \<and>
   ''az'' ! 0 \<noteq> ''c'' ! 0 \<and> charToValue (''az'' ! 0) = Inr 10 \<and> charToValue (''c'' ! 0) = Inr 12 \<and>
   (12::int) - 10 > 1 \<and>
   (\<exists>c. valueToChar ((10 + 12) div 2) = Inr c \<and>
        generateKeyBetween (Some ''az'') (Some ''c'') = Inr (take 0 ''az'' @ [c] @ drop (0 + 1) ''az''))"
proof -
  have v: "isValidFractionalIndex ''az''" "isValidFractionalIndex ''c''"
    by (simp_all add: isValidFractionalIndex_def BASE36_DIGITS_def)
  have l: "''az'' < ''c''" by simp
  have c: "charToValue (''az'' ! 0) = Inr 10" "charToValue (''c'' ! 0) = Inr 12"
    by (simp_all add: charToValue_def BASE36_DIGITS_def)
  have o: "(0::nat) < length ''az''" "(0::nat) < length ''c''" "take 0 ''az'' = take 0 ''c''"
    "''az'' ! 0 \<noteq> ''c'' ! 0" "(12::int) - 10 > 1" by simp_all
  from generateKeyBetween_midpoint_keeps_tail [OF v l o(1-4) c o(5)] v l o c
  show ?thesis by blast
qed

text \<open>
  The claim as first stated, that nothing follows the midpoint character, fails at
  \<open>a = "az"\<close>, \<open>b = "c"\<close>: the source returns \<open>"bz"\<close>, not \<open>"b"\<close>.
\<close>

theorem generateKeyBetween_midpoint_counterexample:
  "isValidFractionalIndex ''az'' \<and> isValidFractionalIndex ''c'' \<and> ''az'' < ''c'' \<and>
   ''az'' ! 0 \<noteq> ''c'' ! 0 \<and> charToValue (''az'' ! 0) = Inr 10 \<and> charToValue (''c'' ! 0) = Inr 12 \<and>
   valueToChar ((10 + 12) div 2) = Inr (CHR ''b'') \<and>
   generateKeyBetween (Some ''az'') (Some ''c'') = Inr ''bz'' \<and>
   generateKeyBetween (Some ''az'') (Some ''c'') \<noteq> Inr (take 0 ''az'' @ [CHR ''b''])"
  by (simp add: isValidFractionalIndex_def BASE36_DIGITS_def) code_simp

section \<open>Properties of the cell operations\<close>

subsection \<open>What \<open>fractionalIndexBetween\<close> returns\<close>

lemma fractionalIndexBetween_InrD:
  assumes f: "fractionalIndexBetween a b jp s = Inr (k, s')"
  shows "\<exists>key. generateKeyBetween a b = Inr key \<and>
           (k = key \<or>
            (\<exists>c. c \<in> set BASE36_DIGITS \<and> k = key @ [c] \<and>
                 (falsy a \<or> (\<exists>x. a = Some x \<and> x < k)) \<and>
                 (falsy b \<or> (\<exists>y. b = Some y \<and> k < y))))"
proof (cases "generateKeyBetween a b")
  case (Inl e)
  from fractionalIndexBetween_error [OF Inl, of jp s] f show ?thesis by simp
next
  case (Inr key)
  from fractionalIndexBetween_cases [OF Inr, of jp s] f Inr show ?thesis by auto
qed

lemma fractionalIndexBetween_both_sound:
  assumes vp: "isValidFractionalIndex p" and vq: "isValidFractionalIndex q"
    and f: "fractionalIndexBetween (Some p) (Some q) jp s = Inr (k, s')"
  shows "p < k \<and> k < q \<and> isValidFractionalIndex k"
proof -
  from fractionalIndexBetween_InrD [OF f] obtain key where
    g: "generateKeyBetween (Some p) (Some q) = Inr key"
    and k: "k = key \<or> (\<exists>c. c \<in> set BASE36_DIGITS \<and> k = key @ [c] \<and>
                 (falsy (Some p) \<or> (\<exists>x. Some p = Some x \<and> x < k)) \<and>
                 (falsy (Some q) \<or> (\<exists>y. Some q = Some y \<and> k < y)))" by blast
  from vp vq have ne: "p \<noteq> []" "q \<noteq> []" by (simp_all add: isValid_iff)
  have lt: "p < q"
  proof (rule ccontr)
    assume "\<not> p < q"
    then have "q \<le> p" by simp
    with ne have "generateKeyBetween (Some p) (Some q) = Inl (InvalidRange p q)"
      by (simp add: generateKeyBetween_def)
    with g show False by simp
  qed
  from generateKeyBetween_correct [OF vp vq lt] g
  have key: "p < key" "key < q" "isValidFractionalIndex key" by auto
  from k show ?thesis
  proof
    assume "k = key"
    with key show ?thesis by simp
  next
    assume "\<exists>c. c \<in> set BASE36_DIGITS \<and> k = key @ [c] \<and>
                 (falsy (Some p) \<or> (\<exists>x. Some p = Some x \<and> x < k)) \<and>
                 (falsy (Some q) \<or> (\<exists>y. Some q = Some y \<and> k < y))"
    then obtain c where c: "c \<in> set BASE36_DIGITS" "k = key @ [c]" "p < k" "k < q"
      using ne by auto
    with key(3) show ?thesis by (simp add: isValid_iff)
  qed
qed

lemma fractionalIndexBetween_after_sound:
  assumes vp: "a = None \<or> (\<exists>p. a = Some p \<and> isValidFractionalIndex p)"
    and f: "fractionalIndexBetween a None jp s = Inr (k, s')"
  shows "(\<forall>p. a = Some p \<longrightarrow> p < k) \<and> isValidFractionalIndex k"
proof -
  from fractionalIndexBetween_InrD [OF f] obtain key where
    g: "generateKeyBetween a None = Inr key"
    and k: "k = key \<or> (\<exists>c. c \<in> set BASE36_DIGITS \<and> k = key @ [c] \<and>
                 (falsy a \<or> (\<exists>x. a = Some x \<and> x < k)))" by auto
  have key: "(\<forall>p. a = Some p \<longrightarrow> p < key) \<and> isValidFractionalIndex key"
  proof (cases a)
    case None
    with g show ?thesis by (auto simp: generateKeyBetween_def isValid_iff m_valid)
  next
    case (Some p)
    with vp have v: "isValidFractionalIndex p" by simp
    then have "p \<noteq> []" "set p \<subseteq> set BASE36_DIGITS" by (simp_all add: isValid_iff)
    with g Some generateKeyAfter_correct [of p] show ?thesis
      by (auto simp: generateKeyBetween_def)
  qed
  from k show ?thesis
  proof
    assume "k = key"
    with key show ?thesis by simp
  next
    assume "\<exists>c. c \<in> set BASE36_DIGITS \<and> k = key @ [c] \<and>
                 (falsy a \<or> (\<exists>x. a = Some x \<and> x < k))"
    then obtain c where c: "c \<in> set BASE36_DIGITS" "k = key @ [c]" by blast
    have "key < k" using c(2) by (simp add: less_append_proper)
    with key c show ?thesis by (auto simp: isValid_iff intro: less_trans)
  qed
qed

lemma fractionalIndexBetween_before_sound:
  assumes vq: "isValidFractionalIndex q" and nz: "\<exists>c \<in> set q. c \<noteq> CHR ''0''"
    and f: "fractionalIndexBetween None (Some q) jp s = Inr (k, s')"
  shows "k < q \<and> isValidFractionalIndex k"
proof -
  from vq have ne: "q \<noteq> []" and sq: "set q \<subseteq> set BASE36_DIGITS" by (simp_all add: isValid_iff)
  from fractionalIndexBetween_InrD [OF f] obtain key where
    g: "generateKeyBetween None (Some q) = Inr key"
    and k: "k = key \<or> (\<exists>c. c \<in> set BASE36_DIGITS \<and> k = key @ [c] \<and>
                 (falsy (Some q) \<or> (\<exists>y. Some q = Some y \<and> k < y)))" by auto
  from g ne have "generateKeyBefore q = Inr key" by (simp add: generateKeyBetween_def)
  with generateKeyBefore_correct [OF sq nz] have key: "key < q" "isValidFractionalIndex key" by auto
  from k show ?thesis
  proof
    assume "k = key"
    with key show ?thesis by simp
  next
    assume "\<exists>c. c \<in> set BASE36_DIGITS \<and> k = key @ [c] \<and>
                 (falsy (Some q) \<or> (\<exists>y. Some q = Some y \<and> k < y))"
    then obtain c where c: "c \<in> set BASE36_DIGITS" "k = key @ [c]" "k < q" using ne by auto
    with key(2) show ?thesis by (simp add: isValid_iff)
  qed
qed

lemma moveCellBetween_unfold:
  assumes x: "cr_fractionalIndex cell = Some x" "x \<noteq> []"
  shows "moveCellBetween N cell cellBefore cellAfter actorId jp s =
     (if (if cellBefore \<noteq> None \<and> cellAfter \<noteq> None then
            jsGreater N x (keyOf cellBefore) \<and> jsLess N x (keyOf cellAfter)
          else if cellBefore = None \<and> cellAfter \<noteq> None then jsLess N x (keyOf cellAfter)
          else if cellBefore \<noteq> None \<and> cellAfter = None then jsGreater N x (keyOf cellBefore)
          else False)
      then Inr (None, s)
      else
        (case fractionalIndexBetween (keyOf cellBefore) (keyOf cellAfter) jp s of
           Inl e \<Rightarrow> Inl e
         | Inr (k, s1) \<Rightarrow> Inr (Some (CellMoved2 (cr_id cell) k actorId), s1)))"
  using x by (simp add: moveCellBetween_def Let_def)

lemma keyOf_Some:
  "cr_fractionalIndex b = Some p \<Longrightarrow> p \<noteq> [] \<Longrightarrow> keyOf (Some b) = Some p"
  by simp


subsection \<open>Moving a cell\<close>

lemma fractionalIndexBetween_total:
  assumes jit: "\<forall>t. 0 \<le> fst (randomInt jp BASE t) \<and> fst (randomInt jp BASE t) < 36"
    and g: "generateKeyBetween a b = Inr key"
  shows "\<exists>k s1. fractionalIndexBetween a b jp s = Inr (k, s1)"
proof -
  from jit have "0 \<le> fst (randomInt jp BASE (snd (random jp s))) \<and>
                 fst (randomInt jp BASE (snd (random jp s))) < 36" by blast
  then have "\<not> (fst (randomInt jp BASE (snd (random jp s))) < 0 \<or>
                   36 \<le> fst (randomInt jp BASE (snd (random jp s))))"
    by linarith
  with fractionalIndexBetween_cases [OF g, of jp s] show ?thesis by auto
qed

lemma moveCellBetween_null_index:
  "falsy (cr_fractionalIndex cell) \<longrightarrow>
      moveCellBetween N cell cellBefore cellAfter actorId jp s = Inr (None, s)"
proof
  assume "falsy (cr_fractionalIndex cell)"
  then show "moveCellBetween N cell cellBefore cellAfter actorId jp s = Inr (None, s)"
    by (cases "cr_fractionalIndex cell") (simp_all add: moveCellBetween_def)
qed

lemma moveCellBetween_given_bounds:
  "cr_fractionalIndex cell = Some x \<and> x \<noteq> [] \<and>
    cr_fractionalIndex b = Some p \<and> p \<noteq> [] \<and> cr_fractionalIndex a = Some q \<and> q \<noteq> [] \<longrightarrow>
      (p < x \<and> x < q \<longrightarrow>
         moveCellBetween N cell (Some b) (Some a) actorId jp s = Inr (None, s)) \<and>
      (x < q \<longrightarrow> moveCellBetween N cell None (Some a) actorId jp s = Inr (None, s)) \<and>
      (p < x \<longrightarrow> moveCellBetween N cell (Some b) None actorId jp s = Inr (None, s)) \<and>
      (\<not> (p < x \<and> x < q) \<longrightarrow>
         moveCellBetween N cell (Some b) (Some a) actorId jp s =
           (case fractionalIndexBetween (Some p) (Some q) jp s of
              Inl e \<Rightarrow> Inl e
            | Inr (k, s1) \<Rightarrow> Inr (Some (CellMoved2 (cr_id cell) k actorId), s1))) \<and>
      (\<not> x < q \<longrightarrow>
         moveCellBetween N cell None (Some a) actorId jp s =
           (case fractionalIndexBetween None (Some q) jp s of
              Inl e \<Rightarrow> Inl e
            | Inr (k, s1) \<Rightarrow> Inr (Some (CellMoved2 (cr_id cell) k actorId), s1))) \<and>
      (\<not> p < x \<longrightarrow>
         moveCellBetween N cell (Some b) None actorId jp s =
           (case fractionalIndexBetween (Some p) None jp s of
              Inl e \<Rightarrow> Inl e
            | Inr (k, s1) \<Rightarrow> Inr (Some (CellMoved2 (cr_id cell) k actorId), s1))) \<and>
      (isValidFractionalIndex p \<and> isValidFractionalIndex q \<longrightarrow>
         (\<forall>ev s1. moveCellBetween N cell (Some b) (Some a) actorId jp s = Inr (Some ev, s1) \<longrightarrow>
            (\<exists>k. ev = CellMoved2 (cr_id cell) k actorId \<and> p < k \<and> k < q)) \<and>
         (\<forall>ev s1. moveCellBetween N cell (Some b) None actorId jp s = Inr (Some ev, s1) \<longrightarrow>
            (\<exists>k. ev = CellMoved2 (cr_id cell) k actorId \<and> p < k)) \<and>
         ((\<exists>c \<in> set q. c \<noteq> CHR ''0'') \<longrightarrow>
            (\<forall>ev s1. moveCellBetween N cell None (Some a) actorId jp s = Inr (Some ev, s1) \<longrightarrow>
               (\<exists>k. ev = CellMoved2 (cr_id cell) k actorId \<and> k < q))))"
proof (intro conjI impI)
  assume h: "cr_fractionalIndex cell = Some x \<and> x \<noteq> [] \<and>
    cr_fractionalIndex b = Some p \<and> p \<noteq> [] \<and> cr_fractionalIndex a = Some q \<and> q \<noteq> []"
  then have x: "cr_fractionalIndex cell = Some x" "x \<noteq> []"
    and kb: "keyOf (Some b) = Some p" and ka: "keyOf (Some a) = Some q" by simp_all
  note u = moveCellBetween_unfold [OF x, of N _ _ actorId jp s]
  {
    assume "p < x \<and> x < q"
    with h show "moveCellBetween N cell (Some b) (Some a) actorId jp s = Inr (None, s)"
      by (auto simp: u)
  next
    assume "x < q"
    with h show "moveCellBetween N cell None (Some a) actorId jp s = Inr (None, s)"
      by (auto simp: u)
  next
    assume "p < x"
    with h show "moveCellBetween N cell (Some b) None actorId jp s = Inr (None, s)"
      by (auto simp: u)
  next
    assume "\<not> (p < x \<and> x < q)"
    with h show "moveCellBetween N cell (Some b) (Some a) actorId jp s =
           (case fractionalIndexBetween (Some p) (Some q) jp s of
              Inl e \<Rightarrow> Inl e
            | Inr (k, s1) \<Rightarrow> Inr (Some (CellMoved2 (cr_id cell) k actorId), s1))"
      by (auto simp: u)
  next
    assume "\<not> x < q"
    with h show "moveCellBetween N cell None (Some a) actorId jp s =
           (case fractionalIndexBetween None (Some q) jp s of
              Inl e \<Rightarrow> Inl e
            | Inr (k, s1) \<Rightarrow> Inr (Some (CellMoved2 (cr_id cell) k actorId), s1))"
      by (auto simp: u)
  next
    assume "\<not> p < x"
    with h show "moveCellBetween N cell (Some b) None actorId jp s =
           (case fractionalIndexBetween (Some p) None jp s of
              Inl e \<Rightarrow> Inl e
            | Inr (k, s1) \<Rightarrow> Inr (Some (CellMoved2 (cr_id cell) k actorId), s1))"
      by (auto simp: u)
  next
    assume v: "isValidFractionalIndex p \<and> isValidFractionalIndex q"
    show "\<forall>ev s1. moveCellBetween N cell (Some b) (Some a) actorId jp s = Inr (Some ev, s1) \<longrightarrow>
            (\<exists>k. ev = CellMoved2 (cr_id cell) k actorId \<and> p < k \<and> k < q)"
    proof (intro allI impI)
      fix ev s1
      assume m: "moveCellBetween N cell (Some b) (Some a) actorId jp s = Inr (Some ev, s1)"
      then obtain k where f: "fractionalIndexBetween (Some p) (Some q) jp s = Inr (k, s1)"
        and ev: "ev = CellMoved2 (cr_id cell) k actorId"
        using h by (auto simp: u split: if_splits sum.splits)
      from v fractionalIndexBetween_both_sound [OF _ _ f] ev
      show "\<exists>k. ev = CellMoved2 (cr_id cell) k actorId \<and> p < k \<and> k < q" by blast
    qed
  next
    assume v: "isValidFractionalIndex p \<and> isValidFractionalIndex q"
    show "\<forall>ev s1. moveCellBetween N cell (Some b) None actorId jp s = Inr (Some ev, s1) \<longrightarrow>
            (\<exists>k. ev = CellMoved2 (cr_id cell) k actorId \<and> p < k)"
    proof (intro allI impI)
      fix ev s1
      assume m: "moveCellBetween N cell (Some b) None actorId jp s = Inr (Some ev, s1)"
      then obtain k where f: "fractionalIndexBetween (Some p) None jp s = Inr (k, s1)"
        and ev: "ev = CellMoved2 (cr_id cell) k actorId"
        using h by (auto simp: u split: if_splits sum.splits)
      from v fractionalIndexBetween_after_sound [OF _ f] ev
      show "\<exists>k. ev = CellMoved2 (cr_id cell) k actorId \<and> p < k" by blast
    qed
  next
    assume v: "isValidFractionalIndex p \<and> isValidFractionalIndex q"
      and nz: "\<exists>c \<in> set q. c \<noteq> CHR ''0''"
    show "\<forall>ev s1. moveCellBetween N cell None (Some a) actorId jp s = Inr (Some ev, s1) \<longrightarrow>
               (\<exists>k. ev = CellMoved2 (cr_id cell) k actorId \<and> k < q)"
    proof (intro allI impI)
      fix ev s1
      assume m: "moveCellBetween N cell None (Some a) actorId jp s = Inr (Some ev, s1)"
      then obtain k where f: "fractionalIndexBetween None (Some q) jp s = Inr (k, s1)"
        and ev: "ev = CellMoved2 (cr_id cell) k actorId"
        using h by (auto simp: u split: if_splits sum.splits)
      from v fractionalIndexBetween_before_sound [OF _ nz f] ev
      show "\<exists>k. ev = CellMoved2 (cr_id cell) k actorId \<and> k < q" by blast
    qed
  }
qed

lemma moveCellBetween_rule:
  "cr_fractionalIndex cell = Some x \<and> x \<noteq> [] \<longrightarrow>
      moveCellBetween N cell cellBefore cellAfter actorId jp s =
        (if (cellBefore \<noteq> None \<and> cellAfter \<noteq> None \<and>
             jsGreater N x (keyOf cellBefore) \<and> jsLess N x (keyOf cellAfter)) \<or>
            (cellBefore = None \<and> cellAfter \<noteq> None \<and> jsLess N x (keyOf cellAfter)) \<or>
            (cellBefore \<noteq> None \<and> cellAfter = None \<and> jsGreater N x (keyOf cellBefore))
         then Inr (None, s)
         else (case fractionalIndexBetween (keyOf cellBefore) (keyOf cellAfter) jp s of
              Inl e \<Rightarrow> Inl e
            | Inr (k, s1) \<Rightarrow> Inr (Some (CellMoved2 (cr_id cell) k actorId), s1)))"
proof
  assume "cr_fractionalIndex cell = Some x \<and> x \<noteq> []"
  then have x: "cr_fractionalIndex cell = Some x" "x \<noteq> []" by simp_all
  show "moveCellBetween N cell cellBefore cellAfter actorId jp s =
        (if (cellBefore \<noteq> None \<and> cellAfter \<noteq> None \<and>
             jsGreater N x (keyOf cellBefore) \<and> jsLess N x (keyOf cellAfter)) \<or>
            (cellBefore = None \<and> cellAfter \<noteq> None \<and> jsLess N x (keyOf cellAfter)) \<or>
            (cellBefore \<noteq> None \<and> cellAfter = None \<and> jsGreater N x (keyOf cellBefore))
         then Inr (None, s)
         else (case fractionalIndexBetween (keyOf cellBefore) (keyOf cellAfter) jp s of
              Inl e \<Rightarrow> Inl e
            | Inr (k, s1) \<Rightarrow> Inr (Some (CellMoved2 (cr_id cell) k actorId), s1)))"
    by (cases cellBefore; cases cellAfter)
       (simp_all add: moveCellBetween_unfold [OF x] del: keyOf.simps(2))
qed

lemma moveCellBetween_no_bound:
  "cr_fractionalIndex cell = Some x \<and> x \<noteq> [] \<longrightarrow>
      moveCellBetween N cell None None actorId jp s =
        (case fractionalIndexBetween None None jp s of
              Inl e \<Rightarrow> Inl e
            | Inr (k, s1) \<Rightarrow> Inr (Some (CellMoved2 (cr_id cell) k actorId), s1)) \<and>
      (\<forall>r s1. moveCellBetween N cell None None actorId jp s = Inr (r, s1) \<longrightarrow>
         (\<exists>k. r = Some (CellMoved2 (cr_id cell) k actorId) \<and>
              (k = ''m'' \<or> (\<exists>c \<in> set BASE36_DIGITS. k = ''m'' @ [c])))) \<and>
      ((\<forall>t. 0 \<le> fst (randomInt jp BASE t) \<and> fst (randomInt jp BASE t) < 36) \<longrightarrow>
         (\<exists>k s1. moveCellBetween N cell None None actorId jp s =
            Inr (Some (CellMoved2 (cr_id cell) k actorId), s1)))"
proof (intro impI conjI allI)
  assume "cr_fractionalIndex cell = Some x \<and> x \<noteq> []"
  then have x: "cr_fractionalIndex cell = Some x" "x \<noteq> []" by simp_all
  have g: "generateKeyBetween None None = Inr ''m''" by (simp add: generateKeyBetween_def)
  show u: "moveCellBetween N cell None None actorId jp s =
        (case fractionalIndexBetween None None jp s of
              Inl e \<Rightarrow> Inl e
            | Inr (k, s1) \<Rightarrow> Inr (Some (CellMoved2 (cr_id cell) k actorId), s1))"
    by (simp add: moveCellBetween_unfold [OF x])
  {
    fix r s1
    assume "moveCellBetween N cell None None actorId jp s = Inr (r, s1)"
    with u obtain k where f: "fractionalIndexBetween None None jp s = Inr (k, s1)"
      and r: "r = Some (CellMoved2 (cr_id cell) k actorId)"
      by (auto split: sum.splits)
    from fractionalIndexBetween_InrD [OF f] g
    have "k = ''m'' \<or> (\<exists>c \<in> set BASE36_DIGITS. k = ''m'' @ [c])" by auto
    with r show "\<exists>k. r = Some (CellMoved2 (cr_id cell) k actorId) \<and>
              (k = ''m'' \<or> (\<exists>c \<in> set BASE36_DIGITS. k = ''m'' @ [c]))" by blast
  next
    assume jit: "\<forall>t. 0 \<le> fst (randomInt jp BASE t) \<and> fst (randomInt jp BASE t) < 36"
    from fractionalIndexBetween_total [OF jit g, of s]
    obtain k s1 where "fractionalIndexBetween None None jp s = Inr (k, s1)" by blast
    with u show "\<exists>k s1. moveCellBetween N cell None None actorId jp s =
            Inr (Some (CellMoved2 (cr_id cell) k actorId), s1)" by simp
  }
qed

lemma moveCellBetween_bound_without_index:
  "cr_fractionalIndex cell = Some x \<and> x \<noteq> [] \<and>
    falsy (cr_fractionalIndex b0) \<and> falsy (cr_fractionalIndex a0) \<and>
    cr_fractionalIndex b = Some p \<and> p \<noteq> [] \<and> cr_fractionalIndex a = Some q \<and> q \<noteq> [] \<longrightarrow>
      moveCellBetween N cell (Some b0) None actorId jp s =
          (if greaterThanNull N x then Inr (None, s)
           else (case fractionalIndexBetween None None jp s of
              Inl e \<Rightarrow> Inl e
            | Inr (k, s1) \<Rightarrow> Inr (Some (CellMoved2 (cr_id cell) k actorId), s1))) \<and>
      moveCellBetween N cell None (Some a0) actorId jp s =
          (if lessThanNull N x then Inr (None, s)
           else (case fractionalIndexBetween None None jp s of
              Inl e \<Rightarrow> Inl e
            | Inr (k, s1) \<Rightarrow> Inr (Some (CellMoved2 (cr_id cell) k actorId), s1))) \<and>
      moveCellBetween N cell (Some b0) (Some a0) actorId jp s =
          (if greaterThanNull N x \<and> lessThanNull N x then Inr (None, s)
           else (case fractionalIndexBetween None None jp s of
              Inl e \<Rightarrow> Inl e
            | Inr (k, s1) \<Rightarrow> Inr (Some (CellMoved2 (cr_id cell) k actorId), s1))) \<and>
      moveCellBetween N cell (Some b0) (Some a) actorId jp s =
          (if greaterThanNull N x \<and> x < q then Inr (None, s)
           else (case fractionalIndexBetween None (Some q) jp s of
              Inl e \<Rightarrow> Inl e
            | Inr (k, s1) \<Rightarrow> Inr (Some (CellMoved2 (cr_id cell) k actorId), s1))) \<and>
      moveCellBetween N cell (Some b) (Some a0) actorId jp s =
          (if p < x \<and> lessThanNull N x then Inr (None, s)
           else (case fractionalIndexBetween (Some p) None jp s of
              Inl e \<Rightarrow> Inl e
            | Inr (k, s1) \<Rightarrow> Inr (Some (CellMoved2 (cr_id cell) k actorId), s1)))"
proof
  assume h: "cr_fractionalIndex cell = Some x \<and> x \<noteq> [] \<and>
    falsy (cr_fractionalIndex b0) \<and> falsy (cr_fractionalIndex a0) \<and>
    cr_fractionalIndex b = Some p \<and> p \<noteq> [] \<and> cr_fractionalIndex a = Some q \<and> q \<noteq> []"
  then have x: "cr_fractionalIndex cell = Some x" "x \<noteq> []"
    and k: "keyOf (Some b0) = None" "keyOf (Some a0) = None"
      "keyOf (Some b) = Some p" "keyOf (Some a) = Some q" by simp_all
  note u = moveCellBetween_unfold [OF x, of N _ _ actorId jp s]
  show "moveCellBetween N cell (Some b0) None actorId jp s =
          (if greaterThanNull N x then Inr (None, s)
           else (case fractionalIndexBetween None None jp s of
              Inl e \<Rightarrow> Inl e
            | Inr (k, s1) \<Rightarrow> Inr (Some (CellMoved2 (cr_id cell) k actorId), s1))) \<and>
      moveCellBetween N cell None (Some a0) actorId jp s =
          (if lessThanNull N x then Inr (None, s)
           else (case fractionalIndexBetween None None jp s of
              Inl e \<Rightarrow> Inl e
            | Inr (k, s1) \<Rightarrow> Inr (Some (CellMoved2 (cr_id cell) k actorId), s1))) \<and>
      moveCellBetween N cell (Some b0) (Some a0) actorId jp s =
          (if greaterThanNull N x \<and> lessThanNull N x then Inr (None, s)
           else (case fractionalIndexBetween None None jp s of
              Inl e \<Rightarrow> Inl e
            | Inr (k, s1) \<Rightarrow> Inr (Some (CellMoved2 (cr_id cell) k actorId), s1))) \<and>
      moveCellBetween N cell (Some b0) (Some a) actorId jp s =
          (if greaterThanNull N x \<and> x < q then Inr (None, s)
           else (case fractionalIndexBetween None (Some q) jp s of
              Inl e \<Rightarrow> Inl e
            | Inr (k, s1) \<Rightarrow> Inr (Some (CellMoved2 (cr_id cell) k actorId), s1))) \<and>
      moveCellBetween N cell (Some b) (Some a0) actorId jp s =
          (if p < x \<and> lessThanNull N x then Inr (None, s)
           else (case fractionalIndexBetween (Some p) None jp s of
              Inl e \<Rightarrow> Inl e
            | Inr (k, s1) \<Rightarrow> Inr (Some (CellMoved2 (cr_id cell) k actorId), s1)))"
    by (intro conjI) (simp_all add: u k del: keyOf.simps(2))
qed

lemma moveCellBetween_throws_or_returns:
  "cr_fractionalIndex cell = Some x \<and> x \<noteq> [] \<and>
    cr_fractionalIndex b = Some p \<and> p \<noteq> [] \<and> cr_fractionalIndex a = Some q \<and> q \<noteq> [] \<longrightarrow>
      (q \<le> p \<longrightarrow>
         moveCellBetween N cell (Some b) (Some a) actorId jp s = Inl (InvalidRange p q)) \<and>
      (isValidFractionalIndex p \<and> isValidFractionalIndex q \<and> q = p @ ''0'' \<and>
       \<not> (p < x \<and> x < q) \<longrightarrow>
         moveCellBetween N cell (Some b) (Some a) actorId jp s = Inl (NoStringExists p q)) \<and>
      ((\<forall>t. 0 \<le> fst (randomInt jp BASE t) \<and> fst (randomInt jp BASE t) < 36) \<longrightarrow>
         (isValidFractionalIndex p \<and> isValidFractionalIndex q \<and> p < q \<and> q \<noteq> p @ ''0'' \<and>
          \<not> (p < x \<and> x < q) \<longrightarrow>
            (\<exists>k s1. moveCellBetween N cell (Some b) (Some a) actorId jp s =
                 Inr (Some (CellMoved2 (cr_id cell) k actorId), s1) \<and>
               p < k \<and> k < q \<and> isValidFractionalIndex k)) \<and>
         (isValidFractionalIndex p \<and> \<not> p < x \<longrightarrow>
            (\<exists>k s1. moveCellBetween N cell (Some b) None actorId jp s =
                 Inr (Some (CellMoved2 (cr_id cell) k actorId), s1) \<and>
               p < k \<and> isValidFractionalIndex k)) \<and>
         (isValidFractionalIndex q \<and> (\<exists>c \<in> set q. c \<noteq> CHR ''0'') \<and> \<not> x < q \<longrightarrow>
            (\<exists>k s1. moveCellBetween N cell None (Some a) actorId jp s =
                 Inr (Some (CellMoved2 (cr_id cell) k actorId), s1) \<and>
               k < q \<and> isValidFractionalIndex k)))"
proof (intro impI conjI)
  assume h: "cr_fractionalIndex cell = Some x \<and> x \<noteq> [] \<and>
    cr_fractionalIndex b = Some p \<and> p \<noteq> [] \<and> cr_fractionalIndex a = Some q \<and> q \<noteq> []"
  then have x: "cr_fractionalIndex cell = Some x" "x \<noteq> []"
    and ne: "p \<noteq> []" "q \<noteq> []"
    and k: "keyOf (Some b) = Some p" "keyOf (Some a) = Some q" by simp_all
  note u = moveCellBetween_unfold [OF x, of N _ _ actorId jp s]
  {
    assume qp: "q \<le> p"
    then have n: "\<not> (p < x \<and> x < q)" by auto
    from qp ne have "generateKeyBetween (Some p) (Some q) = Inl (InvalidRange p q)"
      by (simp add: generateKeyBetween_def)
    from fractionalIndexBetween_error [OF this, of jp s] n
    show "moveCellBetween N cell (Some b) (Some a) actorId jp s = Inl (InvalidRange p q)"
      by (simp add: u k del: keyOf.simps(2))
  next
    assume a: "isValidFractionalIndex p \<and> isValidFractionalIndex q \<and> q = p @ ''0'' \<and>
       \<not> (p < x \<and> x < q)"
    then have vp: "isValidFractionalIndex p" and vq: "isValidFractionalIndex q"
      and q: "q = p @ ''0''" and n: "\<not> (p < x \<and> x < q)" by blast+
    from q have lt: "p < q" by (simp add: less_append_proper)
    from generateKeyBetween_correct [OF vp vq lt] q
    have "generateKeyBetween (Some p) (Some q) = Inl (NoStringExists p q)" by blast
    from fractionalIndexBetween_error [OF this, of jp s] n
    show "moveCellBetween N cell (Some b) (Some a) actorId jp s = Inl (NoStringExists p q)"
      by (simp add: u k del: keyOf.simps(2))
  next
    assume jit: "\<forall>t. 0 \<le> fst (randomInt jp BASE t) \<and> fst (randomInt jp BASE t) < 36"
      and a: "isValidFractionalIndex p \<and> isValidFractionalIndex q \<and> p < q \<and> q \<noteq> p @ ''0'' \<and>
          \<not> (p < x \<and> x < q)"
    from a have vp: "isValidFractionalIndex p" and vq: "isValidFractionalIndex q"
      and lt: "p < q" and q: "q \<noteq> p @ ''0''" and n: "\<not> (p < x \<and> x < q)" by simp_all
    from generateKeyBetween_correct [OF vp vq lt] q
    obtain key where "generateKeyBetween (Some p) (Some q) = Inr key" by blast
    from fractionalIndexBetween_total [OF jit this, of s]
    obtain k' s1 where f: "fractionalIndexBetween (Some p) (Some q) jp s = Inr (k', s1)" by blast
    from fractionalIndexBetween_both_sound [OF vp vq f]
    have b: "p < k' \<and> k' < q \<and> isValidFractionalIndex k'" .
    from f n have "moveCellBetween N cell (Some b) (Some a) actorId jp s =
        Inr (Some (CellMoved2 (cr_id cell) k' actorId), s1)"
      by (simp add: u k del: keyOf.simps(2))
    with b show "\<exists>k s1. moveCellBetween N cell (Some b) (Some a) actorId jp s =
                 Inr (Some (CellMoved2 (cr_id cell) k actorId), s1) \<and>
               p < k \<and> k < q \<and> isValidFractionalIndex k" by blast
  next
    assume jit: "\<forall>t. 0 \<le> fst (randomInt jp BASE t) \<and> fst (randomInt jp BASE t) < 36"
      and a: "isValidFractionalIndex p \<and> \<not> p < x"
    from a have vp: "isValidFractionalIndex p" and n: "\<not> p < x" by simp_all
    from vp have sp: "set p \<subseteq> set BASE36_DIGITS" by (simp add: isValid_iff)
    from generateKeyAfter_correct [OF sp] ne
    obtain key where "generateKeyBetween (Some p) None = Inr key"
      by (auto simp: generateKeyBetween_def)
    from fractionalIndexBetween_total [OF jit this, of s]
    obtain k' s1 where f: "fractionalIndexBetween (Some p) None jp s = Inr (k', s1)" by blast
    from vp have "Some p = None \<or> (\<exists>r. Some p = Some r \<and> isValidFractionalIndex r)" by simp
    from fractionalIndexBetween_after_sound [OF this f]
    have b: "p < k' \<and> isValidFractionalIndex k'" by simp
    from f n have "moveCellBetween N cell (Some b) None actorId jp s =
        Inr (Some (CellMoved2 (cr_id cell) k' actorId), s1)"
      by (simp add: u k del: keyOf.simps(2))
    with b show "\<exists>k s1. moveCellBetween N cell (Some b) None actorId jp s =
                 Inr (Some (CellMoved2 (cr_id cell) k actorId), s1) \<and>
               p < k \<and> isValidFractionalIndex k" by blast
  next
    assume jit: "\<forall>t. 0 \<le> fst (randomInt jp BASE t) \<and> fst (randomInt jp BASE t) < 36"
      and a: "isValidFractionalIndex q \<and> (\<exists>c \<in> set q. c \<noteq> CHR ''0'') \<and> \<not> x < q"
    from a have vq: "isValidFractionalIndex q" and nz: "\<exists>c \<in> set q. c \<noteq> CHR ''0''"
      and n: "\<not> x < q" by simp_all
    from vq have sq: "set q \<subseteq> set BASE36_DIGITS" by (simp add: isValid_iff)
    from generateKeyBefore_correct [OF sq nz] ne
    obtain key where "generateKeyBetween None (Some q) = Inr key"
      by (auto simp: generateKeyBetween_def)
    from fractionalIndexBetween_total [OF jit this, of s]
    obtain k' s1 where f: "fractionalIndexBetween None (Some q) jp s = Inr (k', s1)" by blast
    from fractionalIndexBetween_before_sound [OF vq nz f]
    have b: "k' < q \<and> isValidFractionalIndex k'" .
    from f n have "moveCellBetween N cell None (Some a) actorId jp s =
        Inr (Some (CellMoved2 (cr_id cell) k' actorId), s1)"
      by (simp add: u k del: keyOf.simps(2))
    with b show "\<exists>k s1. moveCellBetween N cell None (Some a) actorId jp s =
                 Inr (Some (CellMoved2 (cr_id cell) k actorId), s1) \<and>
               k < q \<and> isValidFractionalIndex k" by blast
  }
qed

text \<open>
  Claim C8, as amended. \<open>moveCellBetween\<close> returns \<open>null\<close> when the index of the cell is
  \<open>null\<close> or empty. For bound cells that have indices \<open>p\<close> (before) and \<open>q\<close> (after), it
  returns \<open>null\<close> when the bounds given already straddle the index \<open>x\<close> of the cell
  (\<open>p < x < q\<close>, \<open>x < q\<close>, \<open>p < x\<close>). In every other case, also when no bound is given, it
  calls \<open>fractionalIndexBetween\<close> on the two keys, the key of a bound being its index, or
  \<open>null\<close> when the bound is absent or has no index: when that call throws, so does
  \<open>moveCellBetween\<close>; when it returns \<open>k\<close>, the result is the \<open>v2.CellMoved\<close> event of the
  cell's id, \<open>k\<close> and the actor id. The conjuncts, in this order:
  \<^enum> the cell without index;
  \<^enum> bounds with indices: the three no-op cases, the call that is made otherwise, and the
    place of the index of a returned event (strictly between valid bounds, strictly above
    \<open>p\<close>, strictly below a \<open>q\<close> that has a character other than \<open>0\<close>);
  \<^enum> the rule for any bounds whatever;
  \<^enum> no bound at all: an event is returned and never \<open>null\<close>, its index is \<open>"m"\<close> or \<open>"m"\<close>
    with one jitter character, and the call returns whenever \<open>randomInt(36)\<close> answers
    within \<open>0..35\<close>;
  \<^enum> a bound cell that has no index (\<open>b0\<close>, \<open>a0\<close>): its key is \<open>null\<close>, and the no-op test
    compares the index of the cell with \<open>null\<close>;
  \<^enum> what is thrown and when an event is certain: \<open>Invalid range\<close> when \<open>q \<le> p\<close>,
    \<open>No string exists between\<close> when \<open>q\<close> is \<open>p\<close> followed by \<open>0\<close>, and otherwise, with
    valid bounds and \<open>randomInt(36)\<close> within \<open>0..35\<close>, an event whose index is valid and
    lies where the second conjunct says.
\<close>
theorem moveCellBetween_no_op_or_move:
  "(falsy (cr_fractionalIndex cell) \<longrightarrow>
      moveCellBetween N cell cellBefore cellAfter actorId jp s = Inr (None, s)) \<and>
   (cr_fractionalIndex cell = Some x \<and> x \<noteq> [] \<and>
    cr_fractionalIndex b = Some p \<and> p \<noteq> [] \<and> cr_fractionalIndex a = Some q \<and> q \<noteq> [] \<longrightarrow>
      (p < x \<and> x < q \<longrightarrow>
         moveCellBetween N cell (Some b) (Some a) actorId jp s = Inr (None, s)) \<and>
      (x < q \<longrightarrow> moveCellBetween N cell None (Some a) actorId jp s = Inr (None, s)) \<and>
      (p < x \<longrightarrow> moveCellBetween N cell (Some b) None actorId jp s = Inr (None, s)) \<and>
      (\<not> (p < x \<and> x < q) \<longrightarrow>
         moveCellBetween N cell (Some b) (Some a) actorId jp s =
           (case fractionalIndexBetween (Some p) (Some q) jp s of
              Inl e \<Rightarrow> Inl e
            | Inr (k, s1) \<Rightarrow> Inr (Some (CellMoved2 (cr_id cell) k actorId), s1))) \<and>
      (\<not> x < q \<longrightarrow>
         moveCellBetween N cell None (Some a) actorId jp s =
           (case fractionalIndexBetween None (Some q) jp s of
              Inl e \<Rightarrow> Inl e
            | Inr (k, s1) \<Rightarrow> Inr (Some (CellMoved2 (cr_id cell) k actorId), s1))) \<and>
      (\<not> p < x \<longrightarrow>
         moveCellBetween N cell (Some b) None actorId jp s =
           (case fractionalIndexBetween (Some p) None jp s of
              Inl e \<Rightarrow> Inl e
            | Inr (k, s1) \<Rightarrow> Inr (Some (CellMoved2 (cr_id cell) k actorId), s1))) \<and>
      (isValidFractionalIndex p \<and> isValidFractionalIndex q \<longrightarrow>
         (\<forall>ev s1. moveCellBetween N cell (Some b) (Some a) actorId jp s = Inr (Some ev, s1) \<longrightarrow>
            (\<exists>k. ev = CellMoved2 (cr_id cell) k actorId \<and> p < k \<and> k < q)) \<and>
         (\<forall>ev s1. moveCellBetween N cell (Some b) None actorId jp s = Inr (Some ev, s1) \<longrightarrow>
            (\<exists>k. ev = CellMoved2 (cr_id cell) k actorId \<and> p < k)) \<and>
         ((\<exists>c \<in> set q. c \<noteq> CHR ''0'') \<longrightarrow>
            (\<forall>ev s1. moveCellBetween N cell None (Some a) actorId jp s = Inr (Some ev, s1) \<longrightarrow>
               (\<exists>k. ev = CellMoved2 (cr_id cell) k actorId \<and> k < q))))) \<and>
   (cr_fractionalIndex cell = Some x \<and> x \<noteq> [] \<longrightarrow>
      moveCellBetween N cell cellBefore cellAfter actorId jp s =
        (if (cellBefore \<noteq> None \<and> cellAfter \<noteq> None \<and>
             jsGreater N x (keyOf cellBefore) \<and> jsLess N x (keyOf cellAfter)) \<or>
            (cellBefore = None \<and> cellAfter \<noteq> None \<and> jsLess N x (keyOf cellAfter)) \<or>
            (cellBefore \<noteq> None \<and> cellAfter = None \<and> jsGreater N x (keyOf cellBefore))
         then Inr (None, s)
         else (case fractionalIndexBetween (keyOf cellBefore) (keyOf cellAfter) jp s of
              Inl e \<Rightarrow> Inl e
            | Inr (k, s1) \<Rightarrow> Inr (Some (CellMoved2 (cr_id cell) k actorId), s1)))) \<and>
   (cr_fractionalIndex cell = Some x \<and> x \<noteq> [] \<longrightarrow>
      moveCellBetween N cell None None actorId jp s =
        (case fractionalIndexBetween None None jp s of
              Inl e \<Rightarrow> Inl e
            | Inr (k, s1) \<Rightarrow> Inr (Some (CellMoved2 (cr_id cell) k actorId), s1)) \<and>
      (\<forall>r s1. moveCellBetween N cell None None actorId jp s = Inr (r, s1) \<longrightarrow>
         (\<exists>k. r = Some (CellMoved2 (cr_id cell) k actorId) \<and>
              (k = ''m'' \<or> (\<exists>c \<in> set BASE36_DIGITS. k = ''m'' @ [c])))) \<and>
      ((\<forall>t. 0 \<le> fst (randomInt jp BASE t) \<and> fst (randomInt jp BASE t) < 36) \<longrightarrow>
         (\<exists>k s1. moveCellBetween N cell None None actorId jp s =
            Inr (Some (CellMoved2 (cr_id cell) k actorId), s1)))) \<and>
   (cr_fractionalIndex cell = Some x \<and> x \<noteq> [] \<and>
    falsy (cr_fractionalIndex b0) \<and> falsy (cr_fractionalIndex a0) \<and>
    cr_fractionalIndex b = Some p \<and> p \<noteq> [] \<and> cr_fractionalIndex a = Some q \<and> q \<noteq> [] \<longrightarrow>
      moveCellBetween N cell (Some b0) None actorId jp s =
          (if greaterThanNull N x then Inr (None, s)
           else (case fractionalIndexBetween None None jp s of
              Inl e \<Rightarrow> Inl e
            | Inr (k, s1) \<Rightarrow> Inr (Some (CellMoved2 (cr_id cell) k actorId), s1))) \<and>
      moveCellBetween N cell None (Some a0) actorId jp s =
          (if lessThanNull N x then Inr (None, s)
           else (case fractionalIndexBetween None None jp s of
              Inl e \<Rightarrow> Inl e
            | Inr (k, s1) \<Rightarrow> Inr (Some (CellMoved2 (cr_id cell) k actorId), s1))) \<and>
      moveCellBetween N cell (Some b0) (Some a0) actorId jp s =
          (if greaterThanNull N x \<and> lessThanNull N x then Inr (None, s)
           else (case fractionalIndexBetween None None jp s of
              Inl e \<Rightarrow> Inl e
            | Inr (k, s1) \<Rightarrow> Inr (Some (CellMoved2 (cr_id cell) k actorId), s1))) \<and>
      moveCellBetween N cell (Some b0) (Some a) actorId jp s =
          (if greaterThanNull N x \<and> x < q then Inr (None, s)
           else (case fractionalIndexBetween None (Some q) jp s of
              Inl e \<Rightarrow> Inl e
            | Inr (k, s1) \<Rightarrow> Inr (Some (CellMoved2 (cr_id cell) k actorId), s1))) \<and>
      moveCellBetween N cell (Some b) (Some a0) actorId jp s =
          (if p < x \<and> lessThanNull N x then Inr (None, s)
           else (case fractionalIndexBetween (Some p) None jp s of
              Inl e \<Rightarrow> Inl e
            | Inr (k, s1) \<Rightarrow> Inr (Some (CellMoved2 (cr_id cell) k actorId), s1)))) \<and>
   (cr_fractionalIndex cell = Some x \<and> x \<noteq> [] \<and>
    cr_fractionalIndex b = Some p \<and> p \<noteq> [] \<and> cr_fractionalIndex a = Some q \<and> q \<noteq> [] \<longrightarrow>
      (q \<le> p \<longrightarrow>
         moveCellBetween N cell (Some b) (Some a) actorId jp s = Inl (InvalidRange p q)) \<and>
      (isValidFractionalIndex p \<and> isValidFractionalIndex q \<and> q = p @ ''0'' \<and>
       \<not> (p < x \<and> x < q) \<longrightarrow>
         moveCellBetween N cell (Some b) (Some a) actorId jp s = Inl (NoStringExists p q)) \<and>
      ((\<forall>t. 0 \<le> fst (randomInt jp BASE t) \<and> fst (randomInt jp BASE t) < 36) \<longrightarrow>
         (isValidFractionalIndex p \<and> isValidFractionalIndex q \<and> p < q \<and> q \<noteq> p @ ''0'' \<and>
          \<not> (p < x \<and> x < q) \<longrightarrow>
            (\<exists>k s1. moveCellBetween N cell (Some b) (Some a) actorId jp s =
                 Inr (Some (CellMoved2 (cr_id cell) k actorId), s1) \<and>
               p < k \<and> k < q \<and> isValidFractionalIndex k)) \<and>
         (isValidFractionalIndex p \<and> \<not> p < x \<longrightarrow>
            (\<exists>k s1. moveCellBetween N cell (Some b) None actorId jp s =
                 Inr (Some (CellMoved2 (cr_id cell) k actorId), s1) \<and>
               p < k \<and> isValidFractionalIndex k)) \<and>
         (isValidFractionalIndex q \<and> (\<exists>c \<in> set q. c \<noteq> CHR ''0'') \<and> \<not> x < q \<longrightarrow>
            (\<exists>k s1. moveCellBetween N cell None (Some a) actorId jp s =
                 Inr (Some (CellMoved2 (cr_id cell) k actorId), s1) \<and>
               k < q \<and> isValidFractionalIndex k))))"
  by (intro conjI)
     (rule moveCellBetween_null_index moveCellBetween_given_bounds moveCellBetween_rule
        moveCellBetween_no_bound moveCellBetween_bound_without_index
        moveCellBetween_throws_or_returns)+

text \<open>
  The theorem for a cell at \<open>"m"\<close> between \<open>"a"\<close> and \<open>"z"\<close> (nothing to do), for a cell at
  \<open>"a"\<close> moved between \<open>"m"\<close> and \<open>"z"\<close>, for the same cell moved with no bound at all, and
  for a cell at \<open>"m"\<close> moved between \<open>"z"\<close> and \<open>"a"\<close>, all under the zero jitter provider.
\<close>

theorem moveCellBetween_no_op_or_move_witness:
  "cr_fractionalIndex \<lparr> cr_id = ''c'', cr_fractionalIndex = Some ''m'', cr_cellType = CellCode \<rparr> = Some ''m'' \<and>
   ''a'' < ''m'' \<and> ''m'' < ''z'' \<and>
   moveCellBetween \<lparr> greaterThanNull = (\<lambda>x. False), lessThanNull = (\<lambda>x. False) \<rparr>
     \<lparr> cr_id = ''c'', cr_fractionalIndex = Some ''m'', cr_cellType = CellCode \<rparr>
     (Some \<lparr> cr_id = ''b'', cr_fractionalIndex = Some ''a'', cr_cellType = CellCode \<rparr>)
     (Some \<lparr> cr_id = ''a'', cr_fractionalIndex = Some ''z'', cr_cellType = CellCode \<rparr>)
     (Some ''u'') zeroJitter () = Inr (None, ()) \<and>
   \<not> (''m'' < ''a'' \<and> ''a'' < ''z'') \<and>
   moveCellBetween \<lparr> greaterThanNull = (\<lambda>x. False), lessThanNull = (\<lambda>x. False) \<rparr>
     \<lparr> cr_id = ''c'', cr_fractionalIndex = Some ''a'', cr_cellType = CellCode \<rparr>
     (Some \<lparr> cr_id = ''b'', cr_fractionalIndex = Some ''m'', cr_cellType = CellCode \<rparr>)
     (Some \<lparr> cr_id = ''a'', cr_fractionalIndex = Some ''z'', cr_cellType = CellCode \<rparr>)
     (Some ''u'') zeroJitter () = Inr (Some (CellMoved2 ''c'' ''s0'' (Some ''u'')), ()) \<and>
   ''m'' < ''s0'' \<and> ''s0'' < ''z'' \<and>
   moveCellBetween \<lparr> greaterThanNull = (\<lambda>x. False), lessThanNull = (\<lambda>x. False) \<rparr>
     \<lparr> cr_id = ''c'', cr_fractionalIndex = Some ''a'', cr_cellType = CellCode \<rparr>
     None None (Some ''u'') zeroJitter () = Inr (Some (CellMoved2 ''c'' ''m0'' (Some ''u'')), ()) \<and>
   ''a'' \<le> ''z'' \<and>
   moveCellBetween \<lparr> greaterThanNull = (\<lambda>x. False), lessThanNull = (\<lambda>x. False) \<rparr>
     \<lparr> cr_id = ''c'', cr_fractionalIndex = Some ''m'', cr_cellType = CellCode \<rparr>
     (Some \<lparr> cr_id = ''b'', cr_fractionalIndex = Some ''z'', cr_cellType = CellCode \<rparr>)
     (Some \<lparr> cr_id = ''a'', cr_fractionalIndex = Some ''a'', cr_cellType = CellCode \<rparr>)
     (Some ''u'') zeroJitter () = Inl (InvalidRange ''z'' ''a'')"
proof -
  let ?N = "\<lparr> greaterThanNull = (\<lambda>x. False), lessThanNull = (\<lambda>x. False) \<rparr>"
  let ?b = "\<lparr> cr_id = ''b'', cr_fractionalIndex = Some ''a'', cr_cellType = CellCode \<rparr>"
  let ?b2 = "\<lparr> cr_id = ''b'', cr_fractionalIndex = Some ''m'', cr_cellType = CellCode \<rparr>"
  let ?b3 = "\<lparr> cr_id = ''b'', cr_fractionalIndex = Some ''z'', cr_cellType = CellCode \<rparr>"
  let ?a = "\<lparr> cr_id = ''a'', cr_fractionalIndex = Some ''z'', cr_cellType = CellCode \<rparr>"
  let ?a3 = "\<lparr> cr_id = ''a'', cr_fractionalIndex = Some ''a'', cr_cellType = CellCode \<rparr>"
  let ?c = "\<lparr> cr_id = ''c'', cr_fractionalIndex = Some ''m'', cr_cellType = CellCode \<rparr>"
  let ?c2 = "\<lparr> cr_id = ''c'', cr_fractionalIndex = Some ''a'', cr_cellType = CellCode \<rparr>"
  have h1: "cr_fractionalIndex ?c = Some ''m'' \<and> ''m'' \<noteq> [] \<and>
    cr_fractionalIndex ?b = Some ''a'' \<and> ''a'' \<noteq> [] \<and> cr_fractionalIndex ?a = Some ''z'' \<and> ''z'' \<noteq> []"
    by simp
  have s1: "''a'' < ''m'' \<and> ''m'' < ''z''" by simp
  note t1 = moveCellBetween_no_op_or_move
      [where cell = ?c and b = ?b and a = ?a and x = "''m''" and p = "''a''" and q = "''z''"
         and N = ?N and actorId = "Some ''u''" and jp = zeroJitter and s = "()",
       THEN conjunct2, THEN conjunct1, THEN mp, OF h1, THEN conjunct1, THEN mp, OF s1]
  have h2: "cr_fractionalIndex ?c2 = Some ''a'' \<and> ''a'' \<noteq> [] \<and>
    cr_fractionalIndex ?b2 = Some ''m'' \<and> ''m'' \<noteq> [] \<and> cr_fractionalIndex ?a = Some ''z'' \<and> ''z'' \<noteq> []"
    by simp
  have s2: "\<not> (''m'' < ''a'' \<and> ''a'' < ''z'')" by simp
  have f: "fractionalIndexBetween (Some ''m'') (Some ''z'') zeroJitter () = Inr (''s0'', ())"
    by code_simp
  note t2 = moveCellBetween_no_op_or_move
      [where cell = ?c2 and b = ?b2 and a = ?a and x = "''a''" and p = "''m''" and q = "''z''"
         and N = ?N and actorId = "Some ''u''" and jp = zeroJitter and s = "()",
       THEN conjunct2, THEN conjunct1, THEN mp, OF h2, THEN conjunct2, THEN conjunct2,
       THEN conjunct2, THEN conjunct1, THEN mp, OF s2]
  from t2 f have m2: "moveCellBetween ?N ?c2 (Some ?b2) (Some ?a) (Some ''u'') zeroJitter () =
      Inr (Some (CellMoved2 ''c'' ''s0'' (Some ''u'')), ())" by simp
  have h3: "cr_fractionalIndex ?c2 = Some ''a'' \<and> ''a'' \<noteq> []" by simp
  have f0: "fractionalIndexBetween None None zeroJitter () = Inr (''m0'', ())"
    by code_simp
  note t3 = moveCellBetween_no_op_or_move
      [where cell = ?c2 and x = "''a''"
         and N = ?N and actorId = "Some ''u''" and jp = zeroJitter and s = "()",
       THEN conjunct2, THEN conjunct2, THEN conjunct2, THEN conjunct1, THEN mp, OF h3,
       THEN conjunct1]
  from t3 f0 have m3: "moveCellBetween ?N ?c2 None None (Some ''u'') zeroJitter () =
      Inr (Some (CellMoved2 ''c'' ''m0'' (Some ''u'')), ())" by simp
  have h4: "cr_fractionalIndex ?c = Some ''m'' \<and> ''m'' \<noteq> [] \<and>
    cr_fractionalIndex ?b3 = Some ''z'' \<and> ''z'' \<noteq> [] \<and> cr_fractionalIndex ?a3 = Some ''a'' \<and> ''a'' \<noteq> []"
    by simp
  have s4: "''a'' \<le> ''z''" by simp
  note t4 = moveCellBetween_no_op_or_move
      [where cell = ?c and b = ?b3 and a = ?a3 and x = "''m''" and p = "''z''" and q = "''a''"
         and N = ?N and actorId = "Some ''u''" and jp = zeroJitter and s = "()",
       THEN conjunct2, THEN conjunct2, THEN conjunct2, THEN conjunct2, THEN conjunct2,
       THEN mp, OF h4, THEN conjunct1, THEN mp, OF s4]
  have o: "''m'' < ''s0''" "''s0'' < ''z''" by simp_all
  have c: "cr_fractionalIndex ?c = Some ''m''" by simp
  from c s1 t1 s2 m2 o m3 s4 t4 show ?thesis by (intro conjI) simp_all
qed

text \<open>
  The claim as first stated, that an event is returned in every other case, fails for a cell
  at \<open>"m"\<close> moved between \<open>"a"\<close> and \<open>"a0"\<close>: no index lies between the bounds and
  \<open>moveCellBetween\<close> throws.
\<close>

theorem moveCellBetween_throws_counterexample:
  "\<not> falsy (cr_fractionalIndex \<lparr> cr_id = ''c'', cr_fractionalIndex = Some ''m'', cr_cellType = CellCode \<rparr>) \<and>
   \<not> (''a'' < ''m'' \<and> ''m'' < ''a0'') \<and>
   moveCellBetween \<lparr> greaterThanNull = (\<lambda>x. False), lessThanNull = (\<lambda>x. False) \<rparr>
     \<lparr> cr_id = ''c'', cr_fractionalIndex = Some ''m'', cr_cellType = CellCode \<rparr>
     (Some \<lparr> cr_id = ''b'', cr_fractionalIndex = Some ''a'', cr_cellType = CellCode \<rparr>)
     (Some \<lparr> cr_id = ''a'', cr_fractionalIndex = Some ''a0'', cr_cellType = CellCode \<rparr>)
     (Some ''u'') zeroJitter () = Inl (NoStringExists ''a'' ''a0'')"
proof -
  have g: "generateKeyBetween (Some ''a'') (Some ''a0'') = Inl (NoStringExists ''a'' ''a0'')"
    by code_simp
  from fractionalIndexBetween_error [OF g, of zeroJitter "()"]
  show ?thesis by (simp add: moveCellBetween_def)
qed


subsection \<open>The actor of rebalancing events\<close>

lemma assignLoop_actor:
  "\<forall>ev \<in> set (snd (assignLoop cells i indices bufferCells actorId)).
     \<exists>ident f. ev = CellMoved2 ident f (Some actorId)"
proof (induction cells arbitrary: i)
  case Nil
  show ?case by simp
next
  case (Cons cell rest)
  obtain newIndices moveEvents where
    r: "assignLoop rest (i + 1) indices bufferCells actorId = (newIndices, moveEvents)"
    by (cases "assignLoop rest (i + 1) indices bufferCells actorId")
  from Cons.IH [of "i + 1"] r
  have "\<forall>ev \<in> set moveEvents. \<exists>ident f. ev = CellMoved2 ident f (Some actorId)" by simp
  then show ?case using r by (auto simp: Let_def split: option.splits)
qed

lemma rebalanceCellIndices_actor:
  assumes "rebalanceCellIndices L cells jp s actorIdOpt bufferCellsOpt = Inr (r, s')"
  shows "\<forall>ev \<in> set (rb_events r).
           \<exists>ident f. ev = CellMoved2 ident f (Some (case actorIdOpt of None \<Rightarrow> ''system'' | Some a \<Rightarrow> a))"
proof (cases "length cells = 0")
  case True
  with assms show ?thesis by (auto simp: rebalanceCellIndices_def Let_def)
next
  case False
  let ?actor = "case actorIdOpt of None \<Rightarrow> ''system'' | Some a \<Rightarrow> a"
  let ?buf = "case bufferCellsOpt of None \<Rightarrow> 2 | Some n \<Rightarrow> n"
  let ?total = "int (length cells) + ?buf * 2"
  show ?thesis
  proof (cases "generateFractionalIndices None None ?total jp s")
    case (Inl e)
    with assms False show ?thesis by (simp add: rebalanceCellIndices_def Let_def)
  next
    case (Inr p)
    obtain indices s1 where p: "p = (indices, s1)" by (cases p)
    obtain newIndices moveEvents where
      l: "assignLoop (sortByFractionalIndex L cells) 0 indices ?buf ?actor = (newIndices, moveEvents)"
      by (cases "assignLoop (sortByFractionalIndex L cells) 0 indices ?buf ?actor")
    from assms False Inr p l have "rb_events r = moveEvents"
      by (auto simp: rebalanceCellIndices_def Let_def)
    with assignLoop_actor [of "sortByFractionalIndex L cells" 0 indices ?buf ?actor] l
    show ?thesis by simp
  qed
qed

lemma fractionalIndexBetweenWithFallback_actor:
  assumes "fractionalIndexBetweenWithFallback L a b allCells pos jp s = Inr (fr, s')"
    and "fb_rebalanceResult fr = Some rr"
  shows "\<forall>ev \<in> set (rb_events rr). \<exists>ident f. ev = CellMoved2 ident f (Some ''system'')"
proof -
  from assms obtain s1 where "rebalanceCellIndices L allCells jp s None None = Inr (rr, s1)"
    by (auto simp: fractionalIndexBetweenWithFallback_def Let_def split: sum.splits prod.splits if_splits)
  from rebalanceCellIndices_actor [OF this] show ?thesis by simp
qed

lemma moveCellWithRebalancing_actor:
  assumes "moveCellWithRebalancing L N cell cb ca allCells actorIdOpt jp s = Inr (res, s')"
    and "mr_rebalanceResult res = Some rr"
  shows "\<forall>ev \<in> set (rb_events rr).
           \<exists>ident f. ev = CellMoved2 ident f
             (Some ((case actorIdOpt of None \<Rightarrow> ''user'' | Some a \<Rightarrow> a) @ ''-rebalance''))"
proof -
  let ?actor = "(case actorIdOpt of None \<Rightarrow> ''user'' | Some a \<Rightarrow> a)"
  from assms obtain s1 where
    "rebalanceCellIndices L allCells jp s (Some (?actor @ ''-rebalance'')) None = Inr (rr, s1)"
    by (auto simp: moveCellWithRebalancing_def Let_def
             split: sum.splits prod.splits if_splits option.splits)
  from rebalanceCellIndices_actor [OF this] show ?thesis by simp
qed

text \<open>
  Claim C7, as amended. When \<open>moveCellBetweenWithRebalancing\<close> reports a rebalance, every
  event it returns is a \<open>v2.CellMoved\<close> whose actor id is the actor id supplied (\<open>"user"\<close>
  when none, or an empty one, is supplied) followed by \<open>-rebalance\<close>. \<open>createCellBetween\<close>
  takes no actor id and rebalances through \<open>fractionalIndexBetweenWithFallback\<close>, which passes
  none either: every \<open>v2.CellMoved\<close> event it returns carries the default actor id
  \<open>"system"\<close>.
\<close>
theorem rebalance_events_actor:
  "(moveCellBetweenWithRebalancing L N cell cellBefore cellAfter allCells actorId jp s = Inr (res, s1) \<and>
    mo_needsRebalancing res \<longrightarrow>
      (\<forall>ev \<in> set (mo_events res).
         \<exists>ident f. ev = CellMoved2 ident f
           (Some ((case actorId of None \<Rightarrow> ''user'' | Some a \<Rightarrow> if a = [] then ''user'' else a)
                  @ ''-rebalance'')))) \<and>
   (createCellBetween L newId cellType createdBy cellBefore cellAfter allCells jp s = Inr (cres, s2) \<longrightarrow>
      (\<forall>ev \<in> set (co_events cres). \<forall>ident f a. ev = CellMoved2 ident f a \<longrightarrow> a = Some ''system''))"
proof (intro conjI impI)
  assume h: "moveCellBetweenWithRebalancing L N cell cellBefore cellAfter allCells actorId jp s = Inr (res, s1) \<and>
    mo_needsRebalancing res"
  let ?opt = "if falsy actorId then None else actorId"
  from h obtain mres rr where
    m: "moveCellWithRebalancing L N cell cellBefore cellAfter allCells ?opt jp s = Inr (mres, s1)"
    and rr: "mr_rebalanceResult mres = Some rr" and ev: "mo_events res = rb_events rr"
    by (auto simp: moveCellBetweenWithRebalancing_def Let_def
             split: sum.splits prod.splits if_splits option.splits bool.splits)
  have "(case ?opt of None \<Rightarrow> ''user'' | Some a \<Rightarrow> a) =
        (case actorId of None \<Rightarrow> ''user'' | Some a \<Rightarrow> if a = [] then ''user'' else a)"
    by (cases actorId) auto
  with moveCellWithRebalancing_actor [OF m rr] ev
  show "\<forall>ev \<in> set (mo_events res).
         \<exists>ident f. ev = CellMoved2 ident f
           (Some ((case actorId of None \<Rightarrow> ''user'' | Some a \<Rightarrow> if a = [] then ''user'' else a)
                  @ ''-rebalance''))" by simp
next
  assume h: "createCellBetween L newId cellType createdBy cellBefore cellAfter allCells jp s = Inr (cres, s2)"
  then obtain a b pos fr where
    f: "fractionalIndexBetweenWithFallback L a b allCells pos jp s = Inr (fr, s2)"
    and ev: "co_events cres =
       (case fb_rebalanceResult fr of
          Some rebalanceResult \<Rightarrow> if fb_needsRebalancing fr then rb_events rebalanceResult else []
        | None \<Rightarrow> []) @ [CellCreated2 newId (fb_index fr) cellType createdBy]"
    by (auto simp: createCellBetween_def Let_def split: sum.splits prod.splits)
  show "\<forall>ev \<in> set (co_events cres). \<forall>ident f a. ev = CellMoved2 ident f a \<longrightarrow> a = Some ''system''"
  proof (cases "fb_rebalanceResult fr")
    case None
    with ev show ?thesis by simp
  next
    case (Some rr)
    from fractionalIndexBetweenWithFallback_actor [OF f Some] ev Some
    show ?thesis by (auto split: if_splits)
  qed
qed

text \<open>
  The theorem for the cells \<open>"m"\<close>, \<open>"m0"\<close>, \<open>"m00"\<close>, the third moved between the
  first two by \<open>test-user\<close>.
\<close>

theorem rebalance_events_actor_witness:
  "moveCellBetweenWithRebalancing codeUnitCompare
     \<lparr> greaterThanNull = (\<lambda>x. False), lessThanNull = (\<lambda>x. False) \<rparr>
     \<lparr> cr_id = ''c3'', cr_fractionalIndex = Some ''m00'', cr_cellType = CellCode \<rparr>
     (Some \<lparr> cr_id = ''c1'', cr_fractionalIndex = Some ''m'', cr_cellType = CellCode \<rparr>)
     (Some \<lparr> cr_id = ''c2'', cr_fractionalIndex = Some ''m0'', cr_cellType = CellCode \<rparr>)
     [\<lparr> cr_id = ''c1'', cr_fractionalIndex = Some ''m'', cr_cellType = CellCode \<rparr>,
      \<lparr> cr_id = ''c2'', cr_fractionalIndex = Some ''m0'', cr_cellType = CellCode \<rparr>,
      \<lparr> cr_id = ''c3'', cr_fractionalIndex = Some ''m00'', cr_cellType = CellCode \<rparr>]
     (Some ''test-user'') zeroJitter () =
   Inr (\<lparr> mo_events =
            [CellMoved2 ''c1'' ''m110'' (Some ''test-user-rebalance''),
             CellMoved2 ''c2'' ''m1110'' (Some ''test-user-rebalance''),
             CellMoved2 ''c3'' ''m11110'' (Some ''test-user-rebalance'')],
          mo_moved = True, mo_needsRebalancing = True, mo_rebalanceCount = Some 3 \<rparr>, ()) \<and>
   mo_needsRebalancing
     (\<lparr> mo_events =
            [CellMoved2 ''c1'' ''m110'' (Some ''test-user-rebalance''),
             CellMoved2 ''c2'' ''m1110'' (Some ''test-user-rebalance''),
             CellMoved2 ''c3'' ''m11110'' (Some ''test-user-rebalance'')],
          mo_moved = True, mo_needsRebalancing = True, mo_rebalanceCount = Some 3 \<rparr>) \<and>
   list_all (\<lambda>ev. \<exists>ident f. ev = CellMoved2 ident f (Some ''test-user-rebalance''))
     (mo_events
      (\<lparr> mo_events =
            [CellMoved2 ''c1'' ''m110'' (Some ''test-user-rebalance''),
             CellMoved2 ''c2'' ''m1110'' (Some ''test-user-rebalance''),
             CellMoved2 ''c3'' ''m11110'' (Some ''test-user-rebalance'')],
          mo_moved = True, mo_needsRebalancing = True, mo_rebalanceCount = Some 3 \<rparr>))"
proof -
  have e: "moveCellBetweenWithRebalancing codeUnitCompare
     \<lparr> greaterThanNull = (\<lambda>x. False), lessThanNull = (\<lambda>x. False) \<rparr>
     \<lparr> cr_id = ''c3'', cr_fractionalIndex = Some ''m00'', cr_cellType = CellCode \<rparr>
     (Some \<lparr> cr_id = ''c1'', cr_fractionalIndex = Some ''m'', cr_cellType = CellCode \<rparr>)
     (Some \<lparr> cr_id = ''c2'', cr_fractionalIndex = Some ''m0'', cr_cellType = CellCode \<rparr>)
     [\<lparr> cr_id = ''c1'', cr_fractionalIndex = Some ''m'', cr_cellType = CellCode \<rparr>,
      \<lparr> cr_id = ''c2'', cr_fractionalIndex = Some ''m0'', cr_cellType = CellCode \<rparr>,
      \<lparr> cr_id = ''c3'', cr_fractionalIndex = Some ''m00'', cr_cellType = CellCode \<rparr>]
     (Some ''test-user'') zeroJitter () =
   Inr (\<lparr> mo_events =
            [CellMoved2 ''c1'' ''m110'' (Some ''test-user-rebalance''),
             CellMoved2 ''c2'' ''m1110'' (Some ''test-user-rebalance''),
             CellMoved2 ''c3'' ''m11110'' (Some ''test-user-rebalance'')],
          mo_moved = True, mo_needsRebalancing = True, mo_rebalanceCount = Some 3 \<rparr>, ())"
    by code_simp
  have n: "mo_needsRebalancing
     (\<lparr> mo_events =
            [CellMoved2 ''c1'' ''m110'' (Some ''test-user-rebalance''),
             CellMoved2 ''c2'' ''m1110'' (Some ''test-user-rebalance''),
             CellMoved2 ''c3'' ''m11110'' (Some ''test-user-rebalance'')],
          mo_moved = True, mo_needsRebalancing = True, mo_rebalanceCount = Some 3 \<rparr>)"
    by simp
  note t = rebalance_events_actor [THEN conjunct1, THEN mp, OF conjI [OF e n]]
  from e n t show ?thesis by (simp add: list_all_iff)
qed

text \<open>
  The claim as first stated fails for \<open>createCellBetween\<close>: a cell created by \<open>me\<close>
  between \<open>"m"\<close> and \<open>"m0"\<close> triggers a rebalance whose events carry \<open>"system"\<close>.
\<close>

theorem createCellBetween_system_actor_counterexample:
  "createCellBetween codeUnitCompare ''new'' CellCode ''me''
     (Some \<lparr> cr_id = ''c1'', cr_fractionalIndex = Some ''m'', cr_cellType = CellCode \<rparr>)
     (Some \<lparr> cr_id = ''c2'', cr_fractionalIndex = Some ''m0'', cr_cellType = CellCode \<rparr>)
     [\<lparr> cr_id = ''c1'', cr_fractionalIndex = Some ''m'', cr_cellType = CellCode \<rparr>,
      \<lparr> cr_id = ''c2'', cr_fractionalIndex = Some ''m0'', cr_cellType = CellCode \<rparr>]
     zeroJitter () =
   Inr (\<lparr> co_events =
            [CellMoved2 ''c1'' ''m110'' (Some ''system''),
             CellMoved2 ''c2'' ''m1110'' (Some ''system''),
             CellCreated2 ''new'' ''m110h0'' CellCode ''me''],
          co_newCellId = ''new'', co_needsRebalancing = True, co_rebalanceCount = Some 2 \<rparr>, ())"
  by code_simp

subsection \<open>Rebalancing and the order of the cells\<close>

lemma fractionalIndexBetween_after_total:
  assumes jit: "\<forall>t. 0 \<le> fst (randomInt jp BASE t) \<and> fst (randomInt jp BASE t) < 36"
    and pv: "prev = None \<or> (\<exists>p. prev = Some p \<and> isValidFractionalIndex p)"
  shows "\<exists>k s1. fractionalIndexBetween prev None jp s = Inr (k, s1) \<and>
           isValidFractionalIndex k \<and> (\<forall>p. prev = Some p \<longrightarrow> p < k)"
proof -
  have "\<exists>key. generateKeyBetween prev None = Inr key"
  proof (cases prev)
    case None
    then show ?thesis by (simp add: generateKeyBetween_def)
  next
    case (Some p)
    with pv have "p \<noteq> []" "set p \<subseteq> set BASE36_DIGITS" by (simp_all add: isValid_iff)
    with Some generateKeyAfter_correct [of p] show ?thesis
      by (auto simp: generateKeyBetween_def)
  qed
  then obtain key where g: "generateKeyBetween prev None = Inr key" ..
  from jit have "0 \<le> fst (randomInt jp BASE (snd (random jp s))) \<and>
                 fst (randomInt jp BASE (snd (random jp s))) < 36" by blast
  then have "\<not> (fst (randomInt jp BASE (snd (random jp s))) < 0 \<or>
                   36 \<le> fst (randomInt jp BASE (snd (random jp s))))"
    by linarith
  with fractionalIndexBetween_cases [OF g, of jp s]
  obtain k s1 where f: "fractionalIndexBetween prev None jp s = Inr (k, s1)" by auto
  from fractionalIndexBetween_after_sound [OF pv f] f show ?thesis by blast
qed

lemma generateLoop_increasing:
  assumes jit: "\<forall>t. 0 \<le> fst (randomInt jp BASE t) \<and> fst (randomInt jp BASE t) < 36"
  shows "prev = None \<or> (\<exists>p. prev = Some p \<and> isValidFractionalIndex p) \<Longrightarrow>
         \<exists>keys s'. generateLoop n prev None jp s = Inr (keys, s') \<and> length keys = n \<and>
           sorted_wrt (<) keys \<and>
           (\<forall>k \<in> set keys. isValidFractionalIndex k \<and> (\<forall>p. prev = Some p \<longrightarrow> p < k))"
proof (induction n arbitrary: prev s)
  case 0
  show ?case by simp
next
  case (Suc n)
  from fractionalIndexBetween_after_total [OF jit Suc.prems, of s]
  obtain k s1 where f: "fractionalIndexBetween prev None jp s = Inr (k, s1)"
    and vk: "isValidFractionalIndex k" and pk: "\<forall>p. prev = Some p \<longrightarrow> p < k" by blast
  from vk have "Some k = None \<or> (\<exists>p. Some k = Some p \<and> isValidFractionalIndex p)" by simp
  from Suc.IH [OF this, of s1]
  obtain keys s' where l: "generateLoop n (Some k) None jp s1 = Inr (keys, s')"
    and len: "length keys = n" and so: "sorted_wrt (<) keys"
    and all: "\<forall>x \<in> set keys. isValidFractionalIndex x \<and> k < x" by auto
  have "generateLoop (Suc n) prev None jp s = Inr (k # keys, s')" using f l by simp
  moreover have "sorted_wrt (<) (k # keys)" using so all by simp
  moreover have "\<forall>x \<in> set (k # keys). isValidFractionalIndex x \<and> (\<forall>p. prev = Some p \<longrightarrow> p < x)"
    using vk pk all by (auto intro: less_trans)
  ultimately show ?case using len by auto
qed

lemma generateFractionalIndices_increasing:
  assumes jit: "\<forall>t. 0 \<le> fst (randomInt jp BASE t) \<and> fst (randomInt jp BASE t) < 36"
  shows "\<exists>indices s'. generateFractionalIndices None None n jp s = Inr (indices, s') \<and>
           length indices = nat n \<and> sorted_wrt (<) indices \<and>
           (\<forall>k \<in> set indices. isValidFractionalIndex k)"
proof -
  consider "n \<le> 0" | "n = 1" | "1 < n" by linarith
  then show ?thesis
  proof cases
    case 1
    then show ?thesis by (simp add: generateFractionalIndices_def)
  next
    case 2
    from fractionalIndexBetween_after_total [OF jit, of None s]
    obtain k s1 where "fractionalIndexBetween None None jp s = Inr (k, s1)"
      "isValidFractionalIndex k" by auto
    with 2 show ?thesis by (simp add: generateFractionalIndices_def)
  next
    case 3
    from generateLoop_increasing [OF jit, of None "nat n" s]
    obtain keys s' where "generateLoop (nat n) None None jp s = Inr (keys, s')"
      "length keys = nat n" "sorted_wrt (<) keys" "\<forall>k \<in> set keys. isValidFractionalIndex k"
      by auto
    with 3 show ?thesis by (auto simp: generateFractionalIndices_def)
  qed
qed

lemma assignLoop_spec:
  assumes ne: "\<forall>x \<in> set indices. x \<noteq> []"
  shows "0 \<le> i + bufferCells \<Longrightarrow> nat (i + bufferCells) + length cs \<le> length indices \<Longrightarrow>
     assignLoop cs i indices bufferCells actorId =
       (map (\<lambda>(c, x). (cr_id c, x))
          (filter (\<lambda>(c, x). cr_fractionalIndex c \<noteq> Some x) (zip cs (drop (nat (i + bufferCells)) indices))),
        map (\<lambda>(c, x). CellMoved2 (cr_id c) x (Some actorId))
          (filter (\<lambda>(c, x). cr_fractionalIndex c \<noteq> Some x) (zip cs (drop (nat (i + bufferCells)) indices))))"
proof (induction cs arbitrary: i)
  case Nil
  show ?case by simp
next
  case (Cons cell rest)
  let ?n = "nat (i + bufferCells)"
  from Cons.prems have n: "?n < length indices" by simp
  then have nth: "nthOpt indices (i + bufferCells) = Some (indices ! ?n)"
    using Cons.prems(1) by (simp add: nthOpt_def)
  from n ne have nonempty: "indices ! ?n \<noteq> []" by simp
  have dr: "drop ?n indices = indices ! ?n # drop (Suc ?n) indices"
    using n by (simp add: Cons_nth_drop_Suc)
  have suc: "nat (i + 1 + bufferCells) = Suc ?n" using Cons.prems(1) by simp
  from Cons.prems have "0 \<le> i + 1 + bufferCells" "nat (i + 1 + bufferCells) + length rest \<le> length indices"
    by simp_all
  from Cons.IH [OF this] have ih: "assignLoop rest (i + 1) indices bufferCells actorId =
       (map (\<lambda>(c, x). (cr_id c, x))
          (filter (\<lambda>(c, x). cr_fractionalIndex c \<noteq> Some x) (zip rest (drop (Suc ?n) indices))),
        map (\<lambda>(c, x). CellMoved2 (cr_id c) x (Some actorId))
          (filter (\<lambda>(c, x). cr_fractionalIndex c \<noteq> Some x) (zip rest (drop (Suc ?n) indices))))"
    by (simp only: suc)
  show ?case by (subst dr, subst dr) (simp add: ih nth nonempty)
qed

lemma applyCellMoved_ids: "map cr_id (applyCellMoved ev cells) = map cr_id cells"
  by (cases ev) (simp_all add: comp_def if_distrib cong: if_cong)

lemma applyCellMoves_all:
  "distinct (map fst ps) \<Longrightarrow>
   applyCellMoves (map (\<lambda>(i, x). CellMoved2 i x a) ps) cells =
     map (\<lambda>c. case map_of ps (cr_id c) of
                 Some x \<Rightarrow> c\<lparr>cr_fractionalIndex := Some x\<rparr>
               | None \<Rightarrow> c) cells"
proof (induction ps arbitrary: cells)
  case Nil
  show ?case by simp
next
  case (Cons p ps)
  obtain i x where p: "p = (i, x)" by (cases p)
  from Cons.prems p have d: "distinct (map fst ps)" and ni: "map_of ps i = None"
    by (auto simp: map_of_eq_None_iff)
  show ?case unfolding p using ni
    by (auto simp: Cons.IH [OF d] comp_def split: option.splits)
qed

lemma applyCellMoved_noop:
  assumes "distinct (map cr_id cells)" and "c \<in> set cells" and "cr_fractionalIndex c = Some x"
  shows "applyCellMoved (CellMoved2 (cr_id c) x a) cells = cells"
proof -
  have "(if cr_id d = cr_id c then d\<lparr>cr_fractionalIndex := Some x\<rparr> else d) = d"
    if "d \<in> set cells" for d
  proof (cases "cr_id d = cr_id c")
    case True
    with assms(1,2) that have "d = c" by (auto simp: distinct_map inj_on_def)
    with assms(3) show ?thesis by simp
  next
    case False
    then show ?thesis by simp
  qed
  then show ?thesis by (simp add: map_idI)
qed

lemma applyCellMoves_filtered:
  "distinct (map cr_id cs) \<Longrightarrow> distinct (map cr_id cells) \<Longrightarrow> set cs \<subseteq> set cells \<Longrightarrow>
   applyCellMoves
     (map (\<lambda>(c, x). CellMoved2 (cr_id c) x a)
        (filter (\<lambda>(c, x). cr_fractionalIndex c \<noteq> Some x) (zip cs xs))) cells =
   applyCellMoves (map (\<lambda>(c, x). CellMoved2 (cr_id c) x a) (zip cs xs)) cells"
proof (induction cs arbitrary: xs cells)
  case Nil
  show ?case by simp
next
  case (Cons c rest)
  show ?case
  proof (cases xs)
    case Nil
    then show ?thesis by simp
  next
    case (Cons x xs')
    from Cons.prems have dr: "distinct (map cr_id rest)" and cn: "cr_id c \<notin> cr_id ` set rest"
      and cin: "c \<in> set cells" and rin: "set rest \<subseteq> set cells" by auto
    show ?thesis
    proof (cases "cr_fractionalIndex c = Some x")
      case True
      from applyCellMoved_noop [OF Cons.prems(2) cin True, of a]
      have "applyCellMoves (map (\<lambda>(c, x). CellMoved2 (cr_id c) x a) (zip (c # rest) xs)) cells =
            applyCellMoves (map (\<lambda>(c, x). CellMoved2 (cr_id c) x a) (zip rest xs')) cells"
        using Cons by simp
      with Cons.IH [OF dr Cons.prems(2) rin, of xs'] True Cons show ?thesis by simp
    next
      case False
      let ?cells' = "applyCellMoved (CellMoved2 (cr_id c) x a) cells"
      have d': "distinct (map cr_id ?cells')" using Cons.prems(2) by (simp only: applyCellMoved_ids)
      have "set rest \<subseteq> set ?cells'"
      proof
        fix d assume d: "d \<in> set rest"
        with cn have "cr_id d \<noteq> cr_id c" by (metis imageI)
        moreover from d rin have "d \<in> set cells" by blast
        ultimately show "d \<in> set ?cells'" by (force simp: image_iff)
      qed
      from Cons.IH [OF dr d' this, of xs'] False Cons show ?thesis by simp
    qed
  qed
qed

lemma filter_key_singleton:
  "distinct (map f xs) \<Longrightarrow> k \<in> set xs \<Longrightarrow> filter (\<lambda>x. f k = f x) xs = [k]"
proof (induction xs)
  case Nil
  then show ?case by simp
next
  case (Cons y ys)
  show ?case
  proof (cases "k = y")
    case True
    from Cons.prems(1) have "\<forall>x \<in> set ys. f y \<noteq> f x" by auto
    then have "filter (\<lambda>x. f y = f x) ys = []" by (simp add: filter_empty_conv)
    with True show ?thesis by simp
  next
    case False
    with Cons.prems have "k \<in> set ys" by auto
    moreover from this Cons.prems(1) have "f k \<noteq> f y"
      by (metis distinct.simps(2) imageI list.simps(9) set_map)
    ultimately have "k \<in> set ys" "f k \<noteq> f y" by blast+
    with Cons show ?thesis by simp
  qed
qed

lemma sort_key_unique:
  assumes perm: "mset ys = mset xs" and so: "sorted_wrt (<) (map f ys)"
  shows "sort_key f xs = ys"
proof (rule properties_for_sort_key [OF perm])
  from so show "sorted (map f ys)" by (rule strict_sorted_imp_sorted)
next
  fix k assume k: "k \<in> set ys"
  from so have dy: "distinct (map f ys)" by (simp add: strict_sorted_iff)
  from perm have "mset (map f ys) = mset (map f xs)" by simp
  with dy have dx: "distinct (map f xs)" by (metis mset_eq_imp_distinct_iff)
  from perm k have kx: "k \<in> set xs" by (metis mset_eq_setD)
  from filter_key_singleton [OF dy k] filter_key_singleton [OF dx kx]
  show "filter (\<lambda>x. f k = f x) ys = filter (\<lambda>x. f k = f x) xs" by simp
qed

lemma zip_take_same_length: "zip cs (take (length cs) ys) = zip cs ys"
proof -
  have "zip cs (take (length cs) ys) = take (length cs) (zip cs ys)" by (simp add: take_zip)
  also have "\<dots> = zip cs ys" by simp
  finally show ?thesis .
qed

lemma indexOrEmpty_update [simp]: "indexOrEmpty (c\<lparr>cr_fractionalIndex := Some x\<rparr>) = x"
  by (simp add: indexOrEmpty_def)

lemma insertByFractionalIndex_code_units:
  "\<forall>d \<in> set ds. (L (indexOrEmpty c) (indexOrEmpty d) \<le> 0) = (indexOrEmpty c \<le> indexOrEmpty d) \<Longrightarrow>
   insertByFractionalIndex L c ds = insort_key indexOrEmpty c ds"
  by (induction ds) simp_all

lemma sortByFractionalIndex_code_units:
  "\<forall>c \<in> set cells. \<forall>d \<in> set cells.
     (L (indexOrEmpty c) (indexOrEmpty d) \<le> 0) = (indexOrEmpty c \<le> indexOrEmpty d) \<Longrightarrow>
   sortByFractionalIndex L cells = sort_key indexOrEmpty cells"
proof (induction cells)
  case Nil
  show ?case by (simp add: sortByFractionalIndex_def)
next
  case (Cons c cells)
  from Cons.prems have "\<forall>c \<in> set cells. \<forall>d \<in> set cells.
     (L (indexOrEmpty c) (indexOrEmpty d) \<le> 0) = (indexOrEmpty c \<le> indexOrEmpty d)" by simp
  from Cons.IH [OF this] have ih: "foldr (insertByFractionalIndex L) cells [] = sort_key indexOrEmpty cells"
    by (simp add: sortByFractionalIndex_def)
  from Cons.prems have "\<forall>d \<in> set (sort_key indexOrEmpty cells).
     (L (indexOrEmpty c) (indexOrEmpty d) \<le> 0) = (indexOrEmpty c \<le> indexOrEmpty d)" by simp
  then have "insertByFractionalIndex L c (sort_key indexOrEmpty cells) =
      insort_key indexOrEmpty c (sort_key indexOrEmpty cells)"
    by (rule insertByFractionalIndex_code_units [of "sort_key indexOrEmpty cells" L c])
  with ih show ?case by (simp add: sortByFractionalIndex_def sort_key_def)
qed

lemma documentedCellOrder_unique:
  assumes perm: "mset ys = mset cells" and so: "sorted_wrt (<) (map indexOrEmpty ys)"
  shows "documentedCellOrder cells = ys"
proof -
  from so have "sorted_wrt (\<lambda>c d. indexOrEmpty c < indexOrEmpty d) ys"
    by (simp add: sorted_wrt_map)
  then have "sorted_wrt (\<lambda>c d. (indexOrEmpty c, cr_id c) < (indexOrEmpty d, cr_id d)) ys"
    by (rule sorted_wrt_mono_rel [rotated]) simp
  then have "sorted_wrt (<) (map (\<lambda>c. (indexOrEmpty c, cr_id c)) ys)"
    by (simp add: sorted_wrt_map)
  from sort_key_unique [OF perm this] show ?thesis by (simp add: documentedCellOrder_def)
qed

lemma documentedCellOrder_distinct_indices:
  assumes "distinct (map indexOrEmpty cells)"
  shows "documentedCellOrder cells = sort_key indexOrEmpty cells"
proof (rule documentedCellOrder_unique)
  show "mset (sort_key indexOrEmpty cells) = mset cells" by simp
  have "mset (map indexOrEmpty (sort_key indexOrEmpty cells)) = mset (map indexOrEmpty cells)"
    by simp
  with assms have "distinct (map indexOrEmpty (sort_key indexOrEmpty cells))"
    by (metis mset_eq_imp_distinct_iff)
  moreover have "sorted (map indexOrEmpty (sort_key indexOrEmpty cells))" by (rule sorted_sort_key)
  ultimately show "sorted_wrt (<) (map indexOrEmpty (sort_key indexOrEmpty cells))"
    by (simp add: strict_sorted_iff)
qed

text \<open>
  Where the claim does hold. Take a non-empty list of cells with valid indices, no two of
  them equal, and distinct ids (\<open>id\<close> is the primary key of \<open>cells\<close>); a locale whose
  \<open>localeCompare\<close> orders the indices of these cells as their code units do; a jitter
  provider whose \<open>randomInt(36)\<close> answers within \<open>0..35\<close>; and a buffer that is not negative.
  Then \<open>rebalanceCellIndices\<close> returns, the indices it takes from
  \<open>generateFractionalIndices(null, null, |cells| + 2 * bufferCells)\<close> are strictly increasing,
  and once its \<open>v2.CellMoved\<close> events are applied the cells in documented order carry the
  generated indices number \<open>bufferCells\<close> to \<open>bufferCells + |cells| - 1\<close> in that order, and
  their ids are the ids of the cells in documented order before the events.
\<close>

lemma rebalance_keeps_order_of_distinct_indices:
  assumes ne: "cells \<noteq> []"
    and valid: "\<forall>c \<in> set cells. \<exists>x. cr_fractionalIndex c = Some x \<and> isValidFractionalIndex x"
    and ids: "distinct (map cr_id cells)"
    and dist: "distinct (map indexOrEmpty cells)"
    and loc: "\<forall>c \<in> set cells. \<forall>d \<in> set cells.
       (L (indexOrEmpty c) (indexOrEmpty d) \<le> 0) = (indexOrEmpty c \<le> indexOrEmpty d)"
    and jit: "\<forall>t. 0 \<le> fst (randomInt jp BASE t) \<and> fst (randomInt jp BASE t) < 36"
    and buf: "0 \<le> (case bufferCellsOpt of None \<Rightarrow> 2 | Some n \<Rightarrow> n)"
  shows "\<exists>r s' indices.
     rebalanceCellIndices L cells jp s actorIdOpt bufferCellsOpt = Inr (r, s') \<and>
     generateFractionalIndices None None
       (int (length cells) + (case bufferCellsOpt of None \<Rightarrow> 2 | Some n \<Rightarrow> n) * 2) jp s =
       Inr (indices, s') \<and>
     sorted_wrt (<) indices \<and>
     map indexOrEmpty (documentedCellOrder (applyCellMoves (rb_events r) cells)) =
       take (length cells) (drop (nat (case bufferCellsOpt of None \<Rightarrow> 2 | Some n \<Rightarrow> n)) indices) \<and>
     map cr_id (documentedCellOrder (applyCellMoves (rb_events r) cells)) =
       map cr_id (documentedCellOrder cells)"
proof -
  let ?buf = "case bufferCellsOpt of None \<Rightarrow> 2 | Some n \<Rightarrow> n"
  let ?actor = "case actorIdOpt of None \<Rightarrow> ''system'' | Some a \<Rightarrow> a"
  let ?cs = "sort_key indexOrEmpty cells"
  let ?changed = "\<lambda>(c, x). cr_fractionalIndex c \<noteq> Some x"
  let ?ev = "\<lambda>(c, x). CellMoved2 (cr_id c) x (Some ?actor)"
  have cs: "sortByFractionalIndex L cells = ?cs" by (rule sortByFractionalIndex_code_units [OF loc])
  have old: "documentedCellOrder cells = ?cs" by (rule documentedCellOrder_distinct_indices [OF dist])
  from generateFractionalIndices_increasing [OF jit, of "int (length cells) + ?buf * 2" s]
  obtain indices s' where
    g: "generateFractionalIndices None None (int (length cells) + ?buf * 2) jp s = Inr (indices, s')"
    and len: "length indices = nat (int (length cells) + ?buf * 2)"
    and inc: "sorted_wrt (<) indices"
    and vi: "\<forall>k \<in> set indices. isValidFractionalIndex k" by blast
  from vi have nonempty: "\<forall>x \<in> set indices. x \<noteq> []" by (auto simp: isValid_iff)
  from len buf have len': "length indices = length cells + 2 * nat ?buf" by (simp add: nat_add_distrib nat_mult_distrib)
  let ?xs = "take (length cells) (drop (nat ?buf) indices)"
  have lxs: "length ?xs = length cells" using len' by simp
  have sxs: "sorted_wrt (<) ?xs" using inc by (intro sorted_wrt_take sorted_wrt_drop)
  have lcs: "length ?cs = length cells" and mcs: "mset ?cs = mset cells"
    and scs: "set ?cs = set cells"
    by simp_all
  from mcs have "mset (map cr_id ?cs) = mset (map cr_id cells)" by simp
  with ids have dcs: "distinct (map cr_id ?cs)" by (metis mset_eq_imp_distinct_iff)
  have z: "zip ?cs (drop (nat ?buf) indices) = zip ?cs ?xs"
    using zip_take_same_length [of ?cs "drop (nat ?buf) indices"] lcs by simp
  have al: "assignLoop ?cs 0 indices ?buf ?actor =
      (map (\<lambda>(c, x). (cr_id c, x)) (filter ?changed (zip ?cs ?xs)),
       map ?ev (filter ?changed (zip ?cs ?xs)))"
    using assignLoop_spec [where i = 0 and bufferCells = ?buf and cs = ?cs and actorId = ?actor, OF nonempty]
      buf len' lcs z by simp
  let ?r = "\<lparr> rb_newIndices = map (\<lambda>(c, x). (cr_id c, x)) (filter ?changed (zip ?cs ?xs)),
              rb_events = map ?ev (filter ?changed (zip ?cs ?xs)) \<rparr>"
  have reb: "rebalanceCellIndices L cells jp s actorIdOpt bufferCellsOpt = Inr (?r, s')"
    using ne g al by (simp add: rebalanceCellIndices_def Let_def cs)
  let ?M = "map_of (zip (map cr_id ?cs) ?xs)"
  let ?F = "\<lambda>c. case ?M (cr_id c) of Some x \<Rightarrow> c\<lparr>cr_fractionalIndex := Some x\<rparr> | None \<Rightarrow> c"
  have "applyCellMoves (rb_events ?r) cells = applyCellMoves (map ?ev (zip ?cs ?xs)) cells"
    using applyCellMoves_filtered [where xs = ?xs and a = "Some ?actor", OF dcs ids] scs by simp
  also have "map ?ev (zip ?cs ?xs) =
             map (\<lambda>(i, x). CellMoved2 i x (Some ?actor)) (zip (map cr_id ?cs) ?xs)"
    by (simp add: zip_map1 case_prod_unfold)
  also have "applyCellMoves \<dots> cells = map ?F cells"
    using dcs lcs lxs by (intro applyCellMoves_all) simp
  finally have app: "applyCellMoves (rb_events ?r) cells = map ?F cells" .
  have Fnth: "?F (?cs ! j) = (?cs ! j)\<lparr>cr_fractionalIndex := Some (?xs ! j)\<rparr>" if "j < length cells" for j
  proof -
    have "?M (map cr_id ?cs ! j) = Some (?xs ! j)"
      using dcs lcs lxs that by (intro map_of_zip_nth) simp_all
    with that lcs show ?thesis by simp
  qed
  have keys: "map indexOrEmpty (map ?F ?cs) = ?xs"
  proof (rule nth_equalityI)
    show "length (map indexOrEmpty (map ?F ?cs)) = length ?xs" using lcs lxs by simp
  next
    fix j assume "j < length (map indexOrEmpty (map ?F ?cs))"
    with lcs have j: "j < length cells" by simp
    with lcs have "map indexOrEmpty (map ?F ?cs) ! j = indexOrEmpty (?F (?cs ! j))" by simp
    also have "\<dots> = ?xs ! j" by (simp only: Fnth [OF j] indexOrEmpty_update)
    finally show "map indexOrEmpty (map ?F ?cs) ! j = ?xs ! j" .
  qed
  have su: "documentedCellOrder (map ?F cells) = map ?F ?cs"
  proof (rule documentedCellOrder_unique)
    show "mset (map ?F ?cs) = mset (map ?F cells)" using mcs by simp
    show "sorted_wrt (<) (map indexOrEmpty (map ?F ?cs))" using sxs by (simp only: keys)
  qed
  have "documentedCellOrder (applyCellMoves (rb_events ?r) cells) =
        documentedCellOrder (map ?F cells)" by (simp only: app)
  also note su
  finally have sorted_new:
    "documentedCellOrder (applyCellMoves (rb_events ?r) cells) = map ?F ?cs" .
  have idF: "cr_id (?F c) = cr_id c" for c by (simp split: option.splits)
  have "map cr_id (map ?F ?cs) = map cr_id ?cs" by (simp add: idF comp_def)
  with sorted_new keys old have
    "map indexOrEmpty (documentedCellOrder (applyCellMoves (rb_events ?r) cells)) = ?xs"
    "map cr_id (documentedCellOrder (applyCellMoves (rb_events ?r) cells)) =
       map cr_id (documentedCellOrder cells)"
    by simp_all
  with reb g inc show ?thesis by blast
qed

text \<open>
  The lemma for the cells \<open>c3\<close> at \<open>"m00"\<close>, \<open>c1\<close> at \<open>"m"\<close> and \<open>c2\<close> at \<open>"m0"\<close>, in
  a locale that orders them as the code units do.
\<close>

lemma rebalance_keeps_order_of_distinct_indices_example:
  "\<exists>r s'.
     rebalanceCellIndices codeUnitCompare
       [\<lparr> cr_id = ''c3'', cr_fractionalIndex = Some ''m00'', cr_cellType = CellCode \<rparr>,
        \<lparr> cr_id = ''c1'', cr_fractionalIndex = Some ''m'', cr_cellType = CellCode \<rparr>,
        \<lparr> cr_id = ''c2'', cr_fractionalIndex = Some ''m0'', cr_cellType = CellCode \<rparr>]
       zeroJitter () None None = Inr (r, s') \<and>
     map cr_id (documentedCellOrder (applyCellMoves (rb_events r)
          [\<lparr> cr_id = ''c3'', cr_fractionalIndex = Some ''m00'', cr_cellType = CellCode \<rparr>,
           \<lparr> cr_id = ''c1'', cr_fractionalIndex = Some ''m'', cr_cellType = CellCode \<rparr>,
           \<lparr> cr_id = ''c2'', cr_fractionalIndex = Some ''m0'', cr_cellType = CellCode \<rparr>])) =
       map cr_id (documentedCellOrder
          [\<lparr> cr_id = ''c3'', cr_fractionalIndex = Some ''m00'', cr_cellType = CellCode \<rparr>,
           \<lparr> cr_id = ''c1'', cr_fractionalIndex = Some ''m'', cr_cellType = CellCode \<rparr>,
           \<lparr> cr_id = ''c2'', cr_fractionalIndex = Some ''m0'', cr_cellType = CellCode \<rparr>])"
proof -
  let ?cells = "[\<lparr> cr_id = ''c3'', cr_fractionalIndex = Some ''m00'', cr_cellType = CellCode \<rparr>,
           \<lparr> cr_id = ''c1'', cr_fractionalIndex = Some ''m'', cr_cellType = CellCode \<rparr>,
           \<lparr> cr_id = ''c2'', cr_fractionalIndex = Some ''m0'', cr_cellType = CellCode \<rparr>]"
  have ne: "?cells \<noteq> []" by simp
  have valid: "\<forall>c \<in> set ?cells. \<exists>x. cr_fractionalIndex c = Some x \<and> isValidFractionalIndex x"
    by (simp add: isValidFractionalIndex_def BASE36_DIGITS_def)
  have ids: "distinct (map cr_id ?cells)" by simp
  have dist: "distinct (map indexOrEmpty ?cells)" by (simp add: indexOrEmpty_def)
  have loc: "\<forall>c \<in> set ?cells. \<forall>d \<in> set ?cells.
       (codeUnitCompare (indexOrEmpty c) (indexOrEmpty d) \<le> 0) = (indexOrEmpty c \<le> indexOrEmpty d)"
    by (simp add: codeUnitCompare_def indexOrEmpty_def)
  have jit: "\<forall>t. 0 \<le> fst (randomInt zeroJitter BASE t) \<and> fst (randomInt zeroJitter BASE t) < 36"
    by (simp add: zeroJitter_def)
  have buf: "0 \<le> (case None of None \<Rightarrow> 2 | Some n \<Rightarrow> (n::int))" by simp
  note t = rebalance_keeps_order_of_distinct_indices
         [where s = "()" and actorIdOpt = None, OF ne valid ids dist loc jit buf]
  show ?thesis
  proof -
    from t obtain r s' indices where
      a: "rebalanceCellIndices codeUnitCompare ?cells zeroJitter () None None = Inr (r, s')"
      and b: "map cr_id (documentedCellOrder (applyCellMoves (rb_events r) ?cells)) =
         map cr_id (documentedCellOrder ?cells)"
      by (elim exE conjE)
    show ?thesis by (rule exI [of _ r], rule exI [of _ s'], rule conjI [OF a b])
  qed
qed

text \<open>
  Claim C6 does not hold of the code. \<open>rebalanceCellIndices\<close> sorts the cells with
  \<open>localeCompare\<close> on the index alone, where the documented order compares indices by
  code units and puts cells of equal index in the order of their ids. Take the cells \<open>b\<close>
  and \<open>a\<close>, given in this order and both at \<open>"m"\<close>, the valid index that
  \<open>generateKeyBetween(null, null)\<close> hands to the first cell of a notebook. The comparison finds
  them equal, the stable sort leaves them as given, and \<open>b\<close> receives the smaller of the two
  new indices. In the documented order \<open>a\<close> came before \<open>b\<close>; once the two events are
  applied, \<open>b\<close> comes before \<open>a\<close>. Every comparison answers zero on equal strings, so the
  locale plays no part here.
\<close>
theorem rebalanceCellIndices_swaps_cells_of_equal_index:
  "generateKeyBetween None None = Inr ''m'' \<and>
   rebalanceCellIndices codeUnitCompare
     [\<lparr> cr_id = ''b'', cr_fractionalIndex = Some ''m'', cr_cellType = CellCode \<rparr>,
      \<lparr> cr_id = ''a'', cr_fractionalIndex = Some ''m'', cr_cellType = CellCode \<rparr>]
     zeroJitter () None None =
   Inr (\<lparr> rb_newIndices = [(''b'', ''m110''), (''a'', ''m1110'')],
          rb_events = [CellMoved2 ''b'' ''m110'' (Some ''system''),
                       CellMoved2 ''a'' ''m1110'' (Some ''system'')] \<rparr>, ()) \<and>
   map cr_id (documentedCellOrder
     [\<lparr> cr_id = ''b'', cr_fractionalIndex = Some ''m'', cr_cellType = CellCode \<rparr>,
      \<lparr> cr_id = ''a'', cr_fractionalIndex = Some ''m'', cr_cellType = CellCode \<rparr>]) =
     [''a'', ''b''] \<and>
   map cr_id (documentedCellOrder
     (applyCellMoves
        [CellMoved2 ''b'' ''m110'' (Some ''system''), CellMoved2 ''a'' ''m1110'' (Some ''system'')]
        [\<lparr> cr_id = ''b'', cr_fractionalIndex = Some ''m'', cr_cellType = CellCode \<rparr>,
         \<lparr> cr_id = ''a'', cr_fractionalIndex = Some ''m'', cr_cellType = CellCode \<rparr>])) =
     [''b'', ''a'']"
  by code_simp

text \<open>
  The locale is a second way to the same failure. In a locale whose collation puts \<open>"d"\<close>
  before \<open>"ch"\<close> (Czech, where \<open>ch\<close> is a letter of its own after \<open>h\<close>), the cells \<open>c1\<close>
  at \<open>"ch"\<close> and \<open>c2\<close> at \<open>"d"\<close> are sorted \<open>c2\<close>, \<open>c1\<close>: \<open>c2\<close> receives the smaller new
  index, and the documented order of the two cells, \<open>c1\<close> before \<open>c2\<close>, is reversed.
\<close>

lemma rebalanceCellIndices_follows_localeCompare:
  assumes "0 < localeCompare ''ch'' ''d''"
  shows "rebalanceCellIndices localeCompare
     [\<lparr> cr_id = ''c1'', cr_fractionalIndex = Some ''ch'', cr_cellType = CellCode \<rparr>,
      \<lparr> cr_id = ''c2'', cr_fractionalIndex = Some ''d'', cr_cellType = CellCode \<rparr>]
     zeroJitter () None None =
   Inr (\<lparr> rb_newIndices = [(''c2'', ''m110''), (''c1'', ''m1110'')],
          rb_events = [CellMoved2 ''c2'' ''m110'' (Some ''system''),
                       CellMoved2 ''c1'' ''m1110'' (Some ''system'')] \<rparr>, ())"
    and "map cr_id (documentedCellOrder
     [\<lparr> cr_id = ''c1'', cr_fractionalIndex = Some ''ch'', cr_cellType = CellCode \<rparr>,
      \<lparr> cr_id = ''c2'', cr_fractionalIndex = Some ''d'', cr_cellType = CellCode \<rparr>]) =
     [''c1'', ''c2'']"
    and "map cr_id (documentedCellOrder
     (applyCellMoves
        [CellMoved2 ''c2'' ''m110'' (Some ''system''), CellMoved2 ''c1'' ''m1110'' (Some ''system'')]
        [\<lparr> cr_id = ''c1'', cr_fractionalIndex = Some ''ch'', cr_cellType = CellCode \<rparr>,
         \<lparr> cr_id = ''c2'', cr_fractionalIndex = Some ''d'', cr_cellType = CellCode \<rparr>])) =
     [''c2'', ''c1'']"
proof -
  have g: "generateFractionalIndices None None 6 zeroJitter () =
      Inr ([''m0'', ''m10'', ''m110'', ''m1110'', ''m11110'', ''m111110''], ())"
    by code_simp
  from assms have n: "\<not> localeCompare ''ch'' ''d'' \<le> 0" by simp
  show "rebalanceCellIndices localeCompare
     [\<lparr> cr_id = ''c1'', cr_fractionalIndex = Some ''ch'', cr_cellType = CellCode \<rparr>,
      \<lparr> cr_id = ''c2'', cr_fractionalIndex = Some ''d'', cr_cellType = CellCode \<rparr>]
     zeroJitter () None None =
   Inr (\<lparr> rb_newIndices = [(''c2'', ''m110''), (''c1'', ''m1110'')],
          rb_events = [CellMoved2 ''c2'' ''m110'' (Some ''system''),
                       CellMoved2 ''c1'' ''m1110'' (Some ''system'')] \<rparr>, ())"
    using n by (simp add: rebalanceCellIndices_def sortByFractionalIndex_def indexOrEmpty_def
                  g nthOpt_def Let_def)
  show "map cr_id (documentedCellOrder
     [\<lparr> cr_id = ''c1'', cr_fractionalIndex = Some ''ch'', cr_cellType = CellCode \<rparr>,
      \<lparr> cr_id = ''c2'', cr_fractionalIndex = Some ''d'', cr_cellType = CellCode \<rparr>]) =
     [''c1'', ''c2'']"
    by code_simp
  show "map cr_id (documentedCellOrder
     (applyCellMoves
        [CellMoved2 ''c2'' ''m110'' (Some ''system''), CellMoved2 ''c1'' ''m1110'' (Some ''system'')]
        [\<lparr> cr_id = ''c1'', cr_fractionalIndex = Some ''ch'', cr_cellType = CellCode \<rparr>,
         \<lparr> cr_id = ''c2'', cr_fractionalIndex = Some ''d'', cr_cellType = CellCode \<rparr>])) =
     [''c2'', ''c1'']"
    by code_simp
qed

section \<open>Properties of the materializer\<close>

subsection \<open>Queries and operation lists\<close>

lemma find_None_iff_all: "find P xs = None \<longleftrightarrow> (\<forall>x \<in> set xs. \<not> P x)"
  by (induction xs) auto

lemma find_distinct_key:
  assumes "distinct (map f xs)" and "r \<in> set xs" and "f r = k"
  shows "find (\<lambda>x. f x = k) xs = Some r"
  using assms by (induction xs) (auto simp: image_iff)


lemma applyOps_append:
  "applyOps (xs @ ys) s = (case applyOps xs s of None \<Rightarrow> None | Some s' \<Rightarrow> applyOps ys s')"
  by (induction xs arbitrary: s) (auto split: option.splits)

lemma pendingClearFor_None_iff:
  "pendingClearFor s c = None \<longleftrightarrow> c \<notin> pc_cellId ` set (pendingClears s)"
  by (auto simp: pendingClearFor_def find_None_iff_all)

lemma updateExistingDisplays_shape:
  "updateExistingDisplays C d R ctx = [] \<or>
   (\<exists>a m. updateExistingDisplays C d R ctx = [OutputsUpdateDisplay d a m R])"
  by (auto simp: updateExistingDisplays_def Let_def split: option.splits)

lemma applyOps_display_updates:
  assumes "ops = [] \<or> (\<exists>a m. ops = [OutputsUpdateDisplay d a m R])"
  shows "\<exists>s'. applyOps ops s = Some s' \<and> pendingClears s' = pendingClears s \<and>
              map (\<lambda>r. (o_id r, o_cellId r)) (outputs s') = map (\<lambda>r. (o_id r, o_cellId r)) (outputs s)"
  using assms by (auto simp: comp_def intro!: map_cong)

lemma materialize_add_shape:
  assumes "outputAdd X = Some (x, c)"
  shows "\<exists>upd row d R. materialize C X ctx = pendingClearOps ctx c @ upd @ [OutputsInsert row] \<and>
           o_id row = x \<and> o_cellId row = c \<and>
           (upd = [] \<or> (\<exists>a m. upd = [OutputsUpdateDisplay d a m R]))"
proof (cases X)
  case (MultimediaDisplayOutputAdded ident cellId position representations displayId)
  with assms have xc: "ident = x" "cellId = c" by simp_all
  let ?upd = "(case displayId of
        Some d \<Rightarrow> if d \<noteq> [] then updateExistingDisplays C d representations ctx else []
      | None \<Rightarrow> [])"
  have "?upd = [] \<or> (\<exists>a m. ?upd = [OutputsUpdateDisplay (the displayId) a m representations])"
    using updateExistingDisplays_shape [of C "the displayId" representations ctx]
    by (auto split: option.splits)
  then show ?thesis unfolding MultimediaDisplayOutputAdded xc
    by (simp add: Let_def del: append_assoc) blast
qed (use assms in \<open>auto simp: Let_def intro!: exI [of _ "[]"]\<close>)

lemma applyEvent_add_effect:
  assumes add: "outputAdd X = Some (x, c)"
  shows "\<exists>s'. applyEvent C X s = Some s' \<and>
     pc_cellId ` set (pendingClears s') = pc_cellId ` set (pendingClears s) - {c} \<and>
     o_id ` {r \<in> set (outputs s'). o_cellId r = c} =
       insert x (if c \<in> pc_cellId ` set (pendingClears s) then {}
                 else o_id ` {r \<in> set (outputs s). o_cellId r = c})"
proof -
  from materialize_add_shape [OF add, of C s] obtain upd row d R where
    m: "materialize C X s = pendingClearOps s c @ upd @ [OutputsInsert row]"
    and row: "o_id row = x" "o_cellId row = c"
    and upd: "upd = [] \<or> (\<exists>a m. upd = [OutputsUpdateDisplay d a m R])" by blast
  let ?k = "\<lambda>r. (o_id r, o_cellId r)"
  let ?pending = "c \<in> pc_cellId ` set (pendingClears s)"
  obtain s1 where s1: "applyOps (pendingClearOps s c) s = Some s1"
    and p1: "pc_cellId ` set (pendingClears s1) = pc_cellId ` set (pendingClears s) - {c}"
    and o1: "outputs s1 = (if ?pending then filter (\<lambda>r. o_cellId r \<noteq> c) (outputs s) else outputs s)"
  proof (cases "pendingClearFor s c")
    case None
    then have "\<not> ?pending" by (simp add: pendingClearFor_None_iff)
    with None that [of s] show ?thesis by (auto simp: pendingClearOps_def)
  next
    case (Some a)
    then have pe: "?pending" using pendingClearFor_None_iff [of s c] by auto
    let ?s1 = "s\<lparr>outputs := filter (\<lambda>r. o_cellId r \<noteq> c) (outputs s),
                  pendingClears := filter (\<lambda>r. pc_cellId r \<noteq> c) (pendingClears s)\<rparr>"
    have a: "applyOps (pendingClearOps s c) s = Some ?s1"
      using Some by (simp add: pendingClearOps_def)
    have b: "pc_cellId ` set (pendingClears ?s1) = pc_cellId ` set (pendingClears s) - {c}"
      by auto
    have c: "outputs ?s1 = (if ?pending then filter (\<lambda>r. o_cellId r \<noteq> c) (outputs s) else outputs s)"
      using pe by simp
    from that [OF a b c] show ?thesis .
  qed
  from applyOps_display_updates [OF upd, of s1] obtain s2 where
    s2: "applyOps upd s1 = Some s2" and p2: "pendingClears s2 = pendingClears s1"
    and o2: "map ?k (outputs s2) = map ?k (outputs s1)" by blast
  let ?s3 = "s2\<lparr>outputs := filter (\<lambda>r. o_id r \<noteq> o_id row) (outputs s2) @ [row]\<rparr>"
  have res: "applyEvent C X s = Some ?s3"
    using m s1 s2 by (simp add: applyEvent_def applyOps_append)
  have "o_id ` {r \<in> set (outputs s2). o_cellId r = c} = fst ` {p \<in> set (map ?k (outputs s2)). snd p = c}"
    by force
  also have "\<dots> = fst ` {p \<in> set (map ?k (outputs s1)). snd p = c}" by (simp only: o2)
  also have "\<dots> = o_id ` {r \<in> set (outputs s1). o_cellId r = c}" by force
  finally have ids2: "o_id ` {r \<in> set (outputs s2). o_cellId r = c} =
                      o_id ` {r \<in> set (outputs s1). o_cellId r = c}" .
  have ids1: "o_id ` {r \<in> set (outputs s1). o_cellId r = c} =
     (if ?pending then {} else o_id ` {r \<in> set (outputs s). o_cellId r = c})"
    using o1 by auto
  have "o_id ` {r \<in> set (outputs ?s3). o_cellId r = c} =
        insert x (o_id ` {r \<in> set (outputs s2). o_cellId r = c})"
    using row by auto
  with ids1 ids2 have "o_id ` {r \<in> set (outputs ?s3). o_cellId r = c} =
       insert x (if ?pending then {} else o_id ` {r \<in> set (outputs s). o_cellId r = c})"
    by simp
  moreover have "pc_cellId ` set (pendingClears ?s3) = pc_cellId ` set (pendingClears s) - {c}"
    using p1 p2 by simp
  ultimately show ?thesis using res by blast
qed

lemma applyEvent_clear_wait:
  "\<exists>s1. applyEvent C (CellOutputsCleared c True clearedBy) s = Some s1 \<and>
        outputs s1 = outputs s \<and> outputDeltas s1 = outputDeltas s \<and>
         presence s1 =
           (if clearedBy \<noteq> [] then
              filter (\<lambda>r. p_userId r \<noteq> clearedBy) (presence s) @
                [\<lparr> p_userId = clearedBy, p_cellId = (if c = [] then None else Some c) \<rparr>]
            else presence s) \<and>
         pendingClears s1 =
          filter (\<lambda>r. pc_cellId r \<noteq> c) (pendingClears s) @
            [\<lparr> pc_cellId = c, pc_clearedBy = clearedBy \<rparr>]"
  by (simp add: applyEvent_def updatePresence_def)

lemma pendingClearOps_pending:
  assumes "c \<in> pc_cellId ` set (pendingClears s)"
  shows "pendingClearOps s c = [OutputsDelete c, PendingClearsDelete c]"
proof -
  from assms have "pendingClearFor s c \<noteq> None" by (simp add: pendingClearFor_None_iff)
  then show ?thesis by (auto simp: pendingClearOps_def)
qed


lemma pendingClearOps_none:
  assumes "pendingClearFor s c = None"
  shows "pendingClearOps s c = []"
  using assms by (simp add: pendingClearOps_def)

lemma map_update_no_match:
  assumes "filter P xs = []"
  shows "map (\<lambda>r. if P r then f r else r) xs = xs"
  using assms by (induction xs) (auto split: if_splits)

lemma applyOps_updateExistingDisplays_Some:
  assumes "selectPrimaryRepresentation R DEFAULT_PREFERRED_MIME_TYPES = Some (m, k)"
  shows "applyOps (updateExistingDisplays C d R s) s =
     Some (s\<lparr>outputs :=
             map (\<lambda>r. if o_displayId r = Some d \<and> o_outputType r = multimedia_display
                       then r\<lparr>o_data := Some (inlineTextOrEmpty C k), o_mimeType := Some m,
                              o_representations := Some R\<rparr>
                       else r)
               (outputs s)\<rparr>)"
proof (cases "filter (\<lambda>r. o_displayId r = Some d \<and> o_outputType r = multimedia_display) (outputs s) = []")
  case True
  from map_update_no_match [OF True] show ?thesis
    using True by (simp add: updateExistingDisplays_def)
next
  case False
  then show ?thesis using assms by (simp add: updateExistingDisplays_def)
qed

lemma updateExistingDisplays_None:
  assumes "selectPrimaryRepresentation R DEFAULT_PREFERRED_MIME_TYPES = None"
  shows "updateExistingDisplays C d R s = []"
  using assms by (simp add: updateExistingDisplays_def)

lemma filter_id_absent:
  assumes "\<forall>r \<in> set xs. f (g r) \<noteq> n"
  shows "filter (\<lambda>r. f r \<noteq> n) (map g xs) = map g xs"
  using assms by (induction xs) auto


subsection \<open>The append events\<close>

text \<open>
  Claim C9. When no row of \<open>outputs\<close> has the id \<open>outputId\<close>, the materializer of
  \<open>v1.TerminalOutputAppended\<close> returns the empty list of operations and the state stays
  as it is. When a row \<open>existing\<close> has that id (\<open>id\<close> is the primary key, so the ids of
  the table are distinct), the event rewrites exactly that row: its \<open>data\<close> becomes the old
  data (\<open>""\<close> for \<open>NULL\<close>) followed by \<open>String(content.data)\<close> for inline content, and
  by nothing for an artifact.
\<close>
theorem TerminalOutputAppended_v1_materializer:
  "((\<forall>r \<in> set (outputs ctx). o_id r \<noteq> outputId) \<longrightarrow>
      materialize C (TerminalOutputAppended outputId content) ctx = [] \<and>
      applyEvent C (TerminalOutputAppended outputId content) ctx = Some ctx) \<and>
   (distinct (map o_id (outputs ctx)) \<and> existing \<in> set (outputs ctx) \<and> o_id existing = outputId \<longrightarrow>
      applyEvent C (TerminalOutputAppended outputId content) ctx =
        Some (ctx\<lparr>outputs :=
                map (\<lambda>r. if r = existing
                          then r\<lparr>o_data :=
                                   Some ((case o_data existing of Some old \<Rightarrow> old | None \<Rightarrow> []) @
                                         (case content of Inline d m \<Rightarrow> jsString C d | Artifact a m \<Rightarrow> []))\<rparr>
                          else r)
                  (outputs ctx)\<rparr>))"
proof (intro conjI impI)
  assume "\<forall>r \<in> set (outputs ctx). o_id r \<noteq> outputId"
  then have "find (\<lambda>r. o_id r = outputId) (outputs ctx) = None" by (simp add: find_None_iff_all)
  then have "materialize C (TerminalOutputAppended outputId content) ctx = [] \<and>
      applyEvent C (TerminalOutputAppended outputId content) ctx = Some ctx"
    by (simp add: applyEvent_def)
  then show "materialize C (TerminalOutputAppended outputId content) ctx = []"
    and "applyEvent C (TerminalOutputAppended outputId content) ctx = Some ctx" by simp_all
next
  assume h: "distinct (map o_id (outputs ctx)) \<and> existing \<in> set (outputs ctx) \<and> o_id existing = outputId"
  then have f: "find (\<lambda>r. o_id r = outputId) (outputs ctx) = Some existing"
    by (intro find_distinct_key) auto
  have same: "(o_id r = outputId) = (r = existing)" if "r \<in> set (outputs ctx)" for r
    using h that by (auto simp: distinct_map inj_on_def)
  let ?new = "(case o_data existing of Some old \<Rightarrow> old | None \<Rightarrow> []) @
              (case content of Inline d m \<Rightarrow> jsString C d | Artifact a m \<Rightarrow> [])"
  have "map (\<lambda>r. if o_id r = outputId then r\<lparr>o_data := Some ?new\<rparr> else r) (outputs ctx) =
        map (\<lambda>r. if r = existing then r\<lparr>o_data := Some ?new\<rparr> else r) (outputs ctx)"
    using same by (intro map_cong) auto
  then show "applyEvent C (TerminalOutputAppended outputId content) ctx =
        Some (ctx\<lparr>outputs := map (\<lambda>r. if r = existing then r\<lparr>o_data := Some ?new\<rparr> else r) (outputs ctx)\<rparr>)"
    using f by (simp add: applyEvent_def Let_def)
qed

text \<open>
  The theorem on an empty \<open>outputs\<close> table, and on a table whose row \<open>o1\<close> holds
  \<open>"ab"\<close> when \<open>"cd"\<close> is appended.
\<close>

theorem TerminalOutputAppended_v1_materializer_witness:
  "materialize stringPayload (TerminalOutputAppended ''o1'' (Inline ''cd'' None))
     \<lparr> outputs = [], pendingClears = [], outputDeltas = [], presence = [] \<rparr> = [] \<and>
   applyEvent stringPayload (TerminalOutputAppended ''o1'' (Inline ''cd'' None))
     \<lparr> outputs = [\<lparr> o_id = ''o1'', o_cellId = ''c1'', o_outputType = terminal,
          o_position = 0, o_streamName = Some ''stdout'', o_executionCount = None,
          o_displayId = None, o_data = Some ''ab'', o_artifactId = None,
          o_mimeType = Some ''text/plain'', o_metadata = None, o_representations = None \<rparr>],
       pendingClears = [], outputDeltas = [], presence = [] \<rparr> =
     Some \<lparr> outputs = [\<lparr> o_id = ''o1'', o_cellId = ''c1'', o_outputType = terminal,
          o_position = 0, o_streamName = Some ''stdout'', o_executionCount = None,
          o_displayId = None, o_data = Some ''abcd'', o_artifactId = None,
          o_mimeType = Some ''text/plain'', o_metadata = None, o_representations = None \<rparr>],
       pendingClears = [], outputDeltas = [], presence = [] \<rparr>"
  using TerminalOutputAppended_v1_materializer
          [where ctx = "\<lparr> outputs = [], pendingClears = [], outputDeltas = [], presence = [] \<rparr>"
             and outputId = "''o1''" and C = stringPayload and content = "Inline ''cd'' None"]
        TerminalOutputAppended_v1_materializer
          [where ctx = "\<lparr> outputs = [\<lparr> o_id = ''o1'', o_cellId = ''c1'', o_outputType = terminal,
          o_position = 0, o_streamName = Some ''stdout'', o_executionCount = None,
          o_displayId = None, o_data = Some ''ab'', o_artifactId = None,
          o_mimeType = Some ''text/plain'', o_metadata = None, o_representations = None \<rparr>],
       pendingClears = [], outputDeltas = [], presence = [] \<rparr>"
             and outputId = "''o1''" and C = stringPayload and content = "Inline ''cd'' None"
             and existing = "\<lparr> o_id = ''o1'', o_cellId = ''c1'', o_outputType = terminal,
          o_position = 0, o_streamName = Some ''stdout'', o_executionCount = None,
          o_displayId = None, o_data = Some ''ab'', o_artifactId = None,
          o_mimeType = Some ''text/plain'', o_metadata = None, o_representations = None \<rparr>"]
  by (simp add: stringPayload_def)

text \<open>
  Claim C10. The materializers of \<open>v2.TerminalOutputAppended\<close> and
  \<open>v2.MarkdownOutputAppended\<close> do not read the state: whatever it holds they return one
  insert into \<open>output_deltas\<close>. Applied to a state with no delta row of the event's id, it
  adds the row, whether or not \<open>outputs\<close> has a row with the given \<open>outputId\<close>.
\<close>
theorem v2_append_inserts_delta_unconditionally:
  "materialize C (TerminalOutputAppended2 ident outputId delta sequenceNumber) ctx =
     [OutputDeltasInsert \<lparr> d_id = ident, d_outputId = outputId, d_delta = delta,
                          d_sequenceNumber = sequenceNumber \<rparr>] \<and>
   materialize C (MarkdownOutputAppended2 ident outputId delta sequenceNumber) ctx =
     [OutputDeltasInsert \<lparr> d_id = ident, d_outputId = outputId, d_delta = delta,
                          d_sequenceNumber = sequenceNumber \<rparr>] \<and>
   (ident \<notin> set (map d_id (outputDeltas ctx)) \<longrightarrow>
      applyEvent C (TerminalOutputAppended2 ident outputId delta sequenceNumber) ctx =
        Some (ctx\<lparr>outputDeltas := outputDeltas ctx @
                [\<lparr> d_id = ident, d_outputId = outputId, d_delta = delta,
                   d_sequenceNumber = sequenceNumber \<rparr>]\<rparr>) \<and>
      applyEvent C (MarkdownOutputAppended2 ident outputId delta sequenceNumber) ctx =
        Some (ctx\<lparr>outputDeltas := outputDeltas ctx @
                [\<lparr> d_id = ident, d_outputId = outputId, d_delta = delta,
                   d_sequenceNumber = sequenceNumber \<rparr>]\<rparr>))"
  by (simp add: applyEvent_def)

text \<open>The theorem on the empty state: the delta row refers to an output that does not exist.\<close>

theorem v2_append_inserts_delta_unconditionally_witness:
  "''d1'' \<notin> set (map d_id (outputDeltas
       (\<lparr> outputs = [], pendingClears = [], outputDeltas = [], presence = [] \<rparr> :: string State))) \<and>
   applyEvent stringPayload (TerminalOutputAppended2 ''d1'' ''missing'' ''text'' 0)
       \<lparr> outputs = [], pendingClears = [], outputDeltas = [], presence = [] \<rparr> =
     Some \<lparr> outputs = [], pendingClears = [],
            outputDeltas = [\<lparr> d_id = ''d1'', d_outputId = ''missing'', d_delta = ''text'',
                              d_sequenceNumber = 0 \<rparr>],
            presence = [] \<rparr> \<and>
   applyEvent stringPayload (MarkdownOutputAppended2 ''d1'' ''missing'' ''text'' 0)
       \<lparr> outputs = [], pendingClears = [], outputDeltas = [], presence = [] \<rparr> =
     Some \<lparr> outputs = [], pendingClears = [],
            outputDeltas = [\<lparr> d_id = ''d1'', d_outputId = ''missing'', d_delta = ''text'',
                              d_sequenceNumber = 0 \<rparr>],
            presence = [] \<rparr>"
  using v2_append_inserts_delta_unconditionally
          [where C = stringPayload and ident = "''d1''" and outputId = "''missing''"
             and delta = "''text''" and sequenceNumber = 0
             and ctx = "\<lparr> outputs = [], pendingClears = [], outputDeltas = [], presence = [] \<rparr>"]
  by simp

subsection \<open>The pending-clear protocol\<close>

text \<open>
  Claim C2. From any state, \<open>CellOutputsCleared\<close> with \<open>wait = true\<close> on cell \<open>c\<close>
  leaves \<open>outputs\<close> (and \<open>output_deltas\<close>) as they are and replaces the \<open>pendingClears\<close>
  entry of \<open>c\<close> by a new one; the presence row of \<open>clearedBy\<close> is refreshed as well.
  The materializer of an output-add event \<open>X\<close> into \<open>c\<close> then returns first the deletion
  of the outputs of \<open>c\<close>, second the deletion of the pending clear of \<open>c\<close>, and last the
  insertion of the new output (with, for a display output, the update of the rows that share
  its display id in between); after it the outputs of \<open>c\<close> are exactly the one with the id
  of \<open>X\<close> and no pending clear is left. After the sequence clear, \<open>X\<close>, \<open>Y\<close> the outputs
  of \<open>c\<close> are exactly those with the ids of \<open>X\<close> and \<open>Y\<close>.
\<close>
theorem pending_clear_protocol:
  "(\<exists>s1. applyEvent C (CellOutputsCleared c True clearedBy) s = Some s1 \<and>
         outputs s1 = outputs s \<and> outputDeltas s1 = outputDeltas s \<and>
         presence s1 =
           (if clearedBy \<noteq> [] then
              filter (\<lambda>r. p_userId r \<noteq> clearedBy) (presence s) @
                [\<lparr> p_userId = clearedBy, p_cellId = (if c = [] then None else Some c) \<rparr>]
            else presence s) \<and>
         pendingClears s1 =
           filter (\<lambda>r. pc_cellId r \<noteq> c) (pendingClears s) @
             [\<lparr> pc_cellId = c, pc_clearedBy = clearedBy \<rparr>] \<and>
         (outputAdd X = Some (x, c) \<longrightarrow>
            (\<exists>upd row. materialize C X s1 =
                 [OutputsDelete c, PendingClearsDelete c] @ upd @ [OutputsInsert row] \<and>
               o_id row = x \<and> o_cellId row = c \<and>
               (\<forall>op \<in> set upd. \<exists>d a m R. op = OutputsUpdateDisplay d a m R)) \<and>
            (\<exists>s2. applyEvent C X s1 = Some s2 \<and>
               o_id ` {r \<in> set (outputs s2). o_cellId r = c} = {x} \<and>
               c \<notin> pc_cellId ` set (pendingClears s2)))) \<and>
   (outputAdd X = Some (x, c) \<and> outputAdd Y = Some (y, c) \<longrightarrow>
      (\<exists>s3. applyEvents C [CellOutputsCleared c True clearedBy, X, Y] s = Some s3 \<and>
         o_id ` {r \<in> set (outputs s3). o_cellId r = c} = {x, y} \<and>
         c \<notin> pc_cellId ` set (pendingClears s3)))"
proof -
  from applyEvent_clear_wait [of C c clearedBy s] obtain s1 where
    s1: "applyEvent C (CellOutputsCleared c True clearedBy) s = Some s1"
    and o1: "outputs s1 = outputs s" and d1: "outputDeltas s1 = outputDeltas s"
    and pr1: "presence s1 =
           (if clearedBy \<noteq> [] then
              filter (\<lambda>r. p_userId r \<noteq> clearedBy) (presence s) @
                [\<lparr> p_userId = clearedBy, p_cellId = (if c = [] then None else Some c) \<rparr>]
            else presence s)"
    and p1: "pendingClears s1 =
          filter (\<lambda>r. pc_cellId r \<noteq> c) (pendingClears s) @
            [\<lparr> pc_cellId = c, pc_clearedBy = clearedBy \<rparr>]" by blast
  from p1 have pend: "c \<in> pc_cellId ` set (pendingClears s1)" by simp
  have shape: "\<exists>upd row. materialize C X s1 =
                 [OutputsDelete c, PendingClearsDelete c] @ upd @ [OutputsInsert row] \<and>
               o_id row = x \<and> o_cellId row = c \<and>
               (\<forall>op \<in> set upd. \<exists>d a m R. op = OutputsUpdateDisplay d a m R)"
    if add: "outputAdd X = Some (x, c)"
  proof -
    from materialize_add_shape [OF add, of C s1] obtain upd row d R where
      "materialize C X s1 = pendingClearOps s1 c @ upd @ [OutputsInsert row]"
      "o_id row = x" "o_cellId row = c"
      "upd = [] \<or> (\<exists>a m. upd = [OutputsUpdateDisplay d a m R])" by blast
    moreover from this(4) have "\<forall>op \<in> set upd. \<exists>d a m R. op = OutputsUpdateDisplay d a m R"
      by auto
    ultimately show ?thesis using pendingClearOps_pending [OF pend] by auto
  qed
  have step: "\<exists>s2. applyEvent C X s1 = Some s2 \<and>
               o_id ` {r \<in> set (outputs s2). o_cellId r = c} = {x} \<and>
               c \<notin> pc_cellId ` set (pendingClears s2)"
    if add: "outputAdd X = Some (x, c)"
    using applyEvent_add_effect [OF add, of C s1] pend by auto
  have both: "\<exists>s3. applyEvents C [CellOutputsCleared c True clearedBy, X, Y] s = Some s3 \<and>
         o_id ` {r \<in> set (outputs s3). o_cellId r = c} = {x, y} \<and>
         c \<notin> pc_cellId ` set (pendingClears s3)"
    if addX: "outputAdd X = Some (x, c)" and addY: "outputAdd Y = Some (y, c)"
  proof -
    from step [OF addX] obtain s2 where s2: "applyEvent C X s1 = Some s2"
      and i2: "o_id ` {r \<in> set (outputs s2). o_cellId r = c} = {x}"
      and p2: "c \<notin> pc_cellId ` set (pendingClears s2)" by blast
    from applyEvent_add_effect [OF addY, of C s2] p2 i2 obtain s3 where
      s3: "applyEvent C Y s2 = Some s3"
      and i3: "o_id ` {r \<in> set (outputs s3). o_cellId r = c} = insert y {x}"
      and p3: "c \<notin> pc_cellId ` set (pendingClears s3)" by auto
    from s1 s2 s3 have "applyEvents C [CellOutputsCleared c True clearedBy, X, Y] s = Some s3"
      by simp
    with i3 p3 show ?thesis by auto
  qed
  show ?thesis
  proof (intro conjI impI)
    have inner: "outputAdd X = Some (x, c) \<longrightarrow>
            (\<exists>upd row. materialize C X s1 =
                 [OutputsDelete c, PendingClearsDelete c] @ upd @ [OutputsInsert row] \<and>
               o_id row = x \<and> o_cellId row = c \<and>
               (\<forall>op \<in> set upd. \<exists>d a m R. op = OutputsUpdateDisplay d a m R)) \<and>
            (\<exists>s2. applyEvent C X s1 = Some s2 \<and>
               o_id ` {r \<in> set (outputs s2). o_cellId r = c} = {x} \<and>
               c \<notin> pc_cellId ` set (pendingClears s2))"
      using shape step by (intro impI conjI)
    from s1 o1 d1 pr1 p1 inner
    have "applyEvent C (CellOutputsCleared c True clearedBy) s = Some s1 \<and>
         outputs s1 = outputs s \<and> outputDeltas s1 = outputDeltas s \<and>
         presence s1 =
           (if clearedBy \<noteq> [] then
              filter (\<lambda>r. p_userId r \<noteq> clearedBy) (presence s) @
                [\<lparr> p_userId = clearedBy, p_cellId = (if c = [] then None else Some c) \<rparr>]
            else presence s) \<and>
         pendingClears s1 =
           filter (\<lambda>r. pc_cellId r \<noteq> c) (pendingClears s) @
             [\<lparr> pc_cellId = c, pc_clearedBy = clearedBy \<rparr>] \<and>
         (outputAdd X = Some (x, c) \<longrightarrow>
            (\<exists>upd row. materialize C X s1 =
                 [OutputsDelete c, PendingClearsDelete c] @ upd @ [OutputsInsert row] \<and>
               o_id row = x \<and> o_cellId row = c \<and>
               (\<forall>op \<in> set upd. \<exists>d a m R. op = OutputsUpdateDisplay d a m R)) \<and>
            (\<exists>s2. applyEvent C X s1 = Some s2 \<and>
               o_id ` {r \<in> set (outputs s2). o_cellId r = c} = {x} \<and>
               c \<notin> pc_cellId ` set (pendingClears s2)))"
      by (intro conjI)
    then show "\<exists>s1. applyEvent C (CellOutputsCleared c True clearedBy) s = Some s1 \<and>
         outputs s1 = outputs s \<and> outputDeltas s1 = outputDeltas s \<and>
         presence s1 =
           (if clearedBy \<noteq> [] then
              filter (\<lambda>r. p_userId r \<noteq> clearedBy) (presence s) @
                [\<lparr> p_userId = clearedBy, p_cellId = (if c = [] then None else Some c) \<rparr>]
            else presence s) \<and>
         pendingClears s1 =
           filter (\<lambda>r. pc_cellId r \<noteq> c) (pendingClears s) @
             [\<lparr> pc_cellId = c, pc_clearedBy = clearedBy \<rparr>] \<and>
         (outputAdd X = Some (x, c) \<longrightarrow>
            (\<exists>upd row. materialize C X s1 =
                 [OutputsDelete c, PendingClearsDelete c] @ upd @ [OutputsInsert row] \<and>
               o_id row = x \<and> o_cellId row = c \<and>
               (\<forall>op \<in> set upd. \<exists>d a m R. op = OutputsUpdateDisplay d a m R)) \<and>
            (\<exists>s2. applyEvent C X s1 = Some s2 \<and>
               o_id ` {r \<in> set (outputs s2). o_cellId r = c} = {x} \<and>
               c \<notin> pc_cellId ` set (pendingClears s2)))"
      by (rule exI)
  next
    assume "outputAdd X = Some (x, c) \<and> outputAdd Y = Some (y, c)"
    then show "\<exists>s3. applyEvents C [CellOutputsCleared c True clearedBy, X, Y] s = Some s3 \<and>
         o_id ` {r \<in> set (outputs s3). o_cellId r = c} = {x, y} \<and>
         c \<notin> pc_cellId ` set (pendingClears s3)"
      using both by blast
  qed
qed

text \<open>
  The theorem on a cell that holds the terminal outputs \<open>p\<close> and \<open>q\<close>, for the terminal
  outputs \<open>x\<close> and \<open>y\<close>.
\<close>

theorem pending_clear_protocol_witness:
  "outputAdd (TerminalOutputAdded ''x'' ''c'' 0 (Inline ''X'' None) ''stdout'') = Some (''x'', ''c'') \<and>
   outputAdd (TerminalOutputAdded ''y'' ''c'' 1 (Inline ''Y'' None) ''stdout'') = Some (''y'', ''c'') \<and>
   (\<exists>s3. applyEvents stringPayload
            [CellOutputsCleared ''c'' True ''u'',
             TerminalOutputAdded ''x'' ''c'' 0 (Inline ''X'' None) ''stdout'',
             TerminalOutputAdded ''y'' ''c'' 1 (Inline ''Y'' None) ''stdout'']
            \<lparr> outputs =
                [\<lparr> o_id = ''p'', o_cellId = ''c'', o_outputType = terminal, o_position = 0,
                   o_streamName = Some ''stdout'', o_executionCount = None, o_displayId = None,
                   o_data = Some ''P'', o_artifactId = None, o_mimeType = Some ''text/plain'',
                   o_metadata = None, o_representations = None \<rparr>,
                 \<lparr> o_id = ''q'', o_cellId = ''c'', o_outputType = terminal, o_position = 1,
                   o_streamName = Some ''stdout'', o_executionCount = None, o_displayId = None,
                   o_data = Some ''Q'', o_artifactId = None, o_mimeType = Some ''text/plain'',
                   o_metadata = None, o_representations = None \<rparr>],
              pendingClears = [], outputDeltas = [], presence = [] \<rparr> = Some s3 \<and>
          o_id ` {r \<in> set (outputs s3). o_cellId r = ''c''} = {''x'', ''y''} \<and>
          ''c'' \<notin> pc_cellId ` set (pendingClears s3))"
proof -
  have a: "outputAdd (TerminalOutputAdded ''x'' ''c'' 0 (Inline ''X'' None) ''stdout'') = Some (''x'', ''c'')"
    by simp
  have b: "outputAdd (TerminalOutputAdded ''y'' ''c'' 1 (Inline ''Y'' None) ''stdout'') = Some (''y'', ''c'')"
    by simp
  note t = pending_clear_protocol
          [where C = stringPayload and c = "''c''" and clearedBy = "''u''" and x = "''x''" and y = "''y''"
             and X = "TerminalOutputAdded ''x'' ''c'' 0 (Inline ''X'' None) ''stdout''"
             and Y = "TerminalOutputAdded ''y'' ''c'' 1 (Inline ''Y'' None) ''stdout''"
             and s = "\<lparr> outputs =
                [\<lparr> o_id = ''p'', o_cellId = ''c'', o_outputType = terminal, o_position = 0,
                   o_streamName = Some ''stdout'', o_executionCount = None, o_displayId = None,
                   o_data = Some ''P'', o_artifactId = None, o_mimeType = Some ''text/plain'',
                   o_metadata = None, o_representations = None \<rparr>,
                 \<lparr> o_id = ''q'', o_cellId = ''c'', o_outputType = terminal, o_position = 1,
                   o_streamName = Some ''stdout'', o_executionCount = None, o_displayId = None,
                   o_data = Some ''Q'', o_artifactId = None, o_mimeType = Some ''text/plain'',
                   o_metadata = None, o_representations = None \<rparr>],
              pendingClears = [], outputDeltas = [], presence = [] \<rparr>",
           THEN conjunct2, THEN mp, OF conjI [OF a b]]
  from a b t show ?thesis by (intro conjI)
qed

subsection \<open>Display ids\<close>

text \<open>
  Claim C3, as amended. Let \<open>MultimediaDisplayOutputAdded\<close> carry a non-empty display id
  \<open>d\<close> and representations \<open>R2\<close> of which at least one MIME type is in the priority list,
  on a state with no pending clear for its cell and no output with its id. Then every
  \<open>multimedia_display\<close> row with display id \<open>d\<close> is rewritten in place (\<open>representations\<close>
  to \<open>R2\<close>, \<open>data\<close> and \<open>mimeType\<close> to the primary representation) and one new row that
  carries \<open>R2\<close> is appended. \<open>MultimediaDisplayOutputUpdated\<close> with representations \<open>R3\<close>
  of which at least one MIME type is in the priority list rewrites the matching rows to
  \<open>R3\<close> and adds no row. When no MIME type of the representations is in the priority list,
  \<open>updateExistingDisplays\<close> returns no operation: the update event changes nothing, and the
  add event only appends its own row.
\<close>
theorem display_id_update_semantics:
  "(d \<noteq> [] \<and> selectPrimaryRepresentation R2 DEFAULT_PREFERRED_MIME_TYPES = Some (m2, k2) \<and>
    pendingClearFor s c = None \<and> (\<forall>r \<in> set (outputs s). o_id r \<noteq> n) \<longrightarrow>
      applyEvent C (MultimediaDisplayOutputAdded n c pos R2 (Some d)) s =
        Some (s\<lparr>outputs :=
                map (\<lambda>r. if o_displayId r = Some d \<and> o_outputType r = multimedia_display
                          then r\<lparr>o_data := Some (inlineTextOrEmpty C k2), o_mimeType := Some m2,
                                 o_representations := Some R2\<rparr>
                          else r)
                  (outputs s) @
                [\<lparr> o_id = n, o_cellId = c, o_outputType = multimedia_display, o_position = pos,
                   o_streamName = None, o_executionCount = None, o_displayId = Some d,
                   o_data = Some (inlineTextOrEmpty C k2), o_artifactId = None,
                   o_mimeType = Some m2, o_metadata = None, o_representations = Some R2 \<rparr>]\<rparr>)) \<and>
   (selectPrimaryRepresentation R3 DEFAULT_PREFERRED_MIME_TYPES = Some (m3, k3) \<longrightarrow>
      applyEvent C (MultimediaDisplayOutputUpdated d R3) s =
        Some (s\<lparr>outputs :=
                map (\<lambda>r. if o_displayId r = Some d \<and> o_outputType r = multimedia_display
                          then r\<lparr>o_data := Some (inlineTextOrEmpty C k3), o_mimeType := Some m3,
                                 o_representations := Some R3\<rparr>
                          else r)
                  (outputs s)\<rparr>)) \<and>
   (selectPrimaryRepresentation R DEFAULT_PREFERRED_MIME_TYPES = None \<longrightarrow>
      applyEvent C (MultimediaDisplayOutputUpdated d R) s = Some s \<and>
      (pendingClearFor s c = None \<and> (\<forall>r \<in> set (outputs s). o_id r \<noteq> n) \<longrightarrow>
         applyEvent C (MultimediaDisplayOutputAdded n c pos R (Some d)) s =
           Some (s\<lparr>outputs := outputs s @
                   [\<lparr> o_id = n, o_cellId = c, o_outputType = multimedia_display, o_position = pos,
                      o_streamName = None, o_executionCount = None,
                      o_displayId = (if d = [] then None else Some d),
                      o_data = Some [], o_artifactId = None, o_mimeType = Some ''text/plain'',
                      o_metadata = None, o_representations = Some R \<rparr>]\<rparr>)))"
proof (intro conjI impI)
  assume h: "d \<noteq> [] \<and> selectPrimaryRepresentation R2 DEFAULT_PREFERRED_MIME_TYPES = Some (m2, k2) \<and>
    pendingClearFor s c = None \<and> (\<forall>r \<in> set (outputs s). o_id r \<noteq> n)"
  let ?upd = "\<lambda>r. if o_displayId r = Some d \<and> o_outputType r = multimedia_display
                          then r\<lparr>o_data := Some (inlineTextOrEmpty C k2), o_mimeType := Some m2,
                                 o_representations := Some R2\<rparr>
                          else r"
  from h have sel: "selectPrimaryRepresentation R2 DEFAULT_PREFERRED_MIME_TYPES = Some (m2, k2)"
    and np: "pendingClearOps s c = []" and d: "d \<noteq> []"
    by (simp_all add: pendingClearOps_none)
  from h have "\<forall>r \<in> set (outputs s). o_id (?upd r) \<noteq> n" by simp
  from filter_id_absent [of "outputs s" o_id ?upd n, OF this]
  have fl: "filter (\<lambda>r. o_id r \<noteq> n) (map ?upd (outputs s)) = map ?upd (outputs s)" .
  show "applyEvent C (MultimediaDisplayOutputAdded n c pos R2 (Some d)) s =
        Some (s\<lparr>outputs := map ?upd (outputs s) @
                [\<lparr> o_id = n, o_cellId = c, o_outputType = multimedia_display, o_position = pos,
                   o_streamName = None, o_executionCount = None, o_displayId = Some d,
                   o_data = Some (inlineTextOrEmpty C k2), o_artifactId = None,
                   o_mimeType = Some m2, o_metadata = None, o_representations = Some R2 \<rparr>]\<rparr>)"
    using sel np d fl applyOps_updateExistingDisplays_Some [OF sel, of C d s]
    by (simp add: applyEvent_def applyOps_append Let_def)
next
  assume sel: "selectPrimaryRepresentation R3 DEFAULT_PREFERRED_MIME_TYPES = Some (m3, k3)"
  from applyOps_updateExistingDisplays_Some [OF sel, of C d s]
  show "applyEvent C (MultimediaDisplayOutputUpdated d R3) s =
        Some (s\<lparr>outputs :=
                map (\<lambda>r. if o_displayId r = Some d \<and> o_outputType r = multimedia_display
                          then r\<lparr>o_data := Some (inlineTextOrEmpty C k3), o_mimeType := Some m3,
                                 o_representations := Some R3\<rparr>
                          else r)
                  (outputs s)\<rparr>)"
    by (simp add: applyEvent_def)
next
  assume sel: "selectPrimaryRepresentation R DEFAULT_PREFERRED_MIME_TYPES = None"
  from updateExistingDisplays_None [OF sel]
  show "applyEvent C (MultimediaDisplayOutputUpdated d R) s = Some s"
    by (simp add: applyEvent_def)
next
  assume sel: "selectPrimaryRepresentation R DEFAULT_PREFERRED_MIME_TYPES = None"
    and h: "pendingClearFor s c = None \<and> (\<forall>r \<in> set (outputs s). o_id r \<noteq> n)"
  from h have np: "pendingClearOps s c = []" by (simp add: pendingClearOps_none)
  from h have fl: "filter (\<lambda>r. o_id r \<noteq> n) (outputs s) = outputs s" by (simp add: filter_id_conv)
  show "applyEvent C (MultimediaDisplayOutputAdded n c pos R (Some d)) s =
           Some (s\<lparr>outputs := outputs s @
                   [\<lparr> o_id = n, o_cellId = c, o_outputType = multimedia_display, o_position = pos,
                      o_streamName = None, o_executionCount = None,
                      o_displayId = (if d = [] then None else Some d),
                      o_data = Some [], o_artifactId = None, o_mimeType = Some ''text/plain'',
                      o_metadata = None, o_representations = Some R \<rparr>]\<rparr>)"
    using sel np fl updateExistingDisplays_None [OF sel, of C d s]
    by (simp add: applyEvent_def applyOps_append Let_def)
qed

text \<open>
  The theorem on a state with one display output \<open>o1\<close> of display id \<open>d\<close>: after the add
  of \<open>o2\<close> there are two rows and both carry the new representations; the update that
  follows rewrites both and adds none.
\<close>

theorem display_id_update_semantics_witness:
  "''d'' \<noteq> [] \<and>
   selectPrimaryRepresentation [(''text/plain'', Inline ''two'' None)] DEFAULT_PREFERRED_MIME_TYPES =
     Some (''text/plain'', Inline ''two'' None) \<and>
   pendingClearFor
     \<lparr> outputs =
         [\<lparr> o_id = ''o1'', o_cellId = ''c1'', o_outputType = multimedia_display, o_position = 0,
            o_streamName = None, o_executionCount = None, o_displayId = Some ''d'',
            o_data = Some ''one'', o_artifactId = None, o_mimeType = Some ''text/plain'',
            o_metadata = None,
            o_representations = Some [(''text/plain'', Inline ''one'' None)] \<rparr>],
       pendingClears = [], outputDeltas = [], presence = [] \<rparr> ''c1'' = None \<and>
   applyEvent stringPayload
     (MultimediaDisplayOutputAdded ''o2'' ''c1'' 1 [(''text/plain'', Inline ''two'' None)] (Some ''d''))
     \<lparr> outputs =
         [\<lparr> o_id = ''o1'', o_cellId = ''c1'', o_outputType = multimedia_display, o_position = 0,
            o_streamName = None, o_executionCount = None, o_displayId = Some ''d'',
            o_data = Some ''one'', o_artifactId = None, o_mimeType = Some ''text/plain'',
            o_metadata = None,
            o_representations = Some [(''text/plain'', Inline ''one'' None)] \<rparr>],
       pendingClears = [], outputDeltas = [], presence = [] \<rparr> =
     Some
       \<lparr> outputs =
           [\<lparr> o_id = ''o1'', o_cellId = ''c1'', o_outputType = multimedia_display, o_position = 0,
              o_streamName = None, o_executionCount = None, o_displayId = Some ''d'',
              o_data = Some ''two'', o_artifactId = None, o_mimeType = Some ''text/plain'',
              o_metadata = None,
              o_representations = Some [(''text/plain'', Inline ''two'' None)] \<rparr>,
            \<lparr> o_id = ''o2'', o_cellId = ''c1'', o_outputType = multimedia_display, o_position = 1,
              o_streamName = None, o_executionCount = None, o_displayId = Some ''d'',
              o_data = Some ''two'', o_artifactId = None, o_mimeType = Some ''text/plain'',
              o_metadata = None,
              o_representations = Some [(''text/plain'', Inline ''two'' None)] \<rparr>],
         pendingClears = [], outputDeltas = [], presence = [] \<rparr> \<and>
   applyEvent stringPayload
     (MultimediaDisplayOutputUpdated ''d'' [(''text/plain'', Inline ''three'' None)])
     \<lparr> outputs =
               [\<lparr> o_id = ''o1'', o_cellId = ''c1'', o_outputType = multimedia_display, o_position = 0,
                  o_streamName = None, o_executionCount = None, o_displayId = Some ''d'',
                  o_data = Some ''two'', o_artifactId = None, o_mimeType = Some ''text/plain'',
                  o_metadata = None,
                  o_representations = Some [(''text/plain'', Inline ''two'' None)] \<rparr>,
                \<lparr> o_id = ''o2'', o_cellId = ''c1'', o_outputType = multimedia_display, o_position = 1,
                  o_streamName = None, o_executionCount = None, o_displayId = Some ''d'',
                  o_data = Some ''two'', o_artifactId = None, o_mimeType = Some ''text/plain'',
                  o_metadata = None,
                  o_representations = Some [(''text/plain'', Inline ''two'' None)] \<rparr>],
             pendingClears = [], outputDeltas = [], presence = [] \<rparr> =
     Some
       \<lparr> outputs =
             [\<lparr> o_id = ''o1'', o_cellId = ''c1'', o_outputType = multimedia_display, o_position = 0,
                o_streamName = None, o_executionCount = None, o_displayId = Some ''d'',
                o_data = Some ''three'', o_artifactId = None, o_mimeType = Some ''text/plain'',
                o_metadata = None,
                o_representations = Some [(''text/plain'', Inline ''three'' None)] \<rparr>,
              \<lparr> o_id = ''o2'', o_cellId = ''c1'', o_outputType = multimedia_display, o_position = 1,
                o_streamName = None, o_executionCount = None, o_displayId = Some ''d'',
                o_data = Some ''three'', o_artifactId = None, o_mimeType = Some ''text/plain'',
                o_metadata = None,
                o_representations = Some [(''text/plain'', Inline ''three'' None)] \<rparr>],
           pendingClears = [], outputDeltas = [], presence = [] \<rparr>"
proof -
  let ?s = "\<lparr> outputs =
         [\<lparr> o_id = ''o1'', o_cellId = ''c1'', o_outputType = multimedia_display, o_position = 0,
            o_streamName = None, o_executionCount = None, o_displayId = Some ''d'',
            o_data = Some ''one'', o_artifactId = None, o_mimeType = Some ''text/plain'',
            o_metadata = None,
            o_representations = Some [(''text/plain'', Inline ''one'' None)] \<rparr>],
       pendingClears = [], outputDeltas = [], presence = [] \<rparr> :: string State"
  have a: "''d'' \<noteq> []" by simp
  have b: "selectPrimaryRepresentation [(''text/plain'', Inline ''two'' None)] DEFAULT_PREFERRED_MIME_TYPES =
     Some (''text/plain'', Inline (''two'' :: string) None)"
    by (simp add: DEFAULT_PREFERRED_MIME_TYPES_def)
  have c: "pendingClearFor ?s ''c1'' = None" by (simp add: pendingClearFor_def)
  have e: "\<forall>r \<in> set (outputs ?s). o_id r \<noteq> ''o2''" by simp
  note t = display_id_update_semantics
      [where d = "''d''" and ?R2.0 = "[(''text/plain'', Inline ''two'' None)]"
         and ?m2.0 = "''text/plain''" and ?k2.0 = "Inline ''two'' None" and s = ?s and c = "''c1''"
         and n = "''o2''" and C = stringPayload and pos = 1,
       THEN conjunct1, THEN mp, OF conjI [OF a conjI [OF b conjI [OF c e]]]]
  have b3: "selectPrimaryRepresentation [(''text/plain'', Inline ''three'' None)] DEFAULT_PREFERRED_MIME_TYPES =
     Some (''text/plain'', Inline (''three'' :: string) None)"
    by (simp add: DEFAULT_PREFERRED_MIME_TYPES_def)
  note u = display_id_update_semantics
      [where d = "''d''" and ?R3.0 = "[(''text/plain'', Inline ''three'' None)]"
         and ?m3.0 = "''text/plain''" and ?k3.0 = "Inline ''three'' None" and C = stringPayload
         and s = "\<lparr> outputs =
               [\<lparr> o_id = ''o1'', o_cellId = ''c1'', o_outputType = multimedia_display, o_position = 0,
                  o_streamName = None, o_executionCount = None, o_displayId = Some ''d'',
                  o_data = Some ''two'', o_artifactId = None, o_mimeType = Some ''text/plain'',
                  o_metadata = None,
                  o_representations = Some [(''text/plain'', Inline ''two'' None)] \<rparr>,
                \<lparr> o_id = ''o2'', o_cellId = ''c1'', o_outputType = multimedia_display, o_position = 1,
                  o_streamName = None, o_executionCount = None, o_displayId = Some ''d'',
                  o_data = Some ''two'', o_artifactId = None, o_mimeType = Some ''text/plain'',
                  o_metadata = None,
                  o_representations = Some [(''text/plain'', Inline ''two'' None)] \<rparr>],
             pendingClears = [], outputDeltas = [], presence = [] \<rparr>",
       THEN conjunct2, THEN conjunct1, THEN mp, OF b3]
  from a b c t u show ?thesis by (simp add: stringPayload_def)
qed

text \<open>
  The claim as first stated fails when the new representations have no MIME type of the
  priority list: the existing row \<open>o1\<close> keeps its representations.
\<close>

theorem display_id_unrecognised_mime_counterexample:
  "applyEvent stringPayload
     (MultimediaDisplayOutputAdded ''o2'' ''c1'' 1 [(''application/x-custom'', Inline ''two'' None)] (Some ''d''))
     \<lparr> outputs =
         [\<lparr> o_id = ''o1'', o_cellId = ''c1'', o_outputType = multimedia_display, o_position = 0,
            o_streamName = None, o_executionCount = None, o_displayId = Some ''d'',
            o_data = Some ''one'', o_artifactId = None, o_mimeType = Some ''text/plain'',
            o_metadata = None,
            o_representations = Some [(''text/plain'', Inline ''one'' None)] \<rparr>],
       pendingClears = [], outputDeltas = [], presence = [] \<rparr> =
     Some
       \<lparr> outputs =
           [\<lparr> o_id = ''o1'', o_cellId = ''c1'', o_outputType = multimedia_display, o_position = 0,
              o_streamName = None, o_executionCount = None, o_displayId = Some ''d'',
              o_data = Some ''one'', o_artifactId = None, o_mimeType = Some ''text/plain'',
              o_metadata = None,
              o_representations = Some [(''text/plain'', Inline ''one'' None)] \<rparr>,
            \<lparr> o_id = ''o2'', o_cellId = ''c1'', o_outputType = multimedia_display, o_position = 1,
              o_streamName = None, o_executionCount = None, o_displayId = Some ''d'',
              o_data = Some [], o_artifactId = None, o_mimeType = Some ''text/plain'',
              o_metadata = None,
              o_representations = Some [(''application/x-custom'', Inline ''two'' None)] \<rparr>],
         pendingClears = [], outputDeltas = [], presence = [] \<rparr>"
  by (simp add: applyEvent_def updateExistingDisplays_def pendingClearOps_def pendingClearFor_def
        DEFAULT_PREFERRED_MIME_TYPES_def Let_def)

end
